(* ===== verification/Prelude.thy ===== *)
theory Prelude
  imports Main "HOL-Library.Word"
begin

text \<open>
  Shared vocabulary of the development: the machine types of the Go code
  (bytes, \<open>int64\<close>), the error values every fallible call returns, the
  combinators that thread a Go \<open>(value, error)\<close> pair through a function
  body, the pointer semantics of \<open>big.Int\<close> values, the decimal rendering
  \<open>big.Int.String\<close>, and the storage-batch interface that records are
  persisted into. Generic lemmas on these are declared \<open>simp\<close> or collected
  in \<open>result_simps\<close>, so that the component theories unfold a handler with
  \<open>simp add: result_simps\<close>.
\<close>

named_theorems result_simps "rewriting of result combinators"

unbundle bit_operations_syntax

section \<open>Machine types\<close>

type_synonym byte = "8 word"
type_synonym bytes = "byte list"
type_synonym int64 = "64 word"
type_synonym uint64 = "64 word"

text \<open>
  A content identifier is represented by its canonical string form, so that
  \<open>cid.String()\<close> is the identity and equality of CIDs is equality of strings.
\<close>

type_synonym cid = string

definition bytes_of :: "string \<Rightarrow> bytes" where
  "bytes_of s = map (\<lambda>c. word_of_nat (of_char c)) s"

section \<open>Errors and results\<close>

text \<open>
  \<open>ErrWrapped msg e\<close> is \<open>xerrors.Errorf("msg: %w", e)\<close>; \<open>ErrExternal\<close>
  is an error value produced by a collaborator or a caller-supplied callback,
  passed on unchanged; \<open>ErrMulti\<close> is the \<open>cli.MultiError\<close> that joins an
  action's error with the error of its \<open>After\<close> hook.
\<close>

datatype error =
    ErrNotFound cid
  | ErrDecode string
  | ErrAddress string
  | ErrUnsupportedActorVersion cid
  | ErrSchemaUnsupported string
  | ErrPanic string
  | ErrExternal string
  | ErrWrapped string error
  | ErrMulti "error list"

type_synonym 'a result = "error + 'a"

definition bindE :: "'a result \<Rightarrow> ('a \<Rightarrow> 'b result) \<Rightarrow> 'b result" where
  "bindE m f = (case m of Inl e \<Rightarrow> Inl e | Inr x \<Rightarrow> f x)"

definition wrapE :: "string \<Rightarrow> 'a result \<Rightarrow> 'a result" where
  "wrapE msg m = (case m of Inl e \<Rightarrow> Inl (ErrWrapped msg e) | Inr x \<Rightarrow> Inr x)"

lemma bindE_Inl [simp]: "bindE (Inl e) f = Inl e"
  by (simp add: bindE_def)

lemma bindE_Inr [simp]: "bindE (Inr x) f = f x"
  by (simp add: bindE_def)

lemma wrapE_Inl [simp]: "wrapE msg (Inl e) = Inl (ErrWrapped msg e)"
  by (simp add: wrapE_def)

lemma wrapE_Inr [simp]: "wrapE msg (Inr x) = Inr x"
  by (simp add: wrapE_def)

lemma bindE_Inr_right [simp]: "bindE m Inr = m"
  by (cases m) auto

lemma bindE_eq_Inr_iff [result_simps]:
  "bindE m f = Inr y \<longleftrightarrow> (\<exists>x. m = Inr x \<and> f x = Inr y)"
  by (cases m) auto

lemma bindE_eq_Inl_iff [result_simps]:
  "bindE m f = Inl e \<longleftrightarrow> m = Inl e \<or> (\<exists>x. m = Inr x \<and> f x = Inl e)"
  by (cases m) auto

lemma wrapE_eq_Inr_iff [result_simps]: "wrapE msg m = Inr x \<longleftrightarrow> m = Inr x"
  by (cases m) auto

lemma wrapE_eq_Inl_iff [result_simps]:
  "wrapE msg m = Inl e \<longleftrightarrow> (\<exists>e'. m = Inl e' \<and> e = ErrWrapped msg e')"
  by (cases m) auto

lemma map_sum_eq_Inr_iff [result_simps]:
  "map_sum id f m = Inr y \<longleftrightarrow> (\<exists>x. m = Inr x \<and> y = f x)"
  by (cases m) auto

lemma map_sum_eq_Inl_iff [result_simps]:
  "map_sum id f m = Inl e \<longleftrightarrow> m = Inl e"
  by (cases m) auto

lemma bindE_assoc [result_simps]: "bindE (bindE m f) g = bindE m (\<lambda>x. bindE (f x) g)"
  by (cases m) auto

section \<open>big.Int values\<close>

text \<open>
  \<open>abi.TokenAmount\<close> and \<open>abi.StoragePower\<close> are \<open>big.Int\<close>, a struct holding a
  single \<open>*big.Int\<close> pointer. A value is the address of its pointee and the
  integer stored there. Go's \<open>==\<close> on such structs compares the pointers;
  \<open>big.Int.Equals\<close> compares the integers.
\<close>

record big_Int =
  bi_ptr :: nat
  bi_val :: int

definition big_Int_go_eq :: "big_Int \<Rightarrow> big_Int \<Rightarrow> bool" where
  "big_Int_go_eq a b \<longleftrightarrow> bi_ptr a = bi_ptr b"

definition big_Int_Equals :: "big_Int \<Rightarrow> big_Int \<Rightarrow> bool" where
  "big_Int_Equals a b \<longleftrightarrow> bi_val a = bi_val b"

subsection \<open>Decimal rendering\<close>

fun nat_digits :: "nat \<Rightarrow> string" where
  "nat_digits n =
     (if n < 10 then [char_of (48 + n)]
      else nat_digits (n div 10) @ [char_of (48 + n mod 10)])"

declare nat_digits.simps [simp del]

text \<open>\<open>big.Int.String()\<close>: base 10, with a leading minus sign for negative values.\<close>

definition big_String :: "int \<Rightarrow> string" where
  "big_String i =
     (if i < 0 then CHR ''-'' # nat_digits (nat (- i)) else nat_digits (nat i))"

text \<open>
  The reading of a \<open>numeric\<close> column, used to state that rendering loses no
  information: it is the left inverse of \<open>big_String\<close>.
\<close>

fun digits_val :: "string \<Rightarrow> nat \<Rightarrow> nat option" where
  "digits_val [] acc = Some acc"
| "digits_val (c # cs) acc =
     (let d = (of_char c :: nat) in
      if 48 \<le> d \<and> d < 58 then digits_val cs (10 * acc + (d - 48)) else None)"

definition parse_numeric :: "string \<Rightarrow> int option" where
  "parse_numeric s =
     (case s of
        [] \<Rightarrow> None
      | c # cs \<Rightarrow>
          if c = CHR ''-'' then (if cs = [] then None else map_option (\<lambda>n. - int n) (digits_val cs 0))
          else map_option int (digits_val s 0))"

section \<open>Persisting records\<close>

text \<open>
  \<open>model.Version\<close> of the storage layer, and the storage batch: the
  \<open>PersistModel\<close> calls made so far, in order. A batch call either records
  one model value or, for a list, the whole list as one value.
\<close>

record Version =
  Major :: int
  Minor :: int

type_synonym 'm StorageBatch = "'m list"

definition PersistModel :: "'m StorageBatch \<Rightarrow> 'm \<Rightarrow> 'm StorageBatch result" where
  "PersistModel s m = Inr (s @ [m])"

text \<open>
  The fallback path of a record list's \<open>Persist\<close> for legacy schemas: each
  element is persisted on its own, in order, and the first error is returned.
\<close>

fun persist_each :: "('a \<Rightarrow> 's \<Rightarrow> 's result) \<Rightarrow> 'a list \<Rightarrow> 's \<Rightarrow> 's result" where
  "persist_each p [] s = Inr s"
| "persist_each p (m # ms) s = bindE (p m s) (persist_each p ms)"

text \<open>
  A fallible map over a list, in order, returning the first error: the
  reference form of a loop that appends one value per element.
\<close>

fun mapE :: "('a \<Rightarrow> 'b result) \<Rightarrow> 'a list \<Rightarrow> 'b list result" where
  "mapE f [] = Inr []"
| "mapE f (x # xs) = bindE (f x) (\<lambda>y. bindE (mapE f xs) (\<lambda>ys. Inr (y # ys)))"

lemma PersistModel_Inr [simp]: "PersistModel s m = Inr (s @ [m])"
  by (simp add: PersistModel_def)

section \<open>Shared lemmas\<close>

lemma mapE_eq_Inr_iff [result_simps]: "mapE f xs = Inr ys \<longleftrightarrow> list_all2 (\<lambda>x y. f x = Inr y) xs ys"
proof (induction xs arbitrary: ys)
  case (Cons x xs)
  then show ?case by (cases ys) (auto simp: result_simps)
qed auto

lemma list_all2_map_eq:
  "list_all2 P xs ys \<Longrightarrow> (\<And>x y. P x y \<Longrightarrow> f y = g x) \<Longrightarrow> map f ys = map g xs"
  by (induction xs ys rule: list_all2_induct) auto

lemma list_all2_in_set1: "list_all2 P xs ys \<Longrightarrow> x \<in> set xs \<Longrightarrow> \<exists>y \<in> set ys. P x y"
  by (induction xs ys rule: list_all2_induct) auto

lemma list_all2_in_set2: "list_all2 P xs ys \<Longrightarrow> y \<in> set ys \<Longrightarrow> \<exists>x \<in> set xs. P x y"
  by (induction xs ys rule: list_all2_induct) auto

lemma ball_less_notin: "\<forall>x \<in> S. (k::'a::order) < x \<Longrightarrow> k \<notin> S"
  by (metis less_irrefl)

subsection \<open>Decimal rendering\<close>

lemma nat_digits_not_Nil [simp]: "nat_digits n \<noteq> []"
  by (subst nat_digits.simps) simp

lemma of_char_digit [simp]: "d < 10 \<Longrightarrow> of_char (char_of (48 + d) :: char) = (48 + d :: nat)"
  by simp

lemma digits_val_append:
  "digits_val (xs @ ys) acc = Option.bind (digits_val xs acc) (digits_val ys)"
  by (induction xs acc rule: digits_val.induct) (auto simp: Let_def)

lemma digits_val_nat_digits:
  "digits_val (nat_digits n) acc = Some (acc * 10 ^ length (nat_digits n) + n)"
proof (induction n arbitrary: acc rule: nat_digits.induct)
  case (1 n)
  show ?case
  proof (cases "n < 10")
    case True
    then show ?thesis by (simp add: nat_digits.simps [of n])
  next
    case False
    have "n = 10 * (n div 10) + n mod 10" by simp
    with False "1.IH" show ?thesis
      by (simp add: nat_digits.simps [of n] digits_val_append algebra_simps)
  qed
qed

lemma digit_char_not_minus: "(d::nat) < 10 \<Longrightarrow> char_of (48 + d) \<noteq> CHR ''-''"
proof
  assume "d < 10" and eq: "char_of (48 + d) = CHR ''-''"
  then have "(48 + d :: nat) = of_char (CHR ''-'')"
    by (metis of_char_digit)
  then show False by simp
qed

lemma nat_digits_hd_not_minus: "hd (nat_digits n) \<noteq> CHR ''-''"
proof (induction n rule: nat_digits.induct)
  case (1 n)
  show ?case
  proof (cases "n < 10")
    case True
    then show ?thesis by (simp add: nat_digits.simps [of n] digit_char_not_minus)
  next
    case False
    with "1.IH" show ?thesis by (simp add: nat_digits.simps [of n])
  qed
qed

text \<open>The ten digit characters, so that \<open>simp\<close> renders numerals through \<open>nat_digits.simps\<close>.\<close>

lemma digit_chars:
  "char_of (48::nat) = CHR ''0''" "char_of (49::nat) = CHR ''1''" "char_of (50::nat) = CHR ''2''"
  "char_of (51::nat) = CHR ''3''" "char_of (52::nat) = CHR ''4''" "char_of (53::nat) = CHR ''5''"
  "char_of (54::nat) = CHR ''6''" "char_of (55::nat) = CHR ''7''" "char_of (56::nat) = CHR ''8''"
  "char_of (57::nat) = CHR ''9''"
  by (simp_all add: char_of_def bit_0)

lemmas decimal_eval = big_String_def nat_digits.simps digit_chars

lemma parse_numeric_nat_digits: "parse_numeric (nat_digits m) = Some (int m)"
proof -
  obtain c cs where cs: "nat_digits m = c # cs"
    by (cases "nat_digits m") auto
  then have "c \<noteq> CHR ''-''" using nat_digits_hd_not_minus [of m] by simp
  with cs have "parse_numeric (nat_digits m) = map_option int (digits_val (nat_digits m) 0)"
    by (simp add: parse_numeric_def)
  then show ?thesis by (simp add: digits_val_nat_digits)
qed

lemma parse_numeric_big_String [simp]: "parse_numeric (big_String i) = Some i"
proof (cases "i < 0")
  case True
  then show ?thesis
    by (simp add: big_String_def parse_numeric_def digits_val_nat_digits)
next
  case False
  then show ?thesis by (simp add: big_String_def parse_numeric_nat_digits)
qed

lemma big_String_inj: "big_String a = big_String b \<longleftrightarrow> a = b"
  by (metis option.inject parse_numeric_big_String)

lemma persist_each_models:
  assumes "\<forall>m \<in> set ms. \<exists>x. f m = Some x"
    and "\<And>m s. p m s = (case f m of None \<Rightarrow> Inl err | Some x \<Rightarrow> PersistModel s x)"
  shows "persist_each p ms s = Inr (s @ map (\<lambda>m. the (f m)) ms)"
  using assms(1)
proof (induction ms arbitrary: s)
  case Nil
  then show ?case by simp
next
  case (Cons m ms)
  then obtain x where "f m = Some x" by auto
  with Cons show ?case by (simp add: assms(2))
qed

lemma persist_each_first_fails:
  assumes "\<And>s. p m s = Inl e"
  shows "persist_each p (m # ms) s = Inl e"
  by (simp add: assms)

end
