(* ===== verification/Chain.thy ===== *)
theory Chain
  imports Prelude
begin

text \<open>
  The chain-side collaborators of the extraction core, modelled from the
  specification (they are not part of \<open>src/\<close>): tipsets, actors and their
  addresses, the content-addressed store (\<open>adt.Store.Get\<close>), the state loader
  that dispatches on an actor's code identifier to one protocol-version
  decoder (\<open>market.Load\<close>, \<open>reward.Load\<close>, \<open>miner.Load\<close>), and the heap of
  loaded states. Each call of a loader creates a new Go object; the heap
  records these objects so that pointer identity between the \<open>PrevState\<close> and
  \<open>CurrState\<close> of an extraction context is a comparison of references.
\<close>

section \<open>Tipsets, actors, addresses\<close>

record TipSet =
  ts_Height :: int64
  ts_Key :: string
  ts_ParentState :: cid

record Actor =
  act_Code :: cid
  act_Head :: cid

text \<open>
  \<open>address.Address\<close>: a protocol byte and a payload; \<open>Bytes()\<close> is the
  protocol byte followed by the payload, and \<open>abi.AddrKey\<close> is that byte
  string used as a map key.
\<close>

datatype Address = Address (addr_protocol: byte) (addr_payload: bytes)

definition Address_Bytes :: "Address \<Rightarrow> bytes" where
  "Address_Bytes a = addr_protocol a # addr_payload a"

fun uvarint :: "bytes \<Rightarrow> (nat \<times> nat) option" where
  "uvarint [] = None"
| "uvarint (b # bs) =
     (if b < 0x80 then Some (unat b, 1)
      else (case uvarint bs of
              None \<Rightarrow> None
            | Some (v, n) \<Rightarrow> Some (unat (b AND 0x7F) + 128 * v, Suc n)))"

text \<open>
  \<open>address.NewFromBytes\<close>: the protocols ID (0), SECP256K1 (1), Actor (2) and
  BLS (3) with their payload checks; any other protocol byte is unknown.
\<close>

definition NewFromBytes :: "bytes \<Rightarrow> Address result" where
  "NewFromBytes raw =
     (case raw of
        [] \<Rightarrow> Inl (ErrAddress ''unknown address protocol'')
      | p # payload \<Rightarrow>
          if p = 0 then
            (case uvarint payload of
               None \<Rightarrow> Inl (ErrAddress ''invalid address payload'')
             | Some (v, n) \<Rightarrow>
                 if n \<noteq> length payload then Inl (ErrAddress ''different varint length'')
                 else if 2 ^ 63 \<le> v then Inl (ErrAddress ''id addresses must be less than 2^63'')
                 else Inr (Address p payload))
          else if p = 1 \<or> p = 2 then
            (if length payload = 20 then Inr (Address p payload)
             else Inl (ErrAddress ''invalid address payload''))
          else if p = 3 then
            (if length payload = 48 then Inr (Address p payload)
             else Inl (ErrAddress ''invalid address payload''))
          else Inl (ErrAddress ''unknown address protocol''))"

text \<open>
  \<open>Address.String()\<close> on the main network: \<open>f\<close>, the protocol digit, and for
  ID addresses the decimal identifier. For the other protocols the payload is
  rendered digit by digit in hexadecimal in place of the library's base32
  with checksum; only the injectivity of the rendering is used.
\<close>

definition hex_digit :: "nat \<Rightarrow> char" where
  "hex_digit d = (if d < 10 then char_of (48 + d) else char_of (87 + d))"

definition Address_String :: "Address \<Rightarrow> string" where
  "Address_String a =
     CHR ''f'' # char_of (48 + unat (addr_protocol a)) #
       (if addr_protocol a = 0
        then (case uvarint (addr_payload a) of Some (v, _) \<Rightarrow> nat_digits v | None \<Rightarrow> [])
        else concat (map (\<lambda>b. [hex_digit (unat b div 16), hex_digit (unat b mod 16)]) (addr_payload a)))"

text \<open>
  \<open>ActorInfo\<close>: the actor being extracted, its address, and the tipsets it is
  extracted at. The extractors of \<open>src/\<close> come from two generations of the
  code base and read different fields: the newer ones \<open>Current\<close> and
  \<open>Executed\<close>, the older ones \<open>TipSet\<close> and \<open>ParentStateRoot\<close>.
\<close>

record ActorInfo =
  ai_Actor :: Actor
  ai_Address :: Address
  ai_Current :: TipSet
  ai_Executed :: TipSet
  ai_TipSet :: TipSet
  ai_ParentStateRoot :: cid

text \<open>The smoothed estimate of the reward and power actors, \<open>builtin.FilterEstimate\<close> (\<open>smoothing.FilterEstimate\<close>).\<close>

record FilterEstimate =
  fe_PositionEstimate :: int
  fe_VelocityEstimate :: int

section \<open>Store and loader\<close>

type_synonym 'blk Store = "cid \<Rightarrow> 'blk option"

text \<open>\<open>store.Get(ctx, c, &out)\<close>: fetch the block and decode it into the type of \<open>out\<close>.\<close>

definition store_Get :: "('blk \<Rightarrow> 'a option) \<Rightarrow> 'blk Store \<Rightarrow> cid \<Rightarrow> 'a result" where
  "store_Get dec st c =
     (case st c of
        None \<Rightarrow> Inl (ErrNotFound c)
      | Some b \<Rightarrow> (case dec b of None \<Rightarrow> Inl (ErrDecode c) | Some x \<Rightarrow> Inr x))"

text \<open>
  The static registry from code identifiers to protocol versions, and one
  decoder per version.
\<close>

record ('blk, 'st) Loader =
  ld_version :: "cid \<Rightarrow> nat option"
  ld_decode :: "nat \<Rightarrow> 'blk \<Rightarrow> 'st option"

definition Load :: "('blk, 'st) Loader \<Rightarrow> 'blk Store \<Rightarrow> Actor \<Rightarrow> 'st result" where
  "Load ld st act =
     (case ld_version ld (act_Code act) of
        None \<Rightarrow> Inl (ErrUnsupportedActorVersion (act_Code act))
      | Some v \<Rightarrow> store_Get (ld_decode ld v) st (act_Head act))"

text \<open>
  The chain-state lookup of the node (\<open>ActorStateAPI\<close>): the actor at an
  address in the state of a tipset, by tipset key (\<open>Actor\<close>) or by tipset
  (\<open>StateGetActor\<close>), and the store.
\<close>

record 'blk ActorStateAPI =
  node_Actor :: "Address \<Rightarrow> string \<Rightarrow> Actor result"
  node_StateGetActor :: "Address \<Rightarrow> TipSet \<Rightarrow> Actor result"
  node_Store :: "'blk Store"

section \<open>The heap of loaded states\<close>

type_synonym ref = nat
type_synonym 'st Heap = "'st list"

definition heap_alloc :: "'st \<Rightarrow> 'st Heap \<Rightarrow> ref \<times> 'st Heap" where
  "heap_alloc x h = (length h, h @ [x])"

definition present :: "'st Heap \<Rightarrow> ref \<Rightarrow> bool" where
  "present h r \<longleftrightarrow> r < length h"

text \<open>Loading a state allocates a new object for it.\<close>

definition LoadRef ::
  "('blk, 'st) Loader \<Rightarrow> 'blk Store \<Rightarrow> Actor \<Rightarrow> 'st Heap \<Rightarrow> (ref \<times> 'st Heap) result" where
  "LoadRef ld st act h = bindE (Load ld st act) (\<lambda>s. Inr (heap_alloc s h))"

text \<open>
  The genesis invariant of an extraction context (specification, section 3):
  both references are live objects, the previous state is the current one
  exactly at height 0, and at height 0 the previous tipset is the current one.
\<close>

definition genesis_inv :: "'st Heap \<Rightarrow> ref \<Rightarrow> ref \<Rightarrow> TipSet \<Rightarrow> TipSet \<Rightarrow> bool" where
  "genesis_inv h p c pts cts \<longleftrightarrow>
     present h p \<and> present h c \<and>
     (p = c \<longleftrightarrow> ts_Height cts = 0) \<and>
     (ts_Height cts = 0 \<longrightarrow> pts = cts)"

section \<open>Example inputs\<close>

text \<open>A tipset at height \<open>n\<close> with a key and a state root derived from \<open>n\<close>, for witnesses.\<close>

definition ex_tipset :: "int64 \<Rightarrow> TipSet" where
  "ex_tipset n = \<lparr>ts_Height = n, ts_Key = ''tsk'' @ nat_digits (unat n),
                  ts_ParentState = ''bafyroot'' @ nat_digits (unat n)\<rparr>"

section \<open>Lemmas\<close>

lemma LoadRef_eq_Inr_iff [result_simps]:
  "LoadRef ld st act h = Inr (r, h') \<longleftrightarrow>
     (\<exists>s. Load ld st act = Inr s \<and> r = length h \<and> h' = h @ [s])"
  by (cases "Load ld st act") (auto simp: LoadRef_def heap_alloc_def)

lemma LoadRef_eq_Inl_iff [result_simps]:
  "LoadRef ld st act h = Inl e \<longleftrightarrow> Load ld st act = Inl e"
  by (cases "Load ld st act") (auto simp: LoadRef_def heap_alloc_def)

lemma present_append [simp]: "present (h @ xs) r \<longleftrightarrow> r < length h + length xs"
  by (simp add: present_def)

lemma fresh_not_present [simp]: "\<not> present h (length h)"
  by (simp add: present_def)

lemma nth_heap_append [simp]: "present h r \<Longrightarrow> (h @ xs) ! r = h ! r"
  by (simp add: present_def nth_append)

lemma Address_Bytes_inj: "Address_Bytes a = Address_Bytes b \<longleftrightarrow> a = b"
  by (cases a; cases b) (simp add: Address_Bytes_def)

lemma NewFromBytes_Bytes:
  assumes "NewFromBytes raw = Inr a"
  shows "Address_Bytes a = raw"
  using assms
  by (auto simp: NewFromBytes_def Address_Bytes_def split: list.splits option.splits if_splits prod.splits)

lemma genesis_inv_genesis:
  "present h c \<Longrightarrow> ts_Height ts = 0 \<Longrightarrow> genesis_inv h c c ts ts"
  by (simp add: genesis_inv_def)

lemma genesis_inv_loaded:
  "present h c \<Longrightarrow> ts_Height ts \<noteq> 0 \<Longrightarrow> genesis_inv (h @ [x]) (length h) c pts ts"
  by (auto simp: genesis_inv_def present_def)

lemma genesis_inv_extend:
  "genesis_inv h p c pts ts \<Longrightarrow> genesis_inv (h @ xs) p c pts ts"
  by (simp add: genesis_inv_def present_def)

lemma genesis_inv_same_iff:
  "genesis_inv h p c pts ts \<Longrightarrow> p = c \<longleftrightarrow> ts_Height ts = 0"
  by (simp add: genesis_inv_def)

end
