(* ===== verification/Diff.thy ===== *)
theory Diff
  imports Prelude
begin

text \<open>
  The differencing engine of the specification (section 4.3), which the
  extractors call through \<open>GetPreCommitDiff\<close>: two keyed collections, each
  a root identifier and its entries in key order with their values still
  encoded, are compared. Equal roots short-circuit to the empty diff;
  otherwise a merge-style co-traversal decodes every entry it visits and
  classifies each key as added, removed or modified, comparing decoded
  values. A decode failure aborts the whole diff. The reference definition
  \<open>entry_of\<close> says, key by key, which entry the diff must report.
\<close>

section \<open>Collections and diff entries\<close>

record ('k, 'r) Collection =
  coll_root :: cid
  coll_entries :: "('k \<times> 'r) list"

datatype ('k, 'v) DiffEntry = Added 'k 'v | Removed 'k | Modified 'k 'v 'v

primrec entry_key :: "('k, 'v) DiffEntry \<Rightarrow> 'k" where
  "entry_key (Added k v) = k"
| "entry_key (Removed k) = k"
| "entry_key (Modified k x y) = k"

definition decodeE :: "('r \<Rightarrow> 'v option) \<Rightarrow> 'r \<Rightarrow> 'v result" where
  "decodeE dec r = (case dec r of None \<Rightarrow> Inl (ErrDecode ''diff entry'') | Some v \<Rightarrow> Inr v)"

section \<open>The co-traversal\<close>

fun diff_merge ::
  "('r \<Rightarrow> 'v option) \<Rightarrow> ('k::linorder \<times> 'r) list \<Rightarrow> ('k \<times> 'r) list \<Rightarrow> ('k, 'v) DiffEntry list result" where
  "diff_merge dec [] [] = Inr []"
| "diff_merge dec ((k, r) # xs) [] =
     bindE (decodeE dec r) (\<lambda>_. map_sum id (Cons (Removed k)) (diff_merge dec xs []))"
| "diff_merge dec [] ((k, r) # ys) =
     bindE (decodeE dec r) (\<lambda>v. map_sum id (Cons (Added k v)) (diff_merge dec [] ys))"
| "diff_merge dec ((k1, r1) # xs) ((k2, r2) # ys) =
     (if k1 < k2 then
        bindE (decodeE dec r1) (\<lambda>_. map_sum id (Cons (Removed k1)) (diff_merge dec xs ((k2, r2) # ys)))
      else if k2 < k1 then
        bindE (decodeE dec r2) (\<lambda>v2. map_sum id (Cons (Added k2 v2)) (diff_merge dec ((k1, r1) # xs) ys))
      else
        bindE (decodeE dec r1) (\<lambda>v1. bindE (decodeE dec r2) (\<lambda>v2.
          map_sum id (\<lambda>rest. if v1 = v2 then rest else Modified k1 v1 v2 # rest)
            (diff_merge dec xs ys))))"

definition Diff ::
  "('r \<Rightarrow> 'v option) \<Rightarrow> ('k::linorder, 'r) Collection \<Rightarrow> ('k, 'r) Collection \<Rightarrow> ('k, 'v) DiffEntry list result" where
  "Diff dec a b =
     (if coll_root a = coll_root b then Inr [] else diff_merge dec (coll_entries a) (coll_entries b))"

section \<open>Reference semantics\<close>

text \<open>Decoding a whole collection, and the entry the diff owes for one key.\<close>

fun decode_all :: "('r \<Rightarrow> 'v option) \<Rightarrow> ('k \<times> 'r) list \<Rightarrow> ('k \<times> 'v) list result" where
  "decode_all dec [] = Inr []"
| "decode_all dec ((k, r) # xs) =
     bindE (decodeE dec r) (\<lambda>v. map_sum id (Cons (k, v)) (decode_all dec xs))"

definition entry_of :: "('k \<rightharpoonup> 'v) \<Rightarrow> ('k \<rightharpoonup> 'v) \<Rightarrow> 'k \<Rightarrow> ('k, 'v) DiffEntry list" where
  "entry_of a b k =
     (case (a k, b k) of
        (None, None) \<Rightarrow> []
      | (None, Some v) \<Rightarrow> [Added k v]
      | (Some x, None) \<Rightarrow> [Removed k]
      | (Some x, Some y) \<Rightarrow> if x = y then [] else [Modified k x y])"

text \<open>A collection is well formed when its keys are strictly increasing.\<close>

definition coll_wf :: "('k::linorder, 'r) Collection \<Rightarrow> bool" where
  "coll_wf c \<longleftrightarrow> sorted_wrt (<) (map fst (coll_entries c))"

text \<open>Applying a diff to the decoded map of the old collection.\<close>

primrec apply_entry :: "('k \<rightharpoonup> 'v) \<Rightarrow> ('k, 'v) DiffEntry \<Rightarrow> ('k \<rightharpoonup> 'v)" where
  "apply_entry m (Added k v) = m(k \<mapsto> v)"
| "apply_entry m (Removed k) = m(k := None)"
| "apply_entry m (Modified k x y) = m(k \<mapsto> y)"

definition apply_diff :: "('k \<rightharpoonup> 'v) \<Rightarrow> ('k, 'v) DiffEntry list \<Rightarrow> ('k \<rightharpoonup> 'v)" where
  "apply_diff m es = foldl apply_entry m es"

text \<open>The additions of a diff with their keys, and the removed keys, in diff order.\<close>

fun added_pairs :: "('k, 'v) DiffEntry list \<Rightarrow> ('k \<times> 'v) list" where
  "added_pairs [] = []"
| "added_pairs (Added k v # es) = (k, v) # added_pairs es"
| "added_pairs (_ # es) = added_pairs es"

fun removed_keys :: "('k, 'v) DiffEntry list \<Rightarrow> 'k list" where
  "removed_keys [] = []"
| "removed_keys (Removed k # es) = k # removed_keys es"
| "removed_keys (_ # es) = removed_keys es"

text \<open>
  Content addressing: two collections with the same root identifier have the
  same entries.
\<close>

definition content_addressed :: "('k, 'r) Collection \<Rightarrow> ('k, 'r) Collection \<Rightarrow> bool" where
  "content_addressed a b \<longleftrightarrow> (coll_root a = coll_root b \<longrightarrow> coll_entries a = coll_entries b)"

text \<open>
  A list of entries is a correct diff of two decoded collections when its keys
  are strictly increasing and, for every key, it holds exactly the entries
  \<open>entry_of\<close> prescribes.
\<close>

definition diff_ok :: "('k::linorder, 'v) DiffEntry list \<Rightarrow> ('k \<times> 'v) list \<Rightarrow> ('k \<times> 'v) list \<Rightarrow> bool" where
  "diff_ok es as bs \<longleftrightarrow>
     sorted_wrt (<) (map entry_key es) \<and>
     (\<forall>k. filter (\<lambda>e. entry_key e = k) es = entry_of (map_of as) (map_of bs) k)"

section \<open>Lemmas\<close>

lemma decodeE_eq_Inr_iff [result_simps]: "decodeE dec r = Inr v \<longleftrightarrow> dec r = Some v"
  by (simp add: decodeE_def split: option.splits)

lemma decode_all_keys:
  "decode_all dec xs = Inr as \<Longrightarrow> map fst as = map fst xs"
  by (induction dec xs arbitrary: as rule: decode_all.induct)
     (auto simp: bindE_eq_Inr_iff map_sum_eq_Inr_iff decodeE_eq_Inr_iff)

lemma decode_all_Cons_Inr:
  "decode_all dec ((k, r) # xs) = Inr as \<longleftrightarrow>
     (\<exists>v as'. dec r = Some v \<and> decode_all dec xs = Inr as' \<and> as = (k, v) # as')"
  by (cases "decode_all dec xs") (auto simp: decodeE_def split: option.splits)

lemma map_of_notin_keys: "k \<notin> set (map fst xs) \<Longrightarrow> map_of xs k = None"
  by (simp add: map_of_eq_None_iff)

lemma entry_of_upd_other:
  "k \<noteq> k' \<Longrightarrow> entry_of (a(k' := x)) (b(k' := y)) k = entry_of a b k"
  by (simp add: entry_of_def)

text \<open>The keys a diff reports come from the two collections.\<close>

lemma diff_merge_keys:
  "diff_merge dec xs ys = Inr es \<Longrightarrow> set (map entry_key es) \<subseteq> set (map fst xs) \<union> set (map fst ys)"
proof (induction dec xs ys arbitrary: es rule: diff_merge.induct)
  case (1 dec)
  then show ?case by simp
next
  case (2 dec k r xs)
  then obtain v es' where "decodeE dec r = Inr v" and rest: "diff_merge dec xs [] = Inr es'"
      and "es = Removed k # es'"
    by (auto simp: bindE_eq_Inr_iff map_sum_eq_Inr_iff)
  with "2.IH" [OF rest] show ?case by auto
next
  case (3 dec k r ys)
  then obtain v es' where "decodeE dec r = Inr v" and rest: "diff_merge dec [] ys = Inr es'"
      and "es = Added k v # es'"
    by (auto simp: bindE_eq_Inr_iff map_sum_eq_Inr_iff)
  with "3.IH" [OF rest] show ?case by auto
next
  case (4 dec k1 r1 xs k2 r2 ys)
  show ?case
  proof (cases "k1 < k2")
    case True
    with "4.prems" obtain es' where "diff_merge dec xs ((k2, r2) # ys) = Inr es'" and "es = Removed k1 # es'"
      by (auto simp: bindE_eq_Inr_iff map_sum_eq_Inr_iff)
    with True "4.IH"(1) [OF True] show ?thesis by auto
  next
    case False
    note nlt = False
    show ?thesis
    proof (cases "k2 < k1")
      case True
      with nlt "4.prems" obtain v es' where "diff_merge dec ((k1, r1) # xs) ys = Inr es'" and "es = Added k2 v # es'"
        by (auto simp: bindE_eq_Inr_iff map_sum_eq_Inr_iff)
      with nlt True "4.IH"(2) [OF nlt True] show ?thesis by auto
    next
      case False
      with nlt "4.prems" obtain v1 v2 es' where rest: "diff_merge dec xs ys = Inr es'"
          and es: "es = (if v1 = v2 then es' else Modified k1 v1 v2 # es')"
        by (auto simp: bindE_eq_Inr_iff map_sum_eq_Inr_iff)
      from nlt False have "k1 = k2" by simp
      with rest es nlt False "4.IH"(3) [OF nlt False] show ?thesis by (auto split: if_splits)
    qed
  qed
qed

lemma diff_merge_keys_above:
  assumes "diff_merge dec xs ys = Inr es"
    and "\<forall>k' \<in> set (map fst xs). k < k'" and "\<forall>k' \<in> set (map fst ys). k < k'"
  shows "\<forall>k' \<in> set (map entry_key es). k < k'"
  using diff_merge_keys [OF assms(1)] assms(2,3) by blast

lemma filter_key_none:
  assumes "\<forall>k' \<in> set (map entry_key es). (k::'k::linorder) < k'"
  shows "filter (\<lambda>e. entry_key e = k) es = []"
  using assms
  by (metis (mono_tags, lifting) ball_less_notin filter_False image_eqI list.set_map)

lemma diff_ok_Nil: "diff_ok [] [] []"
  by (simp add: diff_ok_def entry_of_def)

lemma diff_ok_Removed:
  assumes "diff_ok es as bs" and "map_of bs k1 = None"
    and "\<forall>k' \<in> set (map entry_key es). k1 < k'"
  shows "diff_ok (Removed k1 # es) ((k1, v1) # as) bs"
  using assms filter_key_none [OF assms(3)]
  by (auto simp: diff_ok_def entry_of_def)

lemma diff_ok_Added:
  assumes "diff_ok es as bs" and "map_of as k2 = None"
    and "\<forall>k' \<in> set (map entry_key es). k2 < k'"
  shows "diff_ok (Added k2 v2 # es) as ((k2, v2) # bs)"
  using assms filter_key_none [OF assms(3)]
  by (auto simp: diff_ok_def entry_of_def)

lemma diff_ok_Same:
  assumes "diff_ok es as bs" and "\<forall>k' \<in> set (map entry_key es). k < k'"
  shows "diff_ok (if v1 = v2 then es else Modified k v1 v2 # es) ((k, v1) # as) ((k, v2) # bs)"
  using assms filter_key_none [OF assms(2)]
  by (auto simp: diff_ok_def entry_of_def)

lemma sorted_keys_Cons:
  "sorted_wrt (<) (map fst ((k, r) # xs)) \<longleftrightarrow>
     sorted_wrt (<) (map fst xs) \<and> (\<forall>k' \<in> set (map fst xs). k < k')"
  by auto

lemma decoded_key_none:
  assumes "decode_all dec ys = Inr bs" and "\<forall>k' \<in> set (map fst ys). (k::'k::linorder) < k'"
  shows "map_of bs k = None"
proof -
  have "map fst bs = map fst ys" using assms(1) by (rule decode_all_keys)
  then have "set (map fst bs) = set (map fst ys)" by simp
  with ball_less_notin [OF assms(2)] have "k \<notin> set (map fst bs)" by simp
  then show ?thesis by (rule map_of_notin_keys)
qed

text \<open>
  The co-traversal is correct on well-formed, fully decodable collections: it
  succeeds, and its result is a correct diff of the decoded entries.
\<close>

lemma diff_merge_correct:
  assumes "sorted_wrt (<) (map fst xs)" and "sorted_wrt (<) (map fst ys)"
    and "decode_all dec xs = Inr as" and "decode_all dec ys = Inr bs"
  shows "\<exists>es. diff_merge dec xs ys = Inr es \<and> diff_ok es as bs"
  using assms
proof (induction dec xs ys arbitrary: as bs rule: diff_merge.induct)
  case (1 dec)
  then show ?case by (simp add: diff_ok_Nil)
next
  case (2 dec k r xs)
  from "2.prems"(3) [unfolded decode_all_Cons_Inr] obtain v as' where d: "dec r = Some v"
      and das: "decode_all dec xs = Inr as'" and as: "as = (k, v) # as'"
    by blast
  from "2.prems"(4) have bs: "bs = []" by simp
  from "2.prems"(1) have sx: "sorted_wrt (<) (map fst xs)" and gt: "\<forall>k' \<in> set (map fst xs). k < k'"
    unfolding sorted_keys_Cons by blast+
  from "2.IH" [OF sx _ das] bs obtain es' where rec: "diff_merge dec xs [] = Inr es'"
      and ok: "diff_ok es' as' []"
    by auto
  have "\<forall>k' \<in> set (map entry_key es'). k < k'"
    using diff_merge_keys_above [OF rec gt] by simp
  from diff_ok_Removed [OF ok _ this] have "diff_ok (Removed k # es') as bs"
    by (simp add: as bs)
  with d rec show ?case by (simp add: decodeE_def)
next
  case (3 dec k r ys)
  from "3.prems"(4) [unfolded decode_all_Cons_Inr] obtain v bs' where d: "dec r = Some v"
      and dbs: "decode_all dec ys = Inr bs'" and bs: "bs = (k, v) # bs'"
    by blast
  from "3.prems"(3) have as: "as = []" by simp
  from "3.prems"(2) have sy: "sorted_wrt (<) (map fst ys)" and gt: "\<forall>k' \<in> set (map fst ys). k < k'"
    unfolding sorted_keys_Cons by blast+
  from "3.IH" [OF _ sy _ dbs] as obtain es' where rec: "diff_merge dec [] ys = Inr es'"
      and ok: "diff_ok es' [] bs'"
    by auto
  have "\<forall>k' \<in> set (map entry_key es'). k < k'"
    using diff_merge_keys_above [OF rec _ gt] by simp
  from diff_ok_Added [OF ok _ this] have "diff_ok (Added k v # es') as bs"
    by (simp add: as bs)
  with d rec show ?case by (simp add: decodeE_def)
next
  case (4 dec k1 r1 xs k2 r2 ys)
  from "4.prems"(3) [unfolded decode_all_Cons_Inr] obtain v1 as' where d1: "dec r1 = Some v1"
      and das: "decode_all dec xs = Inr as'" and as: "as = (k1, v1) # as'"
    by blast
  from "4.prems"(4) [unfolded decode_all_Cons_Inr] obtain v2 bs' where d2: "dec r2 = Some v2"
      and dbs: "decode_all dec ys = Inr bs'" and bs: "bs = (k2, v2) # bs'"
    by blast
  from "4.prems"(1) have sx: "sorted_wrt (<) (map fst xs)" and gx: "\<forall>k' \<in> set (map fst xs). k1 < k'"
    unfolding sorted_keys_Cons by blast+
  from "4.prems"(2) have sy: "sorted_wrt (<) (map fst ys)" and gy: "\<forall>k' \<in> set (map fst ys). k2 < k'"
    unfolding sorted_keys_Cons by blast+
  show ?case
  proof (cases "k1 < k2")
    case True
    from "4.IH"(1) [OF True sx "4.prems"(2) das "4.prems"(4)] obtain es'
      where rec: "diff_merge dec xs ((k2, r2) # ys) = Inr es'" and ok: "diff_ok es' as' bs"
      by auto
    have gy': "\<forall>k' \<in> set (map fst ((k2, r2) # ys)). k1 < k'"
      using True gy by auto
    have "\<forall>k' \<in> set (map entry_key es'). k1 < k'"
      using diff_merge_keys_above [OF rec gx gy'] .
    with ok decoded_key_none [OF "4.prems"(4) gy'] have "diff_ok (Removed k1 # es') as bs"
      unfolding as by (rule diff_ok_Removed)
    with True d1 rec show ?thesis by (simp add: decodeE_def)
  next
    case False
    note nlt = False
    show ?thesis
    proof (cases "k2 < k1")
      case True
      from "4.IH"(2) [OF nlt True "4.prems"(1) sy "4.prems"(3) dbs] obtain es'
        where rec: "diff_merge dec ((k1, r1) # xs) ys = Inr es'" and ok: "diff_ok es' as bs'"
        by auto
      have gx': "\<forall>k' \<in> set (map fst ((k1, r1) # xs)). k2 < k'"
        using True gx by auto
      have "\<forall>k' \<in> set (map entry_key es'). k2 < k'"
        using diff_merge_keys_above [OF rec gx' gy] .
      with ok decoded_key_none [OF "4.prems"(3) gx'] have "diff_ok (Added k2 v2 # es') as bs"
        unfolding bs by (rule diff_ok_Added)
      with nlt True d2 rec show ?thesis by (simp add: decodeE_def)
    next
      case False
      with nlt have eq: "k1 = k2" by simp
      from "4.IH"(3) [OF nlt False sx sy das dbs] obtain es'
        where rec: "diff_merge dec xs ys = Inr es'" and ok: "diff_ok es' as' bs'"
        by auto
      have "\<forall>k' \<in> set (map entry_key es'). k1 < k'"
        using diff_merge_keys_above [OF rec gx] gy eq by simp
      from diff_ok_Same [OF ok this]
      have "diff_ok (if v1 = v2 then es' else Modified k1 v1 v2 # es') as bs"
        by (simp add: as bs eq)
      with nlt False eq d1 d2 rec show ?thesis by (simp add: decodeE_def split: if_splits)
    qed
  qed
qed

text \<open>The engine as a whole, short-circuit included.\<close>

lemma diff_ok_same: "diff_ok [] as as"
  by (simp add: diff_ok_def entry_of_def split: option.splits)

lemma Diff_correct:
  assumes "coll_wf a" and "coll_wf b" and "content_addressed a b"
    and "decode_all dec (coll_entries a) = Inr as" and "decode_all dec (coll_entries b) = Inr bs"
  shows "\<exists>es. Diff dec a b = Inr es \<and> diff_ok es as bs"
proof (cases "coll_root a = coll_root b")
  case True
  with assms(3) have "coll_entries a = coll_entries b" by (simp add: content_addressed_def)
  with assms(4,5) have "as = bs" by simp
  with True show ?thesis by (simp add: Diff_def diff_ok_same)
next
  case False
  with diff_merge_correct [OF assms(1,2) [unfolded coll_wf_def] assms(4,5)] show ?thesis
    by (simp add: Diff_def)
qed

text \<open>A decode failure anywhere aborts the co-traversal.\<close>

lemma diff_merge_Inl:
  assumes "(\<exists>e. decode_all dec xs = Inl e) \<or> (\<exists>e. decode_all dec ys = Inl e)"
  shows "\<exists>e. diff_merge dec xs ys = Inl e"
  using assms
proof (induction dec xs ys rule: diff_merge.induct)
  case (4 dec k1 r1 xs k2 r2 ys)
  then show ?case
    by (cases "dec r1"; cases "dec r2")
       (auto simp: decodeE_def map_sum_eq_Inl_iff bindE_eq_Inr_iff map_sum_eq_Inr_iff split: if_splits)
qed (auto simp: decodeE_def map_sum_eq_Inl_iff bindE_eq_Inr_iff map_sum_eq_Inr_iff split: option.splits)

text \<open>Lists with strictly increasing keys are determined by their sets.\<close>

lemma list_of_keys_map_of:
  assumes "distinct (map fst xs)"
  shows "map (\<lambda>k. (k, the (map_of xs k))) (map fst xs) = xs"
proof -
  have "\<forall>p \<in> set xs. (fst p, the (map_of xs (fst p))) = p"
    using assms by (auto simp: map_of_is_SomeI)
  then show ?thesis by (simp add: map_idI comp_def)
qed

lemma strict_keys_unique:
  assumes "sorted_wrt (<) (map fst (xs :: ('k::linorder \<times> 'v) list))" and "sorted_wrt (<) (map fst ys)" and "set xs = set ys"
  shows "xs = ys"
proof -
  have dx: "distinct (map fst xs)" and dy: "distinct (map fst ys)"
    using assms(1,2) by (simp_all add: strict_sorted_iff)
  have "set (map fst xs) = set (map fst ys)" using assms(3) by simp
  with assms(1,2) have keys: "map fst xs = map fst ys"
    by (simp add: strict_sorted_iff sorted_distinct_set_unique)
  have "map_of xs = map_of ys" using dx dy assms(3) by (simp add: map_of_inject_set)
  then show ?thesis
    using list_of_keys_map_of [OF dx] list_of_keys_map_of [OF dy] keys by metis
qed

lemma set_added_pairs: "(k, v) \<in> set (added_pairs es) \<longleftrightarrow> Added k v \<in> set es"
  by (induction es rule: added_pairs.induct) auto

lemma added_pairs_keys: "set (map fst (added_pairs es)) \<subseteq> set (map entry_key es)"
  by (induction es rule: added_pairs.induct) auto

lemma sorted_added_pairs:
  "sorted_wrt (<) (map entry_key es) \<Longrightarrow> sorted_wrt (<) (map fst (added_pairs (es :: ('k::linorder, 'v) DiffEntry list)))"
proof (induction es rule: added_pairs.induct)
  case (2 k v es)
  then show ?case using added_pairs_keys [of es] by auto
qed auto

lemma diff_ok_member:
  "diff_ok es as bs \<Longrightarrow> e \<in> set es \<longleftrightarrow> e \<in> set (entry_of (map_of as) (map_of bs) (entry_key e))"
proof -
  assume ok: "diff_ok es as bs"
  have "e \<in> set es \<longleftrightarrow> e \<in> set (filter (\<lambda>e'. entry_key e' = entry_key e) es)" by simp
  also have "\<dots> \<longleftrightarrow> e \<in> set (entry_of (map_of as) (map_of bs) (entry_key e))"
    using ok by (simp add: diff_ok_def)
  finally show ?thesis .
qed

text \<open>
  The additions of a correct diff are the new collection's entries whose keys
  the old one lacks, in key order.
\<close>

lemma added_pairs_diff_ok:
  assumes ok: "diff_ok es as bs" and sb: "sorted_wrt (<) (map fst (bs :: ('k::linorder \<times> 'v) list))"
  shows "added_pairs es = filter (\<lambda>(k, v). map_of as k = None) bs"
proof (rule strict_keys_unique)
  show "sorted_wrt (<) (map fst (added_pairs es))"
    using ok by (simp add: diff_ok_def sorted_added_pairs)
  show "sorted_wrt (<) (map fst (filter (\<lambda>(k, v). map_of as k = None) bs))"
    using sb by (simp add: sorted_wrt_map sorted_wrt_filter)
  have db: "distinct (map fst bs)" using sb by (simp add: strict_sorted_iff)
  show "set (added_pairs es) = set (filter (\<lambda>(k, v). map_of as k = None) bs)"
  proof (intro set_eqI, clarify)
    fix k v
    have "(k, v) \<in> set (added_pairs es) \<longleftrightarrow> Added k v \<in> set (entry_of (map_of as) (map_of bs) k)"
      using diff_ok_member [OF ok, of "Added k v"] by (simp add: set_added_pairs)
    also have "\<dots> \<longleftrightarrow> map_of as k = None \<and> map_of bs k = Some v"
      by (auto simp: entry_of_def split: option.splits if_splits)
    also have "\<dots> \<longleftrightarrow> (k, v) \<in> set (filter (\<lambda>(k, v). map_of as k = None) bs)"
      using db by auto
    finally show "(k, v) \<in> set (added_pairs es) \<longleftrightarrow> (k, v) \<in> set (filter (\<lambda>(k, v). map_of as k = None) bs)" .
  qed
qed

end
