(* ===== verification/MinerContext.thy ===== *)
theory MinerContext
  imports Chain Diff
begin

text \<open>
  The miner-actor side of extraction, modelled from the specification
  (sections 3, 4.2 and 4.4): the capability interface of a loaded miner state
  that the miner extractors of \<open>src/\<close> call (\<open>FeeDebt\<close> and the pre-commit
  collection), the \<open>MinerStateExtractionContext\<close> built like the market
  context of \<open>src/tasks/actorstate/market/market.go\<close>, its
  \<open>HasPreviousState\<close> test, and \<open>GetPreCommitDiff\<close>, which runs the
  differencing engine over the pre-commit collections of the two states.
\<close>

section \<open>Pre-commit records of a miner state\<close>

record SectorPreCommitInfo =
  spi_SectorNumber :: uint64
  spi_SealedCID :: cid
  spi_SealRandEpoch :: int64
  spi_Expiration :: int64
  spi_ReplaceCapacity :: bool
  spi_ReplaceSectorDeadline :: uint64
  spi_ReplaceSectorPartition :: uint64
  spi_ReplaceSectorNumber :: uint64

record SectorPreCommitOnChainInfo =
  pco_Info :: SectorPreCommitInfo
  pco_PreCommitDeposit :: int
  pco_PreCommitEpoch :: int64
  pco_DealWeight :: int
  pco_VerifiedDealWeight :: int

section \<open>The miner state interface\<close>

text \<open>
  The capability methods of \<open>miner.State\<close> the extractors use, over the
  decoded state type \<open>'st\<close> of any protocol version: the fee debt, and the
  pre-commit collection keyed by sector number with its values still encoded
  (\<open>'r\<close>) together with their decoder.
\<close>

record ('st, 'r) MinerStateAPI =
  ms_FeeDebt :: "'st \<Rightarrow> int result"
  ms_PreCommits :: "'st \<Rightarrow> (uint64, 'r) Collection result"
  ms_decodePreCommit :: "'r \<Rightarrow> SectorPreCommitOnChainInfo option"

text \<open>
  \<open>FeeDebt()\<close> returns the state's \<open>FeeDebt\<close> field, a \<open>big.Int\<close> whose pointee
  was allocated when that state object was decoded: its address is the
  reference of the object.
\<close>

definition FeeDebt_at :: "('st, 'r) MinerStateAPI \<Rightarrow> 'st Heap \<Rightarrow> ref \<Rightarrow> big_Int result" where
  "FeeDebt_at api h r = map_sum id (\<lambda>v. \<lparr>bi_ptr = r, bi_val = v\<rparr>) (ms_FeeDebt api (h ! r))"

section \<open>The extraction context\<close>

record 'blk MinerStateExtractionContext =
  mc_PrevState :: ref
  mc_PrevTs :: TipSet
  mc_CurrActor :: Actor
  mc_CurrState :: ref
  mc_CurrTs :: TipSet
  mc_Address :: Address
  mc_Store :: "'blk Store"

definition NewMinerStateExtractionContext ::
  "('blk, 'st) Loader \<Rightarrow> 'blk ActorStateAPI \<Rightarrow> ActorInfo \<Rightarrow> 'st Heap \<Rightarrow>
     ('blk MinerStateExtractionContext \<times> 'st Heap) result" where
  "NewMinerStateExtractionContext ld node a h =
     bindE (wrapE ''loading current miner state'' (LoadRef ld (node_Store node) (ai_Actor a) h))
       (\<lambda>(cur, h1).
          let mk = (\<lambda>prv pts. \<lparr>mc_PrevState = prv, mc_PrevTs = pts, mc_CurrActor = ai_Actor a,
                               mc_CurrState = cur, mc_CurrTs = ai_Current a,
                               mc_Address = ai_Address a, mc_Store = node_Store node\<rparr>)
          in if ts_Height (ai_Current a) = 0 then Inr (mk cur (ai_Current a), h1)
          else
            bindE (wrapE ''loading previous miner actor''
                     (node_Actor node (ai_Address a) (ts_Key (ai_Executed a))))
              (\<lambda>prevActor.
                 bindE (wrapE ''loading previous miner state'' (LoadRef ld (node_Store node) prevActor h1))
                   (\<lambda>(prv, h2). Inr (mk prv (ai_Executed a), h2))))"

definition HasPreviousState :: "'blk MinerStateExtractionContext \<Rightarrow> bool" where
  "HasPreviousState ec \<longleftrightarrow> mc_PrevState ec \<noteq> mc_CurrState ec"

definition MinerContext_wf :: "'st Heap \<Rightarrow> 'blk MinerStateExtractionContext \<Rightarrow> bool" where
  "MinerContext_wf h ec \<longleftrightarrow>
     genesis_inv h (mc_PrevState ec) (mc_CurrState ec) (mc_PrevTs ec) (mc_CurrTs ec)"

section \<open>Pre-commit changes\<close>

record PreCommitChanges =
  pcc_Added :: "SectorPreCommitOnChainInfo list"
  pcc_Removed :: "uint64 list"

definition GetPreCommitDiff ::
  "('st, 'r) MinerStateAPI \<Rightarrow> 'st Heap \<Rightarrow> 'blk MinerStateExtractionContext \<Rightarrow> PreCommitChanges result" where
  "GetPreCommitDiff api h ec =
     bindE (ms_PreCommits api (h ! mc_PrevState ec)) (\<lambda>pre.
     bindE (ms_PreCommits api (h ! mc_CurrState ec)) (\<lambda>cur.
     bindE (Diff (ms_decodePreCommit api) pre cur) (\<lambda>es.
       Inr \<lparr>pcc_Added = map snd (added_pairs es), pcc_Removed = removed_keys es\<rparr>)))"

section \<open>Example inputs\<close>

text \<open>
  Concrete inputs for the witnesses of the miner extractors: a decoded miner
  state is its fee debt and its pre-commit collection, stored unencoded.
\<close>

type_synonym ex_miner_state = "int \<times> (uint64, SectorPreCommitOnChainInfo) Collection"

definition ex_miner_api :: "(ex_miner_state, SectorPreCommitOnChainInfo) MinerStateAPI" where
  "ex_miner_api = \<lparr>ms_FeeDebt = (\<lambda>s. Inr (fst s)), ms_PreCommits = (\<lambda>s. Inr (snd s)),
                    ms_decodePreCommit = Some\<rparr>"

definition ex_no_precommits :: "(uint64, SectorPreCommitOnChainInfo) Collection" where
  "ex_no_precommits = \<lparr>coll_root = ''bafyempty'', coll_entries = []\<rparr>"

definition ex_precommit :: "uint64 \<Rightarrow> SectorPreCommitOnChainInfo" where
  "ex_precommit n =
     \<lparr>pco_Info = \<lparr>spi_SectorNumber = n, spi_SealedCID = ''bagboea'' @ nat_digits (unat n),
                   spi_SealRandEpoch = 100, spi_Expiration = 200000, spi_ReplaceCapacity = False,
                   spi_ReplaceSectorDeadline = 0, spi_ReplaceSectorPartition = 0, spi_ReplaceSectorNumber = 0\<rparr>,
      pco_PreCommitDeposit = 1000, pco_PreCommitEpoch = 150, pco_DealWeight = 0, pco_VerifiedDealWeight = 0\<rparr>"

definition ex_miner_ctx :: "ref \<Rightarrow> ref \<Rightarrow> int64 \<Rightarrow> unit MinerStateExtractionContext" where
  "ex_miner_ctx p c n =
     \<lparr>mc_PrevState = p, mc_PrevTs = (if p = c then ex_tipset n else ex_tipset (n - 1)), mc_CurrActor = \<lparr>act_Code = ''miner'', act_Head = ''head''\<rparr>,
      mc_CurrState = c, mc_CurrTs = ex_tipset n, mc_Address = Address 0 [0xE8, 0x07], mc_Store = Map.empty\<rparr>"

section \<open>Lemmas\<close>

lemma NewMinerStateExtractionContext_wf:
  assumes "NewMinerStateExtractionContext ld node a h = Inr (ec, h')"
  shows "MinerContext_wf h' ec"
  using assms
  by (auto simp: NewMinerStateExtractionContext_def MinerContext_wf_def Let_def result_simps
      genesis_inv_def present_def split: prod.splits if_splits)

lemma HasPreviousState_iff:
  "MinerContext_wf h ec \<Longrightarrow> HasPreviousState ec \<longleftrightarrow> ts_Height (mc_CurrTs ec) \<noteq> 0"
  by (simp add: MinerContext_wf_def HasPreviousState_def genesis_inv_same_iff)

end
