(* ===== verification/FeeDebt.thy ===== *)
theory FeeDebt
  imports MinerContext
begin

text \<open>
  The miner fee-debt extractor of
  \<open>src/tasks/actorstate/miner/tasks/extractors/feedebt.go\<close>: the extractor
  \<open>ExtractMinerFeeDebt\<close>, the record \<open>MinerFeeDebt\<close> and its schema-0 shape
  \<open>MinerFeeDebtV0\<close>, the projection \<open>AsVersion\<close>, and the two \<open>Persist\<close>
  methods. The lemmas show what the extractor emits on each branch, that the
  debt column reads back as the debt, how \<open>AsVersion\<close> projects, and that the
  list's legacy persist path stores each row's projection in order.
\<close>

section \<open>Records\<close>

record MinerFeeDebt =
  mfd_Height :: int64
  mfd_MinerID :: string
  mfd_StateRoot :: string
  mfd_FeeDebt :: string

record MinerFeeDebtV0 =
  mfd0_Height :: int64
  mfd0_MinerID :: string
  mfd0_StateRoot :: string
  mfd0_FeeDebt :: string

text \<open>
  The values handed to \<open>PersistModel\<close>: a possibly nil \<open>*MinerFeeDebtV0\<close>, a
  possibly nil \<open>*MinerFeeDebt\<close>, or a whole \<open>MinerFeeDebtList\<close>.
\<close>

datatype MinerFeeDebt_model =
    MinerFeeDebtV0_model "MinerFeeDebtV0 option"
  | MinerFeeDebt_model "MinerFeeDebt option"
  | MinerFeeDebtList_model "MinerFeeDebt option list"

section \<open>Extraction\<close>

definition ExtractMinerFeeDebt ::
  "('st, 'r) MinerStateAPI \<Rightarrow> 'st Heap \<Rightarrow> 'blk MinerStateExtractionContext \<Rightarrow> MinerFeeDebt option result" where
  "ExtractMinerFeeDebt api h ec =
     bindE (wrapE ''loading current miner fee debt'' (FeeDebt_at api h (mc_CurrState ec))) (\<lambda>currDebt.
       let row = \<lparr>mfd_Height = ts_Height (mc_CurrTs ec),
                  mfd_MinerID = Address_String (mc_Address ec),
                  mfd_StateRoot = ts_ParentState (mc_CurrTs ec),
                  mfd_FeeDebt = big_String (bi_val currDebt)\<rparr>
       in if HasPreviousState ec then
            bindE (wrapE ''loading previous miner fee debt'' (FeeDebt_at api h (mc_PrevState ec)))
              (\<lambda>prevDebt. if big_Int_go_eq prevDebt currDebt then Inr None else Inr (Some row))
          else Inr (Some row))"

section \<open>Schema versions and persistence\<close>

definition MinerFeeDebt_AsVersion :: "MinerFeeDebt option \<Rightarrow> Version \<Rightarrow> MinerFeeDebt_model option" where
  "MinerFeeDebt_AsVersion m version =
     (if Major version = 0 then
        (case m of
           None \<Rightarrow> Some (MinerFeeDebtV0_model None)
         | Some r \<Rightarrow> Some (MinerFeeDebtV0_model (Some
             \<lparr>mfd0_Height = mfd_Height r, mfd0_MinerID = mfd_MinerID r,
              mfd0_StateRoot = mfd_StateRoot r, mfd0_FeeDebt = mfd_FeeDebt r\<rparr>)))
      else if Major version = 1 then Some (MinerFeeDebt_model m)
      else None)"

definition MinerFeeDebt_Persist ::
  "MinerFeeDebt option \<Rightarrow> MinerFeeDebt_model StorageBatch \<Rightarrow> Version \<Rightarrow> MinerFeeDebt_model StorageBatch result" where
  "MinerFeeDebt_Persist m s version =
     (case MinerFeeDebt_AsVersion m version of
        None \<Rightarrow> Inl (ErrSchemaUnsupported ''MinerFeeDebt not supported for schema version'')
      | Some vm \<Rightarrow> PersistModel s vm)"

definition MinerFeeDebtList_Persist ::
  "MinerFeeDebt option list \<Rightarrow> MinerFeeDebt_model StorageBatch \<Rightarrow> Version \<Rightarrow> MinerFeeDebt_model StorageBatch result" where
  "MinerFeeDebtList_Persist ml s version =
     (if length ml = 0 then Inr s
      else if Major version \<noteq> 1 then persist_each (\<lambda>m s. MinerFeeDebt_Persist m s version) ml s
      else PersistModel s (MinerFeeDebtList_model ml))"

section \<open>Lemmas\<close>

lemma FeeDebt_at_Inr [simp]:
  "ms_FeeDebt api (h ! r) = Inr d \<Longrightarrow> FeeDebt_at api h r = Inr \<lparr>bi_ptr = r, bi_val = d\<rparr>"
  by (simp add: FeeDebt_at_def)

lemma FeeDebt_at_Inl [simp]:
  "ms_FeeDebt api (h ! r) = Inl e \<Longrightarrow> FeeDebt_at api h r = Inl e"
  by (simp add: FeeDebt_at_def)

lemma MinerFeeDebt_Persist_eq:
  "MinerFeeDebt_Persist m s v =
     (case MinerFeeDebt_AsVersion m v of
        None \<Rightarrow> Inl (ErrSchemaUnsupported ''MinerFeeDebt not supported for schema version'')
      | Some x \<Rightarrow> PersistModel s x)"
  by (simp add: MinerFeeDebt_Persist_def)

lemma MinerFeeDebt_AsVersion_supported:
  "MinerFeeDebt_AsVersion m v \<noteq> None \<longleftrightarrow> Major v = 0 \<or> Major v = 1"
  by (simp add: MinerFeeDebt_AsVersion_def split: option.splits)

section \<open>Properties\<close>

text \<open>
  C6. When the context has a previous state and the fee debt is the same
  amount in both states, \<open>ExtractMinerFeeDebt\<close> still returns a record
  rather than nil: \<open>prevDebt == currDebt\<close> compares the \<open>*big.Int\<close>
  pointers of two separately decoded states, which always differ.
\<close>

theorem ExtractMinerFeeDebt_unchanged_debt_emits_row:
  assumes "MinerContext_wf h ec" and "ts_Height (mc_CurrTs ec) \<noteq> 0"
    and "ms_FeeDebt api (h ! mc_PrevState ec) = Inr d"
    and "ms_FeeDebt api (h ! mc_CurrState ec) = Inr d"
  shows "ExtractMinerFeeDebt api h ec =
           Inr (Some \<lparr>mfd_Height = ts_Height (mc_CurrTs ec), mfd_MinerID = Address_String (mc_Address ec),
                      mfd_StateRoot = ts_ParentState (mc_CurrTs ec), mfd_FeeDebt = big_String d\<rparr>)"
proof -
  have prev: "HasPreviousState ec" using assms(1,2) by (simp add: HasPreviousState_iff)
  then have "\<not> big_Int_go_eq \<lparr>bi_ptr = mc_PrevState ec, bi_val = d\<rparr> \<lparr>bi_ptr = mc_CurrState ec, bi_val = d\<rparr>"
    by (simp add: big_Int_go_eq_def HasPreviousState_def)
  with prev assms(3,4) show ?thesis by (simp add: ExtractMinerFeeDebt_def Let_def)
qed

theorem ExtractMinerFeeDebt_unchanged_debt_emits_row_witness:
  "MinerContext_wf [(0::int, ex_no_precommits), (0, ex_no_precommits)] (ex_miner_ctx 0 1 10) \<and>
   ExtractMinerFeeDebt ex_miner_api [(0, ex_no_precommits), (0, ex_no_precommits)] (ex_miner_ctx 0 1 10) =
     Inr (Some \<lparr>mfd_Height = 10, mfd_MinerID = ''f01000'', mfd_StateRoot = ''bafyroot10'', mfd_FeeDebt = ''0''\<rparr>)"
proof -
  let ?h = "[(0::int, ex_no_precommits), (0, ex_no_precommits)]"
  have wf: "MinerContext_wf ?h (ex_miner_ctx 0 1 10)"
    by (simp add: MinerContext_wf_def genesis_inv_def present_def ex_miner_ctx_def ex_tipset_def)
  have "ExtractMinerFeeDebt ex_miner_api ?h (ex_miner_ctx 0 1 10) =
          Inr (Some \<lparr>mfd_Height = ts_Height (mc_CurrTs (ex_miner_ctx 0 1 10)),
                     mfd_MinerID = Address_String (mc_Address (ex_miner_ctx 0 1 10)),
                     mfd_StateRoot = ts_ParentState (mc_CurrTs (ex_miner_ctx 0 1 10)),
                     mfd_FeeDebt = big_String 0\<rparr>)"
    by (rule ExtractMinerFeeDebt_unchanged_debt_emits_row [OF wf])
       (simp_all add: ex_miner_ctx_def ex_tipset_def ex_miner_api_def)
  also have "\<dots> = Inr (Some \<lparr>mfd_Height = 10, mfd_MinerID = ''f01000'', mfd_StateRoot = ''bafyroot10'', mfd_FeeDebt = ''0''\<rparr>)"
    by code_simp
  finally show ?thesis using wf by simp
qed

text \<open>
  C7. The extractor fails exactly when loading the current debt fails, or
  when there is a previous state and loading the previous debt fails; each
  error is the loader's error wrapped with its own message.
\<close>

theorem ExtractMinerFeeDebt_Inl_iff:
  "ExtractMinerFeeDebt api h ec = Inl e \<longleftrightarrow>
     (\<exists>e'. ms_FeeDebt api (h ! mc_CurrState ec) = Inl e' \<and> e = ErrWrapped ''loading current miner fee debt'' e') \<or>
     (HasPreviousState ec \<and> (\<exists>d. ms_FeeDebt api (h ! mc_CurrState ec) = Inr d) \<and>
      (\<exists>e'. ms_FeeDebt api (h ! mc_PrevState ec) = Inl e' \<and> e = ErrWrapped ''loading previous miner fee debt'' e'))"
  by (cases "ms_FeeDebt api (h ! mc_CurrState ec)"; cases "ms_FeeDebt api (h ! mc_PrevState ec)")
     (auto simp: ExtractMinerFeeDebt_def Let_def FeeDebt_at_def)


text \<open>
  C8. A record the extractor emits carries the current tipset's height and
  parent state root and the miner's address, and its \<open>FeeDebt\<close> column
  reads back as the current debt.
\<close>

theorem ExtractMinerFeeDebt_row_fields:
  assumes "ExtractMinerFeeDebt api h ec = Inr (Some r)"
    and "ms_FeeDebt api (h ! mc_CurrState ec) = Inr d"
  shows "parse_numeric (mfd_FeeDebt r) = Some d \<and> mfd_Height r = ts_Height (mc_CurrTs ec) \<and>
         mfd_StateRoot r = ts_ParentState (mc_CurrTs ec) \<and> mfd_MinerID r = Address_String (mc_Address ec)"
  using assms
  by (auto simp: ExtractMinerFeeDebt_def Let_def result_simps split: if_splits)

theorem ExtractMinerFeeDebt_row_fields_witness:
  "ExtractMinerFeeDebt ex_miner_api [(-5, ex_no_precommits)] (ex_miner_ctx 0 0 5) =
     Inr (Some \<lparr>mfd_Height = 5, mfd_MinerID = ''f01000'', mfd_StateRoot = ''bafyroot5'', mfd_FeeDebt = ''-5''\<rparr>) \<and>
   parse_numeric ''-5'' = Some (-5)"
proof -
  have e: "ExtractMinerFeeDebt ex_miner_api [(-5, ex_no_precommits)] (ex_miner_ctx 0 0 5) =
     Inr (Some \<lparr>mfd_Height = 5, mfd_MinerID = ''f01000'', mfd_StateRoot = ''bafyroot5'', mfd_FeeDebt = ''-5''\<rparr>)"
    by code_simp
  have "ms_FeeDebt ex_miner_api ([(-5, ex_no_precommits)] ! mc_CurrState (ex_miner_ctx 0 0 5)) = Inr (-5)"
    by (simp add: ex_miner_api_def ex_miner_ctx_def)
  from ExtractMinerFeeDebt_row_fields [OF e this] e show ?thesis by simp
qed

text \<open>
  C9. \<open>AsVersion\<close> is the identity at schema 1, maps nil to a typed nil and a
  record to the schema-0 record with the same field values at schema 0, and
  is unsupported exactly at every other major version.
\<close>

theorem MinerFeeDebt_AsVersion_projection:
  "MinerFeeDebt_AsVersion m \<lparr>Major = 1, Minor = n\<rparr> = Some (MinerFeeDebt_model m) \<and>
   MinerFeeDebt_AsVersion None \<lparr>Major = 0, Minor = n\<rparr> = Some (MinerFeeDebtV0_model None) \<and>
   MinerFeeDebt_AsVersion (Some r) \<lparr>Major = 0, Minor = n\<rparr> =
     Some (MinerFeeDebtV0_model (Some \<lparr>mfd0_Height = mfd_Height r, mfd0_MinerID = mfd_MinerID r,
                                        mfd0_StateRoot = mfd_StateRoot r, mfd0_FeeDebt = mfd_FeeDebt r\<rparr>)) \<and>
   (MinerFeeDebt_AsVersion m v = None \<longleftrightarrow> Major v \<noteq> 0 \<and> Major v \<noteq> 1)"
  by (simp add: MinerFeeDebt_AsVersion_def split: option.splits)

text \<open>
  C10. Persisting a non-empty list at a legacy schema stores, in order, each
  row's \<open>AsVersion\<close> projection (schema 0), or fails on the first row
  without storing anything (an unknown schema).
\<close>

theorem MinerFeeDebtList_Persist_legacy:
  assumes "ml \<noteq> []" and "Major v \<noteq> 1"
  shows "MinerFeeDebtList_Persist ml s v =
           (if Major v = 0 then Inr (s @ map (\<lambda>m. the (MinerFeeDebt_AsVersion m v)) ml)
            else Inl (ErrSchemaUnsupported ''MinerFeeDebt not supported for schema version''))"
proof (cases "Major v = 0")
  case True
  have "persist_each (\<lambda>m s. MinerFeeDebt_Persist m s v) ml s =
          Inr (s @ map (\<lambda>m. the (MinerFeeDebt_AsVersion m v)) ml)"
    by (rule persist_each_models) (auto simp: True MinerFeeDebt_AsVersion_def MinerFeeDebt_Persist_def split: option.splits)
  with assms True show ?thesis by (simp add: MinerFeeDebtList_Persist_def)
next
  case False
  from assms(1) obtain m ms where ml: "ml = m # ms" by (cases ml) auto
  have "\<And>s. MinerFeeDebt_Persist m s v = Inl (ErrSchemaUnsupported ''MinerFeeDebt not supported for schema version'')"
    using False assms(2) by (simp add: MinerFeeDebt_Persist_def MinerFeeDebt_AsVersion_def)
  then show ?thesis using False assms ml
    by (simp add: MinerFeeDebtList_Persist_def persist_each_first_fails)
qed

theorem MinerFeeDebtList_Persist_legacy_witness:
  "MinerFeeDebtList_Persist [Some \<lparr>mfd_Height = 7, mfd_MinerID = ''f01000'', mfd_StateRoot = ''r'', mfd_FeeDebt = ''3''\<rparr>, None]
     [] \<lparr>Major = 0, Minor = 0\<rparr> =
   Inr [MinerFeeDebtV0_model (Some \<lparr>mfd0_Height = 7, mfd0_MinerID = ''f01000'', mfd0_StateRoot = ''r'', mfd0_FeeDebt = ''3''\<rparr>),
        MinerFeeDebtV0_model None]"
  using MinerFeeDebtList_Persist_legacy
    [of "[Some \<lparr>mfd_Height = 7, mfd_MinerID = ''f01000'', mfd_StateRoot = ''r'', mfd_FeeDebt = ''3''\<rparr>, None]"
        "\<lparr>Major = 0, Minor = 0\<rparr>" "[]"]
  by (simp add: MinerFeeDebt_AsVersion_def)

end
