(* ===== verification/PreCommitInfo.thy ===== *)
theory PreCommitInfo
  imports MinerContext
begin

text \<open>
  The miner pre-commit extractor of
  \<open>src/tasks/actorstate/miner/tasks/extractors/precommitinfo.go\<close>: the extractor
  \<open>ExtractMinerPreCommitInfo\<close>, which maps each pre-commit the differencing
  engine reports as added to one record, the record \<open>MinerPreCommitInfo\<close>
  and its schema-0 shape, \<open>AsVersion\<close> and the two \<open>Persist\<close> methods. The
  lemmas show that the records are exactly the pre-commits that are new in
  the current state (none at genesis, none for removed or unchanged ones),
  that a decode failure yields no records, and how the records project and
  persist.
\<close>

section \<open>Records\<close>

record MinerPreCommitInfo =
  mpi_Height :: int64
  mpi_MinerID :: string
  mpi_SectorID :: uint64
  mpi_StateRoot :: string
  mpi_SealedCID :: string
  mpi_SealRandEpoch :: int64
  mpi_ExpirationEpoch :: int64
  mpi_PreCommitDeposit :: string
  mpi_PreCommitEpoch :: int64
  mpi_DealWeight :: string
  mpi_VerifiedDealWeight :: string
  mpi_IsReplaceCapacity :: bool
  mpi_ReplaceSectorDeadline :: uint64
  mpi_ReplaceSectorPartition :: uint64
  mpi_ReplaceSectorNumber :: uint64

record MinerPreCommitInfoV0 =
  mpi0_Height :: int64
  mpi0_MinerID :: string
  mpi0_SectorID :: uint64
  mpi0_StateRoot :: string
  mpi0_SealedCID :: string
  mpi0_SealRandEpoch :: int64
  mpi0_ExpirationEpoch :: int64
  mpi0_PreCommitDeposit :: string
  mpi0_PreCommitEpoch :: int64
  mpi0_DealWeight :: string
  mpi0_VerifiedDealWeight :: string
  mpi0_IsReplaceCapacity :: bool
  mpi0_ReplaceSectorDeadline :: uint64
  mpi0_ReplaceSectorPartition :: uint64
  mpi0_ReplaceSectorNumber :: uint64

datatype MinerPreCommitInfo_model =
    MinerPreCommitInfoV0_model "MinerPreCommitInfoV0 option"
  | MinerPreCommitInfo_model "MinerPreCommitInfo option"
  | MinerPreCommitInfoList_model "MinerPreCommitInfo option list"

section \<open>Extraction\<close>

text \<open>The record built for one added pre-commit (the body of the extractor's loop).\<close>

definition MinerPreCommitInfo_of ::
  "'blk MinerStateExtractionContext \<Rightarrow> SectorPreCommitOnChainInfo \<Rightarrow> MinerPreCommitInfo" where
  "MinerPreCommitInfo_of ec added =
     \<lparr>mpi_Height = ts_Height (mc_CurrTs ec),
      mpi_MinerID = Address_String (mc_Address ec),
      mpi_SectorID = spi_SectorNumber (pco_Info added),
      mpi_StateRoot = ts_ParentState (mc_CurrTs ec),
      mpi_SealedCID = spi_SealedCID (pco_Info added),
      mpi_SealRandEpoch = spi_SealRandEpoch (pco_Info added),
      mpi_ExpirationEpoch = spi_Expiration (pco_Info added),
      mpi_PreCommitDeposit = big_String (pco_PreCommitDeposit added),
      mpi_PreCommitEpoch = pco_PreCommitEpoch added,
      mpi_DealWeight = big_String (pco_DealWeight added),
      mpi_VerifiedDealWeight = big_String (pco_VerifiedDealWeight added),
      mpi_IsReplaceCapacity = spi_ReplaceCapacity (pco_Info added),
      mpi_ReplaceSectorDeadline = spi_ReplaceSectorDeadline (pco_Info added),
      mpi_ReplaceSectorPartition = spi_ReplaceSectorPartition (pco_Info added),
      mpi_ReplaceSectorNumber = spi_ReplaceSectorNumber (pco_Info added)\<rparr>"

text \<open>
  The result is nil (\<open>None\<close>) or a \<open>MinerPreCommitInfoList\<close>; with a previous
  state the list is returned even when it is empty.
\<close>

definition ExtractMinerPreCommitInfo ::
  "('st, 'r) MinerStateAPI \<Rightarrow> 'st Heap \<Rightarrow> 'blk MinerStateExtractionContext \<Rightarrow>
     MinerPreCommitInfo option list option result" where
  "ExtractMinerPreCommitInfo api h ec =
     (if \<not> HasPreviousState ec then Inr None
      else bindE (GetPreCommitDiff api h ec) (\<lambda>preCommitChanges.
             Inr (Some (map (\<lambda>added. Some (MinerPreCommitInfo_of ec added)) (pcc_Added preCommitChanges)))))"

section \<open>Schema versions and persistence\<close>

definition MinerPreCommitInfo_AsVersion ::
  "MinerPreCommitInfo option \<Rightarrow> Version \<Rightarrow> MinerPreCommitInfo_model option" where
  "MinerPreCommitInfo_AsVersion mpi version =
     (if Major version = 0 then
        (case mpi of
           None \<Rightarrow> Some (MinerPreCommitInfoV0_model None)
         | Some m \<Rightarrow> Some (MinerPreCommitInfoV0_model (Some
             \<lparr>mpi0_Height = mpi_Height m, mpi0_MinerID = mpi_MinerID m, mpi0_SectorID = mpi_SectorID m,
              mpi0_StateRoot = mpi_StateRoot m, mpi0_SealedCID = mpi_SealedCID m,
              mpi0_SealRandEpoch = mpi_SealRandEpoch m, mpi0_ExpirationEpoch = mpi_ExpirationEpoch m,
              mpi0_PreCommitDeposit = mpi_PreCommitDeposit m, mpi0_PreCommitEpoch = mpi_PreCommitEpoch m,
              mpi0_DealWeight = mpi_DealWeight m, mpi0_VerifiedDealWeight = mpi_VerifiedDealWeight m,
              mpi0_IsReplaceCapacity = mpi_IsReplaceCapacity m,
              mpi0_ReplaceSectorDeadline = mpi_ReplaceSectorDeadline m,
              mpi0_ReplaceSectorPartition = mpi_ReplaceSectorPartition m,
              mpi0_ReplaceSectorNumber = mpi_ReplaceSectorNumber m\<rparr>)))
      else if Major version = 1 then Some (MinerPreCommitInfo_model mpi)
      else None)"

definition MinerPreCommitInfo_Persist ::
  "MinerPreCommitInfo option \<Rightarrow> MinerPreCommitInfo_model StorageBatch \<Rightarrow> Version \<Rightarrow>
     MinerPreCommitInfo_model StorageBatch result" where
  "MinerPreCommitInfo_Persist mpi s version =
     (case MinerPreCommitInfo_AsVersion mpi version of
        None \<Rightarrow> Inl (ErrSchemaUnsupported ''MinerPreCommitInfo not supported for schema version'')
      | Some m \<Rightarrow> PersistModel s m)"

definition MinerPreCommitInfoList_Persist ::
  "MinerPreCommitInfo option list \<Rightarrow> MinerPreCommitInfo_model StorageBatch \<Rightarrow> Version \<Rightarrow>
     MinerPreCommitInfo_model StorageBatch result" where
  "MinerPreCommitInfoList_Persist ml s version =
     (if length ml = 0 then Inr s
      else if Major version \<noteq> 1 then persist_each (\<lambda>m s. MinerPreCommitInfo_Persist m s version) ml s
      else PersistModel s (MinerPreCommitInfoList_model ml))"

section \<open>Lemmas\<close>

lemma GetPreCommitDiff_added:
  assumes "ms_PreCommits api (h ! mc_PrevState ec) = Inr pre"
    and "ms_PreCommits api (h ! mc_CurrState ec) = Inr cur"
    and "coll_wf pre" and "coll_wf cur" and "content_addressed pre cur"
    and "decode_all (ms_decodePreCommit api) (coll_entries pre) = Inr as"
    and "decode_all (ms_decodePreCommit api) (coll_entries cur) = Inr bs"
  shows "\<exists>c. GetPreCommitDiff api h ec = Inr c \<and>
             pcc_Added c = map snd (filter (\<lambda>(k, v). map_of as k = None) bs)"
proof -
  obtain es where d: "Diff (ms_decodePreCommit api) pre cur = Inr es" and ok: "diff_ok es as bs"
    using Diff_correct [OF assms(3-7)] by blast
  have "map fst bs = map fst (coll_entries cur)" using assms(7) by (rule decode_all_keys)
  with assms(4) have "sorted_wrt (<) (map fst bs)" by (simp add: coll_wf_def)
  with ok have "added_pairs es = filter (\<lambda>(k, v). map_of as k = None) bs"
    by (rule added_pairs_diff_ok)
  with assms(1,2) d show ?thesis by (simp add: GetPreCommitDiff_def)
qed

lemma MinerPreCommitInfo_Persist_eq:
  "MinerPreCommitInfo_Persist m s v =
     (case MinerPreCommitInfo_AsVersion m v of
        None \<Rightarrow> Inl (ErrSchemaUnsupported ''MinerPreCommitInfo not supported for schema version'')
      | Some x \<Rightarrow> PersistModel s x)"
  by (simp add: MinerPreCommitInfo_Persist_def)

section \<open>Properties\<close>

text \<open>
  C1. With a previous state (a context built at a non-zero height) and
  well-formed, decodable pre-commit collections in both states, the extractor
  returns one record per pre-commit whose sector is absent from the previous
  state, in sector order, and no record for pre-commits that are unchanged,
  modified or removed.
\<close>

theorem ExtractMinerPreCommitInfo_added_only:
  assumes "MinerContext_wf h ec" and "ts_Height (mc_CurrTs ec) \<noteq> 0"
    and "ms_PreCommits api (h ! mc_PrevState ec) = Inr pre"
    and "ms_PreCommits api (h ! mc_CurrState ec) = Inr cur"
    and "coll_wf pre" and "coll_wf cur" and "content_addressed pre cur"
    and "decode_all (ms_decodePreCommit api) (coll_entries pre) = Inr as"
    and "decode_all (ms_decodePreCommit api) (coll_entries cur) = Inr bs"
  shows "ExtractMinerPreCommitInfo api h ec =
           Inr (Some (map (\<lambda>(k, v). Some (MinerPreCommitInfo_of ec v))
                          (filter (\<lambda>(k, v). map_of as k = None) bs)))"
proof -
  have "HasPreviousState ec" using assms(1,2) by (simp add: HasPreviousState_iff)
  moreover obtain c where "GetPreCommitDiff api h ec = Inr c"
      and "pcc_Added c = map snd (filter (\<lambda>(k, v). map_of as k = None) bs)"
    using GetPreCommitDiff_added [OF assms(3-9)] by blast
  ultimately show ?thesis
    by (simp add: ExtractMinerPreCommitInfo_def case_prod_beta comp_def)
qed

theorem ExtractMinerPreCommitInfo_added_only_witness:
  "ExtractMinerPreCommitInfo ex_miner_api
     [(0::int, \<lparr>coll_root = ''bafyprev'', coll_entries = [(3, ex_precommit 3)]\<rparr>),
      (0, \<lparr>coll_root = ''bafycurr'', coll_entries = [(3, ex_precommit 3), (5, ex_precommit 5)]\<rparr>)]
     (ex_miner_ctx 0 1 10) =
   Inr (Some [Some (MinerPreCommitInfo_of (ex_miner_ctx 0 1 10) (ex_precommit 5))])"
proof -
  let ?pre = "\<lparr>coll_root = ''bafyprev'', coll_entries = [(3::uint64, ex_precommit 3)]\<rparr>"
  let ?cur = "\<lparr>coll_root = ''bafycurr'', coll_entries = [(3::uint64, ex_precommit 3), (5, ex_precommit 5)]\<rparr>"
  let ?h = "[(0::int, ?pre), (0, ?cur)]"
  have wf: "MinerContext_wf ?h (ex_miner_ctx 0 1 10)"
    by (simp add: MinerContext_wf_def genesis_inv_def present_def ex_miner_ctx_def ex_tipset_def)
  have ht: "ts_Height (mc_CurrTs (ex_miner_ctx 0 1 10)) \<noteq> 0"
    by (simp add: ex_miner_ctx_def ex_tipset_def)
  have ca: "content_addressed ?pre ?cur" by (simp add: content_addressed_def)
  have d1: "decode_all (ms_decodePreCommit ex_miner_api) (coll_entries ?pre) = Inr [(3, ex_precommit 3)]"
    by (simp add: ex_miner_api_def decodeE_def)
  have d2: "decode_all (ms_decodePreCommit ex_miner_api) (coll_entries ?cur) =
              Inr [(3, ex_precommit 3), (5, ex_precommit 5)]"
    by (simp add: ex_miner_api_def decodeE_def)
  have "ExtractMinerPreCommitInfo ex_miner_api ?h (ex_miner_ctx 0 1 10) =
          Inr (Some (map (\<lambda>(k, v). Some (MinerPreCommitInfo_of (ex_miner_ctx 0 1 10) v))
                         (filter (\<lambda>(k, v). map_of [(3::uint64, ex_precommit 3)] k = None)
                            [(3, ex_precommit 3), (5, ex_precommit 5)])))"
    by (rule ExtractMinerPreCommitInfo_added_only [OF wf ht _ _ _ _ ca d1 d2])
       (simp_all add: ex_miner_api_def ex_miner_ctx_def coll_wf_def)
  then show ?thesis by simp
qed

text \<open>
  C2. At genesis the context's previous state is its current state and the
  extractor returns nil without consulting the pre-commits.
\<close>

theorem ExtractMinerPreCommitInfo_genesis:
  assumes "MinerContext_wf h ec" and "ts_Height (mc_CurrTs ec) = 0"
  shows "ExtractMinerPreCommitInfo api h ec = Inr None"
  using assms by (simp add: HasPreviousState_iff ExtractMinerPreCommitInfo_def)

theorem ExtractMinerPreCommitInfo_genesis_witness:
  "MinerContext_wf [(0::int, ex_no_precommits)] (ex_miner_ctx 0 0 0) \<and>
   ExtractMinerPreCommitInfo ex_miner_api [(0::int, ex_no_precommits)] (ex_miner_ctx 0 0 0) = Inr None"
proof -
  have wf: "MinerContext_wf [(0::int, ex_no_precommits)] (ex_miner_ctx 0 0 0)"
    by (simp add: MinerContext_wf_def genesis_inv_def present_def ex_miner_ctx_def ex_tipset_def)
  have "ts_Height (mc_CurrTs (ex_miner_ctx 0 0 0)) = 0" by (simp add: ex_miner_ctx_def ex_tipset_def)
  with wf ExtractMinerPreCommitInfo_genesis [OF wf] show ?thesis by simp
qed

text \<open>
  C3. When the two pre-commit roots differ and an entry of either collection
  fails to decode, the extractor returns an error and no records.
\<close>

theorem ExtractMinerPreCommitInfo_decode_error:
  assumes "HasPreviousState ec"
    and "ms_PreCommits api (h ! mc_PrevState ec) = Inr pre"
    and "ms_PreCommits api (h ! mc_CurrState ec) = Inr cur"
    and "coll_root pre \<noteq> coll_root cur"
    and "(\<exists>e. decode_all (ms_decodePreCommit api) (coll_entries pre) = Inl e) \<or>
         (\<exists>e. decode_all (ms_decodePreCommit api) (coll_entries cur) = Inl e)"
  shows "\<exists>e. ExtractMinerPreCommitInfo api h ec = Inl e"
proof -
  obtain e where "Diff (ms_decodePreCommit api) pre cur = Inl e"
    using diff_merge_Inl [OF assms(5)] assms(4) by (auto simp: Diff_def)
  with assms(1-3) show ?thesis
    by (simp add: ExtractMinerPreCommitInfo_def GetPreCommitDiff_def)
qed

theorem ExtractMinerPreCommitInfo_decode_error_witness:
  "\<exists>e. ExtractMinerPreCommitInfo
         (ex_miner_api\<lparr>ms_decodePreCommit := (\<lambda>pc. if spi_SectorNumber (pco_Info pc) = 5 then None else Some pc)\<rparr>)
         [(0::int, ex_no_precommits), (0, \<lparr>coll_root = ''bafycurr'', coll_entries = [(5, ex_precommit 5)]\<rparr>)]
         (ex_miner_ctx 0 1 10) = Inl e"
proof -
  let ?api = "ex_miner_api\<lparr>ms_decodePreCommit := (\<lambda>pc. if spi_SectorNumber (pco_Info pc) = 5 then None else Some pc)\<rparr>"
  let ?cur = "\<lparr>coll_root = ''bafycurr'', coll_entries = [(5::uint64, ex_precommit 5)]\<rparr>"
  let ?h = "[(0::int, ex_no_precommits), (0, ?cur)]"
  have "HasPreviousState (ex_miner_ctx 0 1 10)" by (simp add: HasPreviousState_def ex_miner_ctx_def)
  moreover have "ms_PreCommits ?api (?h ! mc_PrevState (ex_miner_ctx 0 1 10)) = Inr ex_no_precommits"
    by (simp add: ex_miner_api_def ex_miner_ctx_def)
  moreover have "ms_PreCommits ?api (?h ! mc_CurrState (ex_miner_ctx 0 1 10)) = Inr ?cur"
    by (simp add: ex_miner_api_def ex_miner_ctx_def)
  moreover have "coll_root ex_no_precommits \<noteq> coll_root ?cur"
    by (simp add: ex_no_precommits_def)
  moreover have "\<exists>e. decode_all (ms_decodePreCommit ?api) (coll_entries ?cur) = Inl e"
    by (simp add: ex_precommit_def decodeE_def)
  ultimately show ?thesis by (blast intro: ExtractMinerPreCommitInfo_decode_error)
qed

text \<open>
  C4. \<open>AsVersion\<close> is the identity at schema 1, maps nil to a typed nil and a
  record to the schema-0 record with the same fifteen field values at schema
  0, and is unsupported exactly at every other major version.
\<close>

theorem MinerPreCommitInfo_AsVersion_projection:
  "MinerPreCommitInfo_AsVersion m \<lparr>Major = 1, Minor = n\<rparr> = Some (MinerPreCommitInfo_model m) \<and>
   MinerPreCommitInfo_AsVersion None \<lparr>Major = 0, Minor = n\<rparr> = Some (MinerPreCommitInfoV0_model None) \<and>
   MinerPreCommitInfo_AsVersion (Some r) \<lparr>Major = 0, Minor = n\<rparr> =
     Some (MinerPreCommitInfoV0_model (Some
       \<lparr>mpi0_Height = mpi_Height r, mpi0_MinerID = mpi_MinerID r, mpi0_SectorID = mpi_SectorID r,
        mpi0_StateRoot = mpi_StateRoot r, mpi0_SealedCID = mpi_SealedCID r,
        mpi0_SealRandEpoch = mpi_SealRandEpoch r, mpi0_ExpirationEpoch = mpi_ExpirationEpoch r,
        mpi0_PreCommitDeposit = mpi_PreCommitDeposit r, mpi0_PreCommitEpoch = mpi_PreCommitEpoch r,
        mpi0_DealWeight = mpi_DealWeight r, mpi0_VerifiedDealWeight = mpi_VerifiedDealWeight r,
        mpi0_IsReplaceCapacity = mpi_IsReplaceCapacity r,
        mpi0_ReplaceSectorDeadline = mpi_ReplaceSectorDeadline r,
        mpi0_ReplaceSectorPartition = mpi_ReplaceSectorPartition r,
        mpi0_ReplaceSectorNumber = mpi_ReplaceSectorNumber r\<rparr>)) \<and>
   (MinerPreCommitInfo_AsVersion m v = None \<longleftrightarrow> Major v \<noteq> 0 \<and> Major v \<noteq> 1)"
  by (simp add: MinerPreCommitInfo_AsVersion_def split: option.splits)

text \<open>
  C5. Persisting a non-empty pre-commit list at a legacy schema stores, in
  order, each row's \<open>AsVersion\<close> projection (schema 0), or fails on the
  first row with nothing stored (an unknown schema).
\<close>

theorem MinerPreCommitInfoList_Persist_legacy:
  assumes "ml \<noteq> []" and "Major v \<noteq> 1"
  shows "MinerPreCommitInfoList_Persist ml s v =
           (if Major v = 0 then Inr (s @ map (\<lambda>m. the (MinerPreCommitInfo_AsVersion m v)) ml)
            else Inl (ErrSchemaUnsupported ''MinerPreCommitInfo not supported for schema version''))"
proof (cases "Major v = 0")
  case True
  have "persist_each (\<lambda>m s. MinerPreCommitInfo_Persist m s v) ml s =
          Inr (s @ map (\<lambda>m. the (MinerPreCommitInfo_AsVersion m v)) ml)"
    by (rule persist_each_models)
       (auto simp: True MinerPreCommitInfo_AsVersion_def MinerPreCommitInfo_Persist_def split: option.splits)
  with assms True show ?thesis by (simp add: MinerPreCommitInfoList_Persist_def)
next
  case False
  from assms(1) obtain m ms where ml: "ml = m # ms" by (cases ml) auto
  have "\<And>s. MinerPreCommitInfo_Persist m s v =
          Inl (ErrSchemaUnsupported ''MinerPreCommitInfo not supported for schema version'')"
    using False assms(2) by (simp add: MinerPreCommitInfo_Persist_def MinerPreCommitInfo_AsVersion_def)
  then show ?thesis using False assms ml
    by (simp add: MinerPreCommitInfoList_Persist_def persist_each_first_fails)
qed

theorem MinerPreCommitInfoList_Persist_legacy_witness:
  "MinerPreCommitInfoList_Persist [None, None] [] \<lparr>Major = 0, Minor = 0\<rparr> =
     Inr [MinerPreCommitInfoV0_model None, MinerPreCommitInfoV0_model None] \<and>
   MinerPreCommitInfoList_Persist [None] [] \<lparr>Major = 2, Minor = 0\<rparr> =
     Inl (ErrSchemaUnsupported ''MinerPreCommitInfo not supported for schema version'')"
  using MinerPreCommitInfoList_Persist_legacy [of "[None, None]" "\<lparr>Major = 0, Minor = 0\<rparr>" "[]"]
        MinerPreCommitInfoList_Persist_legacy [of "[None]" "\<lparr>Major = 2, Minor = 0\<rparr>" "[]"]
  by (simp add: MinerPreCommitInfo_AsVersion_def)

end
