(* ===== verification/Utf8.thy ===== *)
theory Utf8
  imports Prelude
begin

text \<open>
  The UTF-8 rules of Go's standard library that \<open>SanitizeLabel\<close> relies on,
  over byte strings: the length of the well-formed rune at the head of a
  string (\<open>utf8.DecodeRune\<close> with its \<open>first\<close> and \<open>acceptRanges\<close> tables;
  0 marks an ill-formed head), \<open>utf8.ValidString\<close>, and
  \<open>runes.ReplaceIllFormed\<close> of \<open>golang.org/x/text\<close>, which copies ASCII bytes
  and well-formed runes and replaces every byte that does not start a
  well-formed rune by the three bytes of U+FFFD. The lemmas show that a
  well-formed rune is recognised from its own bytes whatever follows it, and
  that replacement keeps well-formed parts and yields valid UTF-8.
\<close>

section \<open>Decoding one rune\<close>

text \<open>The \<open>first\<close> table: the size of the rune a leading byte announces, 0 for an invalid leading byte.\<close>

definition rune_size :: "byte \<Rightarrow> nat" where
  "rune_size b =
     (if b < 0x80 then 1 else if b < 0xC2 then 0 else if b < 0xE0 then 2
      else if b < 0xF0 then 3 else if b < 0xF5 then 4 else 0)"

text \<open>The \<open>acceptRanges\<close> table: the range of the second byte after a leading byte.\<close>

definition accept_lo :: "byte \<Rightarrow> byte" where
  "accept_lo b = (if b = 0xE0 then 0xA0 else if b = 0xF0 then 0x90 else 0x80)"

definition accept_hi :: "byte \<Rightarrow> byte" where
  "accept_hi b = (if b = 0xED then 0x9F else if b = 0xF4 then 0x8F else 0xBF)"

definition is_cont :: "byte \<Rightarrow> bool" where
  "is_cont c \<longleftrightarrow> 0x80 \<le> c \<and> c \<le> 0xBF"

text \<open>
  \<open>rune_len s\<close>: the size \<open>utf8.DecodeRune\<close> returns for a well-formed rune at
  the head of \<open>s\<close>, and 0 where it returns \<open>(RuneError, 1)\<close> for an ill-formed
  or truncated one (or \<open>s\<close> is empty).
\<close>

fun rune_len :: "bytes \<Rightarrow> nat" where
  "rune_len [] = 0"
| "rune_len (b # rest) =
     (let sz = rune_size b in
      if sz = 1 then 1
      else if sz = 0 \<or> length rest < sz - 1 then 0
      else if rest ! 0 < accept_lo b \<or> accept_hi b < rest ! 0 then 0
      else if sz = 2 then 2
      else if \<not> is_cont (rest ! 1) then 0
      else if sz = 3 then 3
      else if \<not> is_cont (rest ! 2) then 0
      else 4)"

section \<open>Validity and replacement\<close>

function ValidString :: "bytes \<Rightarrow> bool" where
  "ValidString [] = True"
| "ValidString (b # bs) =
     (let n = rune_len (b # bs) in if n = 0 then False else ValidString (drop n (b # bs)))"
  by pat_completeness auto
termination
  by (relation "measure length") auto

definition RuneErrorBytes :: bytes where
  "RuneErrorBytes = [0xEF, 0xBF, 0xBD]"

function ReplaceIllFormed :: "bytes \<Rightarrow> bytes" where
  "ReplaceIllFormed [] = []"
| "ReplaceIllFormed (b # bs) =
     (if b < 0x80 then b # ReplaceIllFormed bs
      else let n = rune_len (b # bs) in
           if n \<noteq> 0 then take n (b # bs) @ ReplaceIllFormed (drop n (b # bs))
           else RuneErrorBytes @ ReplaceIllFormed bs)"
  by pat_completeness auto
termination
  by (relation "measure length") auto

declare rune_len.simps(2) [simp del]

section \<open>Lemmas\<close>

subsection \<open>One rune\<close>

lemma rune_size_cases: "rune_size b \<in> {0, 1, 2, 3, 4}"
  by (simp add: rune_size_def)

lemma rune_len_Cons_nz:
  assumes "rune_len (b # rest) \<noteq> 0"
  shows "rune_len (b # rest) = rune_size b \<and> rune_size b - 1 \<le> length rest"
  using assms rune_size_cases [of b] by (auto simp: rune_len.simps(2) Let_def split: if_splits)

lemma rune_len_le: "rune_len s \<le> length s"
proof (cases s)
  case (Cons b rest)
  then show ?thesis using rune_len_Cons_nz [of b rest] by (cases "rune_len (b # rest) = 0") auto
qed simp

text \<open>A well-formed rune is recognised from its own bytes, whatever follows it.\<close>

lemma rune_len_size2:
  "rune_size b = 2 \<Longrightarrow> rune_len (b # r0 # t) = 2 \<Longrightarrow> rune_len (b # r0 # ys) = 2"
  by (simp add: rune_len.simps(2) Let_def split: if_splits)

lemma rune_len_size3:
  "rune_size b = 3 \<Longrightarrow> rune_len (b # r0 # r1 # t) = 3 \<Longrightarrow> rune_len (b # r0 # r1 # ys) = 3"
  by (simp add: rune_len.simps(2) Let_def split: if_splits)

lemma rune_len_size4:
  "rune_size b = 4 \<Longrightarrow> rune_len (b # r0 # r1 # r2 # t) = 4 \<Longrightarrow> rune_len (b # r0 # r1 # r2 # ys) = 4"
  by (simp add: rune_len.simps(2) Let_def split: if_splits)

lemma rune_len_take_append:
  assumes "rune_len s = n" and "n \<noteq> 0"
  shows "rune_len (take n s @ ys) = n"
proof (cases s)
  case Nil
  with assms show ?thesis by simp
next
  case (Cons b rest)
  with assms have sz: "rune_size b = n" "n - 1 \<le> length rest"
    using rune_len_Cons_nz [of b rest] by auto
  consider "n = 1" | "n = 2" | "n = 3" | "n = 4"
    using sz(1) assms(2) rune_size_cases [of b] by auto
  then show ?thesis
  proof cases
    case 1
    with Cons sz show ?thesis by (simp add: rune_len.simps(2))
  next
    case 2
    then obtain r0 t where "rest = r0 # t" using sz by (cases rest) auto
    with Cons sz assms 2 show ?thesis using rune_len_size2 [of b r0 t ys] by simp
  next
    case 3
    then obtain r0 r1 t where "rest = r0 # r1 # t" using sz by (cases rest; cases "tl rest") auto
    with Cons sz assms 3 show ?thesis using rune_len_size3 [of b r0 r1 t ys] by simp
  next
    case 4
    then obtain r0 r1 r2 t where "rest = r0 # r1 # r2 # t"
      using sz by (cases rest; cases "tl rest"; cases "tl (tl rest)") auto
    with Cons sz assms 4 show ?thesis using rune_len_size4 [of b r0 r1 r2 t ys] by simp
  qed
qed

lemma rune_len_ascii [simp]: "b < 0x80 \<Longrightarrow> rune_len (b # bs) = 1"
  by (simp add: rune_len.simps(2) rune_size_def)


lemma rune_len_RuneErrorBytes [simp]: "rune_len (RuneErrorBytes @ ys) = 3"
  by (simp add: RuneErrorBytes_def rune_len.simps(2) rune_size_def accept_lo_def accept_hi_def is_cont_def)


subsection \<open>Validity and replacement\<close>

lemma ValidString_Cons_eq:
  "ValidString s \<longleftrightarrow> s = [] \<or> (rune_len s \<noteq> 0 \<and> ValidString (drop (rune_len s) s))"
  by (cases s) (simp_all add: Let_def)


lemma ValidString_take_append:
  assumes "rune_len s = n" and "n \<noteq> 0"
  shows "ValidString (take n s @ ys) = ValidString ys"
proof -
  have len: "length (take n s) = n" using assms rune_len_le [of s] by simp
  have rl: "rune_len (take n s @ ys) = n" using assms by (rule rune_len_take_append)
  have "s \<noteq> []" using len assms(2) by auto
  with rl len assms(2) show ?thesis by (subst ValidString_Cons_eq) simp
qed


lemma ValidString_RuneErrorBytes_append [simp]:
  "ValidString (RuneErrorBytes @ ys) = ValidString ys"
proof -
  have "take 3 RuneErrorBytes = RuneErrorBytes" by (simp add: RuneErrorBytes_def)
  moreover have "rune_len RuneErrorBytes = 3" using rune_len_RuneErrorBytes [of "[]"] by simp
  ultimately show ?thesis using ValidString_take_append [of RuneErrorBytes 3 ys] by simp
qed


lemma ValidString_ascii_Cons [simp]: "b < 0x80 \<Longrightarrow> ValidString (b # ys) = ValidString ys"
  by simp


lemma ReplaceIllFormed_valid_id: "ValidString s \<Longrightarrow> ReplaceIllFormed s = s"
proof (induction s rule: ReplaceIllFormed.induct)
  case (2 b bs)
  show ?case
  proof (cases "b < 0x80")
    case True
    with "2.prems" "2.IH"(1) show ?thesis by simp
  next
    case False
    let ?n = "rune_len (b # bs)"
    from "2.prems" have "?n \<noteq> 0" "ValidString (drop ?n (b # bs))" by (simp_all add: Let_def split: if_splits)
    with False "2.IH"(2) show ?thesis by simp
  qed
qed simp


lemma ValidString_fast_path:
  "(if ValidString s then s else ReplaceIllFormed s) = ReplaceIllFormed s"
  by (simp add: ReplaceIllFormed_valid_id)

lemma ValidString_ReplaceIllFormed: "ValidString (ReplaceIllFormed s)"
proof (induction s rule: ReplaceIllFormed.induct)
  case (2 b bs)
  then show ?case by (auto simp: Let_def ValidString_take_append)
qed simp


lemma ReplaceIllFormed_length:
  "length s \<le> length (ReplaceIllFormed s) \<and> length (ReplaceIllFormed s) \<le> 3 * length s"
proof (induction s rule: ReplaceIllFormed.induct)
  case (2 b bs)
  show ?case
  proof (cases "b < 0x80 \<or> rune_len (b # bs) = 0")
    case True
    with "2.IH" show ?thesis by (auto simp: RuneErrorBytes_def)
  next
    case False
    let ?n = "rune_len (b # bs)"
    have "?n \<le> length (b # bs)" by (rule rune_len_le)
    with False "2.IH"(2) show ?thesis by (auto simp: Let_def)
  qed
qed simp


lemma ReplaceIllFormed_invalid_longer:
  "\<not> ValidString s \<Longrightarrow> length s < length (ReplaceIllFormed s)"
proof (induction s rule: ReplaceIllFormed.induct)
  case (2 b bs)
  show ?case
  proof (cases "b < 0x80")
    case True
    with "2.prems" "2.IH"(1) show ?thesis by simp
  next
    case False
    let ?n = "rune_len (b # bs)"
    show ?thesis
    proof (cases "?n = 0")
      case True
      with False show ?thesis using ReplaceIllFormed_length [of bs] by (simp add: RuneErrorBytes_def)
    next
      case nz: False
      have "?n \<le> length (b # bs)" by (rule rune_len_le)
      moreover from "2.prems" nz have "\<not> ValidString (drop ?n (b # bs))" by (simp add: Let_def)
      ultimately show ?thesis using False nz "2.IH"(2) by (simp add: Let_def)
    qed
  qed
qed simp


lemma ReplaceIllFormed_append_valid:
  "ValidString v \<Longrightarrow> ReplaceIllFormed (v @ w) = v @ ReplaceIllFormed w"
proof (induction v rule: ReplaceIllFormed.induct)
  case (2 b bs)
  let ?n = "rune_len (b # bs)"
  from "2.prems" have nz: "?n \<noteq> 0" and rest: "ValidString (drop ?n (b # bs))"
    by (simp_all add: Let_def split: if_splits)
  have le: "?n \<le> length (b # bs)" by (rule rune_len_le)
  show ?case
  proof (cases "b < 0x80")
    case True
    with rest "2.IH"(1) show ?thesis by simp
  next
    case False
    have "rune_len (take ?n (b # bs) @ (drop ?n (b # bs) @ w)) = ?n"
      using rune_len_take_append nz by blast
    then have rl: "rune_len (b # bs @ w) = ?n"
      by (simp only: append_assoc [symmetric] append_take_drop_id append_Cons)
    have "take ?n (b # bs @ w) = take ?n (b # bs)" using le take_append [of ?n "b # bs" w] by simp
    moreover have "drop ?n (b # bs @ w) = drop ?n (b # bs) @ w"
      using le drop_append [of ?n "b # bs" w] by simp
    ultimately show ?thesis using False nz rl rest "2.IH"(2) by (simp add: Let_def)
  qed
qed simp

end
