(* ===== verification/Market.thy ===== *)
theory Market
  imports Chain Utf8
begin

text \<open>
  \<open>src/tasks/actorstate/market/market.go\<close>: the extraction context of the
  storage-market actor (\<open>NewMarketStateExtractionContext\<close>, \<open>IsGenesis\<close>),
  the composition of the two market extractors (\<open>StorageMarketExtractor.Extract\<close>),
  and \<open>SanitizeLabel\<close> over the UTF-8 rules of \<open>Utf8\<close>. The lemmas show
  that a built context satisfies the genesis invariant, that its two states
  are the market states at the current and the executed tipset, which error
  each failing call yields, and that \<open>SanitizeLabel\<close> returns valid UTF-8
  that differs from its input exactly at the ill-formed bytes.
\<close>

section \<open>The extraction context\<close>

text \<open>
  \<open>PrevState\<close> and \<open>CurrState\<close> are \<open>market.State\<close> interface values that
  point to loaded objects: references into the heap of loaded states.
\<close>

record 'blk MarketStateExtractionContext =
  mkt_PrevState :: ref
  mkt_PrevTs :: TipSet
  mkt_CurrActor :: Actor
  mkt_CurrState :: ref
  mkt_CurrTs :: TipSet
  mkt_Store :: "'blk Store"

text \<open>\<open>%d\<close> of an \<open>abi.ChainEpoch\<close> (a signed 64-bit integer).\<close>

definition epoch_String :: "int64 \<Rightarrow> string" where
  "epoch_String e = big_String (sint e)"

definition NewMarketStateExtractionContext ::
  "('blk, 'st) Loader \<Rightarrow> 'blk ActorStateAPI \<Rightarrow> ActorInfo \<Rightarrow> 'st Heap \<Rightarrow>
     ('blk MarketStateExtractionContext \<times> 'st Heap) result" where
  "NewMarketStateExtractionContext ld node a h =
     bindE (wrapE ''loading current market state'' (LoadRef ld (node_Store node) (ai_Actor a) h))
       (\<lambda>(curState, h1).
          bindE
            (if ts_Height (ai_Current a) \<noteq> 0 then
               bindE (wrapE (''loading previous market actor state at tipset '' @ ts_Key (ai_Executed a) @
                              '' epoch '' @ epoch_String (ts_Height (ai_Current a)))
                        (node_Actor node (ai_Address a) (ts_Key (ai_Executed a))))
                 (\<lambda>prevActor.
                    bindE (wrapE ''loading previous market actor state''
                             (LoadRef ld (node_Store node) prevActor h1))
                      (\<lambda>(prevState, h2). Inr (ai_Executed a, prevState, h2)))
             else Inr (ai_Current a, curState, h1))
            (\<lambda>(prevTipset, prevState, h2).
               Inr (\<lparr>mkt_PrevState = prevState, mkt_PrevTs = prevTipset, mkt_CurrActor = ai_Actor a,
                     mkt_CurrState = curState, mkt_CurrTs = ai_Current a, mkt_Store = node_Store node\<rparr>,
                    h2)))"

definition IsGenesis :: "'blk MarketStateExtractionContext \<Rightarrow> bool" where
  "IsGenesis m \<longleftrightarrow> ts_Height (mkt_CurrTs m) = 0"

section \<open>The market extractor\<close>

text \<open>
  \<open>StorageMarketExtractor.Extract\<close>: the deal-state extractor runs first, then
  the deal-proposal extractor (both outside \<open>src/\<close>, so parameters here); the
  result lists the proposals before the states.
\<close>

definition StorageMarketExtractor_Extract ::
  "(ActorInfo \<Rightarrow> 'node \<Rightarrow> 'm result) \<Rightarrow> (ActorInfo \<Rightarrow> 'node \<Rightarrow> 'm result) \<Rightarrow>
     ActorInfo \<Rightarrow> 'node \<Rightarrow> 'm list result" where
  "StorageMarketExtractor_Extract dealStateExtract dealProposalExtract a node =
     bindE (wrapE ''extracting market deal state changes'' (dealStateExtract a node)) (\<lambda>dealStateModel.
     bindE (wrapE ''extracting market proposal changes'' (dealProposalExtract a node)) (\<lambda>dealProposalModel.
       Inr [dealProposalModel, dealStateModel]))"

section \<open>Deal labels\<close>

definition SanitizeLabel :: "bytes \<Rightarrow> bytes" where
  "SanitizeLabel s = (if ValidString s then s else ReplaceIllFormed s)"

section \<open>Example inputs\<close>

text \<open>
  A market actor whose state at the executed tipset of height 4 has head
  \<open>bafyprev\<close> and at the current tipset \<open>bafycurr\<close>; decoded states are the
  numbers stored in the blocks.
\<close>

definition ex_market_actor :: "cid \<Rightarrow> Actor" where
  "ex_market_actor hc = \<lparr>act_Code = ''fil/9/storagemarket'', act_Head = hc\<rparr>"

definition ex_market_loader :: "(nat, nat) Loader" where
  "ex_market_loader =
     \<lparr>ld_version = (\<lambda>c. if c = ''fil/9/storagemarket'' then Some 9 else None), ld_decode = (\<lambda>v b. Some b)\<rparr>"

definition ex_market_node :: "nat ActorStateAPI" where
  "ex_market_node =
     \<lparr>node_Actor = (\<lambda>addr k. if k = ''tsk4'' then Inr (ex_market_actor ''bafyprev'') else Inl (ErrNotFound k)),
      node_StateGetActor = (\<lambda>addr ts. Inl (ErrNotFound (ts_Key ts))),
      node_Store = [''bafyprev'' \<mapsto> 1, ''bafycurr'' \<mapsto> 2]\<rparr>"

definition ex_market_info :: "int64 \<Rightarrow> ActorInfo" where
  "ex_market_info n =
     \<lparr>ai_Actor = ex_market_actor ''bafycurr'', ai_Address = Address 0 [6], ai_Current = ex_tipset n,
      ai_Executed = ex_tipset (n - 1), ai_TipSet = ex_tipset n, ai_ParentStateRoot = ts_ParentState (ex_tipset n)\<rparr>"

text \<open>The context built at height 5: current state object 0, previous state object 1.\<close>

definition ex_market_ctx :: "nat MarketStateExtractionContext" where
  "ex_market_ctx =
     \<lparr>mkt_PrevState = 1, mkt_PrevTs = ex_tipset 4, mkt_CurrActor = ex_market_actor ''bafycurr'',
      mkt_CurrState = 0, mkt_CurrTs = ex_tipset 5, mkt_Store = node_Store ex_market_node\<rparr>"

section \<open>Properties\<close>

subsection \<open>The extraction context\<close>

text \<open>
  C11. A context that \<open>NewMarketStateExtractionContext\<close> returns satisfies the
  genesis invariant in the heap it returns (both states are live objects,
  the previous state is the current object exactly at height 0, and then the
  previous tipset is the current one); \<open>IsGenesis\<close> holds exactly when the
  two states are the same object; and the objects loaded before are untouched.
\<close>

lemma NewMarketStateExtractionContext_genesis_inv:
  assumes "NewMarketStateExtractionContext ld node a h = Inr (m, h')"
  shows "genesis_inv h' (mkt_PrevState m) (mkt_CurrState m) (mkt_PrevTs m) (mkt_CurrTs m) \<and>
         (IsGenesis m \<longleftrightarrow> mkt_PrevState m = mkt_CurrState m) \<and> take (length h) h' = h"
  using assms
  by (auto simp: NewMarketStateExtractionContext_def result_simps genesis_inv_def present_def IsGenesis_def
      split: prod.splits if_splits)

text \<open>The context as a function of the calls it makes.\<close>

lemma NewMarketStateExtractionContext_eq_Inr_iff:
  "NewMarketStateExtractionContext ld node a h = Inr (m, h') \<longleftrightarrow>
     (\<exists>cs. Load ld (node_Store node) (ai_Actor a) = Inr cs \<and>
        mkt_CurrState m = length h \<and> mkt_CurrActor m = ai_Actor a \<and> mkt_CurrTs m = ai_Current a \<and>
        mkt_Store m = node_Store node \<and>
        (if ts_Height (ai_Current a) = 0
         then mkt_PrevState m = length h \<and> mkt_PrevTs m = ai_Current a \<and> h' = h @ [cs]
         else (\<exists>pa ps. node_Actor node (ai_Address a) (ts_Key (ai_Executed a)) = Inr pa \<and>
                 Load ld (node_Store node) pa = Inr ps \<and>
                 mkt_PrevState m = Suc (length h) \<and> mkt_PrevTs m = ai_Executed a \<and>
                 h' = h @ [cs, ps])))"
  by (cases m) (auto simp: NewMarketStateExtractionContext_def result_simps split: prod.splits)

lemma ex_market_ctx5:
  "NewMarketStateExtractionContext ex_market_loader ex_market_node (ex_market_info 5) [] =
     Inr (ex_market_ctx, [2, 1])"
  apply (simp add: NewMarketStateExtractionContext_eq_Inr_iff ex_market_ctx_def ex_market_loader_def
      ex_market_node_def ex_market_info_def ex_market_actor_def Load_def store_Get_def)
  apply code_simp
  done

lemma NewMarketStateExtractionContext_genesis_inv_witness:
  "NewMarketStateExtractionContext ex_market_loader ex_market_node (ex_market_info 5) [] =
     Inr (ex_market_ctx, [2, 1]) \<and>
   genesis_inv [2::nat, 1] 1 0 (ex_tipset 4) (ex_tipset 5) \<and> \<not> IsGenesis ex_market_ctx"
  using NewMarketStateExtractionContext_genesis_inv [OF ex_market_ctx5] ex_market_ctx5
  by (simp add: ex_market_ctx_def)

text \<open>
  C12. The states of a built context are the market states the loader decodes
  for the actor at the current tipset and, past genesis, for the actor the
  chain lookup returns at the executed tipset.
\<close>

lemma NewMarketStateExtractionContext_states:
  assumes "NewMarketStateExtractionContext ld node a h = Inr (m, h')"
  shows "Load ld (node_Store node) (ai_Actor a) = Inr (h' ! mkt_CurrState m) \<and>
         (\<not> IsGenesis m \<longrightarrow>
            (\<exists>pa. node_Actor node (ai_Address a) (ts_Key (ai_Executed a)) = Inr pa \<and>
                  Load ld (node_Store node) pa = Inr (h' ! mkt_PrevState m)))"
  using assms unfolding NewMarketStateExtractionContext_eq_Inr_iff
  by (auto simp: IsGenesis_def nth_append split: if_splits)

lemma NewMarketStateExtractionContext_states_witness:
  "NewMarketStateExtractionContext ex_market_loader ex_market_node (ex_market_info 5) [] =
     Inr (ex_market_ctx, [2, 1]) \<and>
   Load ex_market_loader (node_Store ex_market_node) (ex_market_actor ''bafycurr'') = Inr 2 \<and>
   (\<exists>pa. node_Actor ex_market_node (Address 0 [6]) (ts_Key (ex_tipset 4)) = Inr pa \<and>
         Load ex_market_loader (node_Store ex_market_node) pa = Inr 1)"
  using NewMarketStateExtractionContext_states [OF ex_market_ctx5] ex_market_ctx5
  by (simp add: ex_market_ctx_def ex_market_info_def IsGenesis_def ex_tipset_def)

text \<open>
  C13. \<open>NewMarketStateExtractionContext\<close> fails exactly when loading the
  current state fails, or past genesis the chain lookup of the actor at the
  executed tipset or the loading of its state fails; the error is the failing
  call's, wrapped with the message of that branch.
\<close>

lemma NewMarketStateExtractionContext_Inl_iff:
  "NewMarketStateExtractionContext ld node a h = Inl e \<longleftrightarrow>
     (\<exists>e'. Load ld (node_Store node) (ai_Actor a) = Inl e' \<and>
           e = ErrWrapped ''loading current market state'' e') \<or>
     ((\<exists>cs. Load ld (node_Store node) (ai_Actor a) = Inr cs) \<and> ts_Height (ai_Current a) \<noteq> 0 \<and>
      ((\<exists>e'. node_Actor node (ai_Address a) (ts_Key (ai_Executed a)) = Inl e' \<and>
             e = ErrWrapped (''loading previous market actor state at tipset '' @ ts_Key (ai_Executed a) @
                             '' epoch '' @ epoch_String (ts_Height (ai_Current a))) e') \<or>
       (\<exists>pa e'. node_Actor node (ai_Address a) (ts_Key (ai_Executed a)) = Inr pa \<and>
             Load ld (node_Store node) pa = Inl e' \<and>
             e = ErrWrapped ''loading previous market actor state'' e')))"
  by (auto simp: NewMarketStateExtractionContext_def result_simps split: prod.splits)

lemma NewMarketStateExtractionContext_Inl_witness:
  "NewMarketStateExtractionContext ex_market_loader ex_market_node (ex_market_info 7) [] =
     Inl (ErrWrapped ''loading previous market actor state at tipset tsk6 epoch 7'' (ErrNotFound ''tsk6''))"
  apply (rule NewMarketStateExtractionContext_Inl_iff [THEN iffD2])
  apply (simp add: ex_market_loader_def ex_market_node_def ex_market_info_def ex_market_actor_def
      Load_def store_Get_def epoch_String_def)
  apply code_simp
  done

subsection \<open>Deal labels\<close>

text \<open>C36. \<open>SanitizeLabel\<close> always returns valid UTF-8.\<close>

lemma SanitizeLabel_valid: "ValidString (SanitizeLabel s)"
  by (simp add: SanitizeLabel_def ValidString_ReplaceIllFormed)

text \<open>
  C37. The fast path of \<open>SanitizeLabel\<close> (return a valid string unchanged) is
  an optimisation only: the function equals \<open>runes.ReplaceIllFormed\<close> on
  every input.
\<close>

lemma SanitizeLabel_eq_ReplaceIllFormed: "SanitizeLabel s = ReplaceIllFormed s"
  by (simp add: SanitizeLabel_def ValidString_fast_path)

text \<open>C38. \<open>SanitizeLabel\<close> leaves a label unchanged exactly when it is valid UTF-8.\<close>

lemma SanitizeLabel_id_iff: "SanitizeLabel s = s \<longleftrightarrow> ValidString s"
  using ReplaceIllFormed_invalid_longer [of s] by (auto simp: SanitizeLabel_def)


text \<open>
  C40. Only ill-formed bytes are replaced (specification, scenario D): after a
  well-formed prefix, a byte that starts no well-formed rune becomes one
  U+FFFD and sanitisation resumes at the next byte; the prefix is unchanged.
\<close>

lemma SanitizeLabel_replaces_invalid:
  assumes "ValidString v" and "rune_len (b # w) = 0"
  shows "SanitizeLabel (v @ b # w) = v @ RuneErrorBytes @ SanitizeLabel w"
proof -
  have "\<not> b < 0x80" using assms(2) by (cases "b < 0x80") simp_all
  with assms show ?thesis
    by (simp add: SanitizeLabel_def ValidString_fast_path ReplaceIllFormed_append_valid)
qed

lemma SanitizeLabel_replaces_invalid_witness:
  "ValidString [0x61, 0x62] \<and> rune_len [0xE2, 0x82, 0x63] = 0 \<and>
   SanitizeLabel [0x61, 0x62, 0xE2, 0x82, 0x63] = [0x61, 0x62, 0xEF, 0xBF, 0xBD, 0xEF, 0xBF, 0xBD, 0x63]"
proof -
  have v: "ValidString [0x61, 0x62]" by simp
  have r: "rune_len [0xE2, 0x82, 0x63] = 0"
    by (simp add: rune_len.simps(2) rune_size_def accept_lo_def accept_hi_def is_cont_def)
  have "SanitizeLabel ([0x61, 0x62] @ 0xE2 # [0x82, 0x63]) =
          [0x61, 0x62] @ RuneErrorBytes @ SanitizeLabel [0x82, 0x63]"
    by (rule SanitizeLabel_replaces_invalid [OF v r])
  also have "SanitizeLabel [0x82, 0x63] = [0xEF, 0xBF, 0xBD, 0x63]"
    by (simp add: SanitizeLabel_def RuneErrorBytes_def rune_len.simps(2) rune_size_def)
  finally show ?thesis using v r by (simp add: RuneErrorBytes_def)
qed

end
