(* ===== verification/PowerV9.thy ===== *)
theory PowerV9
  imports Chain
begin

text \<open>
  The protocol-version-9 adapter of the storage-power actor,
  \<open>src/chain/actors/builtin/power/v9.go\<close> (generated code): the decoded
  \<open>power9.State\<close> with its store (\<open>state9\<close>), the scalar getters, the claims
  map (a HAMT of \<open>power9.Claim\<close> values keyed by \<open>abi.AddrKey\<close>), and the
  operations over it: \<open>MinerPower\<close>, \<open>ListAllMiners\<close>, \<open>ForEachClaim\<close> and
  \<open>ClaimsChanged\<close>. The HAMT is its entries in iteration order; its
  \<open>ForEach\<close> decodes each value (unless the output pointer is nil) and then
  calls the callback, stopping at the first error. The lemmas show that the
  first failing entry decides the error, that \<open>ListAllMiners\<close> and
  \<open>ForEachClaim\<close> enumerate the same miners, that every claim \<open>ForEachClaim\<close>
  reports is the one \<open>MinerPower\<close> returns, that \<open>ClaimsChanged\<close> never
  reports an unchanged map as changed across the same store (and always
  reports a version change), and how \<open>MinerCounts\<close> reinterprets signed
  counts.
\<close>

section \<open>State\<close>

text \<open>The fields of \<open>power9.State\<close> that the adapter reads.\<close>

record power9_State =
  TotalRawBytePower :: int
  TotalBytesCommitted :: int
  TotalQualityAdjPower :: int
  TotalQABytesCommitted :: int
  TotalPledgeCollateral :: int
  ThisEpochQAPowerSmoothed :: FilterEstimate
  MinerCount :: int64
  MinerAboveMinPowerCount :: int64
  Claims :: cid

record 'blk state9 =
  st9_State :: power9_State
  st9_store :: "'blk Store"

text \<open>\<open>power9.Claim\<close> and the version-independent \<open>power.Claim\<close>.\<close>

record power9_Claim =
  c9_WindowPoStProofType :: int64
  c9_RawBytePower :: int
  c9_QualityAdjPower :: int

record Claim =
  RawBytePower :: int
  QualityAdjPower :: int

text \<open>
  The CBOR decoders the adapter relies on: of a state block, of a HAMT root
  block into its entries in iteration order (keys are the raw bytes of
  \<open>abi.AddrKey\<close>, values still encoded), and of an encoded claim.
\<close>

record ('blk, 'r) PowerCodec =
  pc_state :: "'blk \<Rightarrow> power9_State option"
  pc_map :: "'blk \<Rightarrow> (bytes \<times> 'r) list option"
  pc_claim :: "'r \<Rightarrow> power9_Claim option"

text \<open>
  A \<open>power.State\<close> interface value: a version-9 state, or a state of another
  protocol version (only its version number matters here).
\<close>

datatype 'blk PowerState = PowerState9 "'blk state9" | PowerStateOther nat

section \<open>Loading and scalar getters\<close>

definition load9 :: "('blk, 'r) PowerCodec \<Rightarrow> 'blk Store \<Rightarrow> cid \<Rightarrow> 'blk state9 result" where
  "load9 codec store root =
     bindE (store_Get (pc_state codec) store root) (\<lambda>out. Inr \<lparr>st9_State = out, st9_store = store\<rparr>)"

definition TotalLocked :: "'blk state9 \<Rightarrow> int result" where
  "TotalLocked s = Inr (TotalPledgeCollateral (st9_State s))"

definition TotalPower :: "'blk state9 \<Rightarrow> Claim result" where
  "TotalPower s = Inr \<lparr>RawBytePower = TotalRawBytePower (st9_State s),
                       QualityAdjPower = TotalQualityAdjPower (st9_State s)\<rparr>"

definition TotalCommitted :: "'blk state9 \<Rightarrow> Claim result" where
  "TotalCommitted s = Inr \<lparr>RawBytePower = TotalBytesCommitted (st9_State s),
                           QualityAdjPower = TotalQABytesCommitted (st9_State s)\<rparr>"

text \<open>
  \<open>MinerNominalPowerMeetsConsensusMinimum\<close> delegates to the method of
  \<open>power9.State\<close> (go-state-types), a parameter here.
\<close>

definition MinerNominalPowerMeetsConsensusMinimum ::
  "('blk Store \<Rightarrow> power9_State \<Rightarrow> Address \<Rightarrow> bool result) \<Rightarrow> 'blk state9 \<Rightarrow> Address \<Rightarrow> bool result" where
  "MinerNominalPowerMeetsConsensusMinimum meets s a = meets (st9_store s) (st9_State s) a"

definition TotalPowerSmoothed :: "'blk state9 \<Rightarrow> FilterEstimate result" where
  "TotalPowerSmoothed s = Inr (ThisEpochQAPowerSmoothed (st9_State s))"

text \<open>\<open>uint64(x)\<close> of an \<open>int64\<close>: the same 64 bits read as unsigned.\<close>

definition MinerCounts :: "'blk state9 \<Rightarrow> (uint64 \<times> uint64) result" where
  "MinerCounts s =
     Inr (ucast (MinerAboveMinPowerCount (st9_State s)), ucast (MinerCount (st9_State s)))"

definition RampStartEpoch :: "'blk state9 \<Rightarrow> int64" where
  "RampStartEpoch s = 0"

definition RampDurationEpochs :: "'blk state9 \<Rightarrow> uint64" where
  "RampDurationEpochs s = 0"

section \<open>The claims map\<close>

definition DefaultHamtBitwidth :: nat where
  "DefaultHamtBitwidth = 5"

definition ClaimsMapBitWidth :: "'blk state9 \<Rightarrow> nat" where
  "ClaimsMapBitWidth s = DefaultHamtBitwidth"

text \<open>
  \<open>ClaimsMapHashFunction\<close>: the key hash of the claims HAMT, the 32-byte
  array of \<open>sha256.Sum256\<close> (a parameter here) returned as a slice.
\<close>

definition ClaimsMapHashFunction :: "(bytes \<Rightarrow> bytes) \<Rightarrow> 'blk state9 \<Rightarrow> bytes \<Rightarrow> bytes" where
  "ClaimsMapHashFunction Sum256 s = (\<lambda>input. let res = Sum256 input in take 32 res)"

text \<open>\<open>adt9.AsMap\<close>: load the HAMT root the state's \<open>Claims\<close> CID names.\<close>

definition ClaimsMap :: "('blk, 'r) PowerCodec \<Rightarrow> 'blk state9 \<Rightarrow> (bytes \<times> 'r) list result" where
  "ClaimsMap codec s = store_Get (pc_map codec) (st9_store s) (Claims (st9_State s))"

text \<open>
  \<open>adt.Map.ForEach(out, cb)\<close>: for each entry in order, decode the value into
  \<open>out\<close> (\<open>dec\<close>; with a nil \<open>out\<close> nothing is decoded), then call \<open>cb\<close> with the
  key; the callback's effects are threaded as a state \<open>'s\<close>, and the first
  error ends the walk.
\<close>

fun adt_ForEach ::
  "('r \<Rightarrow> 'v result) \<Rightarrow> (bytes \<times> 'r) list \<Rightarrow> (bytes \<Rightarrow> 'v \<Rightarrow> 's \<Rightarrow> 's result) \<Rightarrow> 's \<Rightarrow> 's result" where
  "adt_ForEach dec [] cb st = Inr st"
| "adt_ForEach dec ((k, r) # es) cb st = bindE (dec r) (\<lambda>v. bindE (cb k v st) (adt_ForEach dec es cb))"

text \<open>\<open>UnmarshalCBOR\<close> of a \<open>power9.Claim\<close> into the reused \<open>claim\<close> variable.\<close>

definition decode_power9_Claim :: "('blk, 'r) PowerCodec \<Rightarrow> 'r \<Rightarrow> power9_Claim result" where
  "decode_power9_Claim codec r =
     (case pc_claim codec r of None \<Rightarrow> Inl (ErrDecode ''power9.Claim'') | Some c \<Rightarrow> Inr c)"

definition fromV9Claim :: "power9_Claim \<Rightarrow> Claim" where
  "fromV9Claim v9 = \<lparr>RawBytePower = c9_RawBytePower v9, QualityAdjPower = c9_QualityAdjPower v9\<rparr>"

definition decodeClaim :: "('blk, 'r) PowerCodec \<Rightarrow> 'r \<Rightarrow> Claim result" where
  "decodeClaim codec val = bindE (decode_power9_Claim codec val) (\<lambda>ci. Inr (fromV9Claim ci))"

text \<open>
  \<open>MinerPower\<close>: look the miner up in the claims map. When it is absent the
  result is the zero \<open>Claim\<close> (its \<open>big.Int\<close> fields are nil, read as 0) with
  \<open>ok = false\<close>.
\<close>

definition MinerPower ::
  "('blk, 'r) PowerCodec \<Rightarrow> 'blk state9 \<Rightarrow> Address \<Rightarrow> (Claim \<times> bool) result" where
  "MinerPower codec s addr =
     bindE (ClaimsMap codec s) (\<lambda>claims.
       case map_of claims (Address_Bytes addr) of
         None \<Rightarrow> Inr (\<lparr>RawBytePower = 0, QualityAdjPower = 0\<rparr>, False)
       | Some r \<Rightarrow>
           bindE (decode_power9_Claim codec r) (\<lambda>claim.
             Inr (\<lparr>RawBytePower = c9_RawBytePower claim, QualityAdjPower = c9_QualityAdjPower claim\<rparr>, True)))"

definition ListAllMiners :: "('blk, 'r) PowerCodec \<Rightarrow> 'blk state9 \<Rightarrow> Address list result" where
  "ListAllMiners codec s =
     bindE (ClaimsMap codec s) (\<lambda>claims.
       adt_ForEach (\<lambda>_. Inr ()) claims
         (\<lambda>k _ miners. bindE (NewFromBytes k) (\<lambda>a. Inr (miners @ [a]))) [])"

text \<open>The closure \<open>ForEachClaim\<close> passes to \<open>ForEach\<close>, over the decoded \<open>claim\<close>.\<close>

definition ForEachClaim_cb ::
  "(Address \<Rightarrow> Claim \<Rightarrow> 's \<Rightarrow> 's result) \<Rightarrow> bytes \<Rightarrow> power9_Claim \<Rightarrow> 's \<Rightarrow> 's result" where
  "ForEachClaim_cb cb k claim st =
     bindE (NewFromBytes k) (\<lambda>a.
       cb a \<lparr>RawBytePower = c9_RawBytePower claim, QualityAdjPower = c9_QualityAdjPower claim\<rparr> st)"

definition ForEachClaim ::
  "('blk, 'r) PowerCodec \<Rightarrow> 'blk state9 \<Rightarrow> (Address \<Rightarrow> Claim \<Rightarrow> 's \<Rightarrow> 's result) \<Rightarrow> 's \<Rightarrow> 's result" where
  "ForEachClaim codec s cb st =
     bindE (ClaimsMap codec s) (\<lambda>claims.
       adt_ForEach (decode_power9_Claim codec) claims (ForEachClaim_cb cb) st)"

text \<open>
  \<open>ClaimsChanged\<close>: a state of another version always counts as a change;
  otherwise the two claims roots are compared (\<open>cid.Equals\<close>).
\<close>

definition ClaimsChanged :: "'blk state9 \<Rightarrow> 'blk PowerState \<Rightarrow> bool result" where
  "ClaimsChanged s other =
     (case other of
        PowerState9 other9 \<Rightarrow> Inr (\<not> Claims (st9_State s) = Claims (st9_State other9))
      | PowerStateOther _ \<Rightarrow> Inr True)"

section \<open>Actor identity\<close>

definition ActorKey :: "'blk state9 \<Rightarrow> string" where
  "ActorKey s = ''storagepower''"

definition ActorVersion :: "'blk state9 \<Rightarrow> nat" where
  "ActorVersion s = 9"

text \<open>\<open>Code\<close> over the registry \<open>actors.GetActorCodeID\<close>; a missing entry panics.\<close>

definition Code :: "(nat \<Rightarrow> string \<Rightarrow> cid option) \<Rightarrow> 'blk state9 \<Rightarrow> cid result" where
  "Code getActorCodeID s =
     (case getActorCodeID (ActorVersion s) (ActorKey s) of
        None \<Rightarrow> Inl (ErrPanic (''didn't find actor '' @ ActorKey s @ '' code id for actor version 9''))
      | Some code \<Rightarrow> Inr code)"

section \<open>Callbacks and example inputs\<close>

text \<open>
  A callback for \<open>ForEachClaim\<close> that collects the miners and claims it is
  called with, in order, and the result of one entry of that walk.
\<close>

definition collect_claims :: "Address \<Rightarrow> Claim \<Rightarrow> (Address \<times> Claim) list \<Rightarrow> (Address \<times> Claim) list result" where
  "collect_claims a c acc = Inr (acc @ [(a, c)])"

definition claim_entry :: "('blk, 'r) PowerCodec \<Rightarrow> bytes \<times> 'r \<Rightarrow> (Address \<times> Claim) result" where
  "claim_entry codec =
     (\<lambda>(k, r). bindE (decode_power9_Claim codec r) (\<lambda>c. bindE (NewFromBytes k) (\<lambda>a. Inr (a, fromV9Claim c))))"

text \<open>The caller's callback applied to decoded entries in order, threading its state.\<close>

fun cb_chain :: "(Address \<Rightarrow> Claim \<Rightarrow> 's \<Rightarrow> 's result) \<Rightarrow> (Address \<times> Claim) list \<Rightarrow> 's \<Rightarrow> 's result" where
  "cb_chain cb [] st = Inr st"
| "cb_chain cb ((a, c) # xs) st = bindE (cb a c st) (cb_chain cb xs)"

text \<open>
  A codec whose blocks and encoded claims are numbers: block 1 holds the
  claims of miners f01000 and f05, block 2 a claim of f05 and an entry whose
  key has the unknown protocol 7; an encoded claim \<open>n > 0\<close> decodes to raw
  power \<open>n\<close> and quality-adjusted power \<open>2n\<close>.
\<close>

definition ex_power_codec :: "(nat, nat) PowerCodec" where
  "ex_power_codec =
     \<lparr>pc_state = (\<lambda>_. None),
      pc_map = (\<lambda>b. if b = 1 then Some [([0, 0xE8, 0x07], 10), ([0, 5], 20)]
                    else if b = 2 then Some [([0, 5], 20), ([7, 1], 30)] else None),
      pc_claim = (\<lambda>r. if r = 0 then None
                      else Some \<lparr>c9_WindowPoStProofType = 8, c9_RawBytePower = int r,
                                 c9_QualityAdjPower = 2 * int r\<rparr>)\<rparr>"

definition ex_power_state :: "cid \<Rightarrow> int64 \<Rightarrow> nat state9" where
  "ex_power_state c n =
     \<lparr>st9_State = \<lparr>TotalRawBytePower = 1000, TotalBytesCommitted = 2000, TotalQualityAdjPower = 3000,
                   TotalQABytesCommitted = 4000, TotalPledgeCollateral = 5000,
                   ThisEpochQAPowerSmoothed = \<lparr>fe_PositionEstimate = 0, fe_VelocityEstimate = 0\<rparr>,
                   MinerCount = n, MinerAboveMinPowerCount = 0, Claims = c\<rparr>,
      st9_store = [''bafyclaims'' \<mapsto> 1, ''bafybadkey'' \<mapsto> 2]\<rparr>"

section \<open>Lemmas\<close>

lemma adt_ForEach_append:
  "adt_ForEach dec (xs @ ys) cb st = bindE (adt_ForEach dec xs cb st) (\<lambda>st'. adt_ForEach dec ys cb st')"
  by (induction dec xs cb st rule: adt_ForEach.induct) (simp_all add: bindE_def split: sum.splits)

lemma adt_ForEach_stop:
  assumes "es = pre @ (k, r) # post" and "adt_ForEach dec pre cb st = Inr st1"
    and "bindE (dec r) (\<lambda>v. cb k v st1) = Inl e"
  shows "adt_ForEach dec es cb st = Inl e"
proof -
  have "adt_ForEach dec ((k, r) # post) cb st1 = bindE (bindE (dec r) (\<lambda>v. cb k v st1)) (adt_ForEach dec post cb)"
    by (simp add: bindE_assoc)
  with assms show ?thesis by (simp add: adt_ForEach_append)
qed

lemma adt_ForEach_Inl_first:
  assumes "adt_ForEach dec es cb st = Inl e"
  shows "\<exists>pre k r post st1. es = pre @ (k, r) # post \<and> adt_ForEach dec pre cb st = Inr st1 \<and>
           bindE (dec r) (\<lambda>v. cb k v st1) = Inl e"
  using assms
proof (induction es arbitrary: st)
  case Nil
  then show ?case by simp
next
  case (Cons a es)
  obtain k r where a: "a = (k, r)" by fastforce
  have here: "?case" if "bindE (dec r) (\<lambda>v. cb k v st) = Inl e"
    using that a by (intro exI [where x="[]"] exI [where x=k] exI [where x=r] exI [where x=es] exI [where x=st]) simp
  show ?case
  proof (cases "dec r")
    case (Inl e')
    with Cons.prems a show ?thesis by (intro here) simp
  next
    case (Inr v)
    show ?thesis
    proof (cases "cb k v st")
      case (Inl e')
      with Cons.prems a \<open>dec r = Inr v\<close> show ?thesis by (intro here) simp
    next
      case (Inr st')
      with Cons.prems a \<open>dec r = Inr v\<close> have "adt_ForEach dec es cb st' = Inl e" by simp
      then obtain pre k' r' post st1 where "es = pre @ (k', r') # post" "adt_ForEach dec pre cb st' = Inr st1"
          "bindE (dec r') (\<lambda>v. cb k' v st1) = Inl e"
        using Cons.IH by blast
      with a \<open>dec r = Inr v\<close> Inr show ?thesis
        by (intro exI [where x="a # pre"] exI [where x=k'] exI [where x=r'] exI [where x=post] exI [where x=st1]) simp
    qed
  qed
qed

lemma adt_ForEach_collect:
  "adt_ForEach dec es (\<lambda>k v acc. bindE (g k v) (\<lambda>x. Inr (acc @ [x]))) acc =
     bindE (mapE (\<lambda>(k, r). bindE (dec r) (g k)) es) (\<lambda>xs. Inr (acc @ xs))"
proof (induction es arbitrary: acc)
  case (Cons e es)
  obtain k r where "e = (k, r)" by fastforce
  then show ?case using Cons
    by (cases "dec r"; cases "bindE (dec r) (g k)"; simp add: result_simps split: sum.splits)
qed simp

lemma ListAllMiners_mapE:
  "ListAllMiners (codec :: ('blk, 'r) PowerCodec) s = bindE (ClaimsMap codec s) (mapE (\<lambda>(k, _). NewFromBytes k))"
proof -
  have "(\<lambda>es :: (bytes \<times> 'r) list. adt_ForEach (\<lambda>_. Inr ()) es (\<lambda>k _ miners. bindE (NewFromBytes k) (\<lambda>a. Inr (miners @ [a]))) []) =
               mapE (\<lambda>(k, _). NewFromBytes k)"
    by (rule ext, subst adt_ForEach_collect) (simp add: case_prod_beta)
  then show ?thesis unfolding ListAllMiners_def by simp
qed

lemma ForEachClaim_collect:
  "ForEachClaim (codec :: ('blk, 'r) PowerCodec) s collect_claims acc =
     bindE (ClaimsMap codec s) (\<lambda>es. bindE (mapE (claim_entry codec) es) (\<lambda>xs. Inr (acc @ xs)))"
proof -
  have cb: "ForEachClaim_cb collect_claims =
      (\<lambda>k v acc. bindE ((\<lambda>k c. bindE (NewFromBytes k) (\<lambda>a. Inr (a, fromV9Claim c))) k v) (\<lambda>x. Inr (acc @ [x])))"
    by (simp add: fun_eq_iff ForEachClaim_cb_def collect_claims_def fromV9Claim_def bindE_assoc)
  have "(\<lambda>es :: (bytes \<times> 'r) list. adt_ForEach (decode_power9_Claim codec) es (ForEachClaim_cb collect_claims) acc) =
        (\<lambda>es. bindE (mapE (claim_entry codec) es) (\<lambda>xs. Inr (acc @ xs)))"
    unfolding cb by (rule ext, subst adt_ForEach_collect) (simp add: claim_entry_def case_prod_beta)
  then show ?thesis unfolding ForEachClaim_def by simp
qed

lemma claim_entry_Inr:
  "claim_entry codec (k, r) = Inr (a, c) \<longleftrightarrow>
     (\<exists>c9. pc_claim codec r = Some c9 \<and> NewFromBytes k = Inr a \<and> c = fromV9Claim c9)"
  by (auto simp: claim_entry_def decode_power9_Claim_def result_simps split: option.splits)

lemma MinerPower_found:
  "MinerPower codec s a = Inr (c, True) \<longleftrightarrow>
     (\<exists>es r c9. ClaimsMap codec s = Inr es \<and> map_of es (Address_Bytes a) = Some r \<and>
        pc_claim codec r = Some c9 \<and> c = fromV9Claim c9)"
  by (cases "ClaimsMap codec s")
     (auto simp: MinerPower_def decode_power9_Claim_def fromV9Claim_def split: option.splits)

lemma ListAllMiners_claim_entry:
  "\<forall>(k, r) \<in> set es. pc_claim codec r \<noteq> None \<Longrightarrow>
     mapE (\<lambda>(k, _). NewFromBytes k) es = map_sum id (map fst) (mapE (claim_entry codec) es)"
proof (induction es)
  case (Cons e es)
  obtain k r where e: "e = (k, r)" by fastforce
  with Cons.prems obtain c9 where "pc_claim codec r = Some c9" by auto
  with e Cons show ?case
    by (cases "NewFromBytes k"; cases "mapE (claim_entry codec) es")
       (simp_all add: claim_entry_def decode_power9_Claim_def)
qed simp

subsection \<open>The example walks\<close>

lemma ex_claims_map:
  "ClaimsMap ex_power_codec (ex_power_state ''bafyclaims'' n) = Inr [([0, 0xE8, 0x07], 10), ([0, 5], 20)]"
  by (simp add: ClaimsMap_def ex_power_codec_def ex_power_state_def store_Get_def)
lemma ex_claims_walk:
  "ForEachClaim ex_power_codec (ex_power_state ''bafyclaims'' n) collect_claims [] =
     Inr [(Address 0 [0xE8, 0x07], \<lparr>RawBytePower = 10, QualityAdjPower = 20\<rparr>),
          (Address 0 [5], \<lparr>RawBytePower = 20, QualityAdjPower = 40\<rparr>)]"
  unfolding ForEachClaim_def ex_claims_map
  by (simp add: ForEachClaim_cb_def collect_claims_def decode_power9_Claim_def ex_power_codec_def NewFromBytes_def)
lemma ex_bad_map:
  "ClaimsMap ex_power_codec (ex_power_state ''bafybadkey'' n) = Inr [([0, 5], 20), ([7, 1], 30)]"
  by (simp add: ClaimsMap_def ex_power_codec_def ex_power_state_def store_Get_def)
lemma ex_list:
  "ListAllMiners ex_power_codec (ex_power_state ''bafyclaims'' n) = Inr [Address 0 [0xE8, 0x07], Address 0 [5]]"
  unfolding ListAllMiners_def ex_claims_map by (simp add: NewFromBytes_def)
section \<open>Properties\<close>

text \<open>
  C14. On a claims map with distinct keys (a HAMT), a walk of
  \<open>ForEachClaim\<close> that collects its calls reports a miner with a claim exactly
  when \<open>MinerPower\<close> finds that miner with that claim.
\<close>

lemma ForEachClaim_MinerPower:
  assumes "ClaimsMap codec s = Inr es" and "distinct (map fst es)"
    and "ForEachClaim codec s collect_claims [] = Inr L"
  shows "(a, c) \<in> set L \<longleftrightarrow> MinerPower codec s a = Inr (c, True)"
proof -
  from assms(1,3) have all: "list_all2 (\<lambda>x y. claim_entry codec x = Inr y) es L"
    by (simp add: ForEachClaim_collect result_simps)
  show ?thesis
  proof
    assume "(a, c) \<in> set L"
    then obtain k r where kr: "(k, r) \<in> set es" "claim_entry codec (k, r) = Inr (a, c)"
      using list_all2_in_set2 [OF all] by fastforce
    then obtain c9 where c9: "pc_claim codec r = Some c9" "NewFromBytes k = Inr a" "c = fromV9Claim c9"
      by (auto simp: claim_entry_Inr)
    from c9(2) have "Address_Bytes a = k" by (rule NewFromBytes_Bytes)
    with kr(1) assms(2) have "map_of es (Address_Bytes a) = Some r" by simp
    with assms(1) c9 show "MinerPower codec s a = Inr (c, True)" by (auto simp: MinerPower_found)
  next
    assume "MinerPower codec s a = Inr (c, True)"
    with assms(1) obtain r c9 where r: "map_of es (Address_Bytes a) = Some r" "pc_claim codec r = Some c9"
        "c = fromV9Claim c9" by (auto simp: MinerPower_found)
    from r(1) have "(Address_Bytes a, r) \<in> set es" by (rule map_of_SomeD)
    then obtain y where y: "y \<in> set L" "claim_entry codec (Address_Bytes a, r) = Inr y"
      using list_all2_in_set1 [OF all] by blast
    obtain a' c' where yy: "y = (a', c')" by fastforce
    with y(2) r(2) have nfb: "NewFromBytes (Address_Bytes a) = Inr a'" and "c' = fromV9Claim c9"
      by (auto simp: claim_entry_Inr)
    with r(3) yy have "y = (a', c)" by simp
    moreover from nfb have "a' = a" using NewFromBytes_Bytes Address_Bytes_inj by metis
    ultimately show "(a, c) \<in> set L" using y by simp
  qed
qed

lemma ForEachClaim_MinerPower_witness:
  "MinerPower ex_power_codec (ex_power_state ''bafyclaims'' 0) (Address 0 [5]) =
     Inr (\<lparr>RawBytePower = 20, QualityAdjPower = 40\<rparr>, True)"
  using ForEachClaim_MinerPower [OF ex_claims_map _ ex_claims_walk] by simp

text \<open>
  C15. When every claim in the map decodes, \<open>ListAllMiners\<close> lists the same
  miners, in the same order, as a collecting walk of \<open>ForEachClaim\<close> (it
  differs only in not decoding the claims).
\<close>

lemma ListAllMiners_ForEachClaim:
  assumes "ClaimsMap codec s = Inr es" and "\<forall>(k, r) \<in> set es. pc_claim codec r \<noteq> None"
  shows "ListAllMiners codec s = map_sum id (map fst) (ForEachClaim codec s collect_claims [])"
  using assms by (simp add: ListAllMiners_mapE ForEachClaim_collect ListAllMiners_claim_entry)

lemma ListAllMiners_ForEachClaim_witness:
  "ListAllMiners ex_power_codec (ex_power_state ''bafyclaims'' 0) = Inr [Address 0 [0xE8, 0x07], Address 0 [5]]"
  using ListAllMiners_ForEachClaim [OF ex_claims_map] ex_claims_walk by (simp add: ex_power_codec_def)

text \<open>
  The addresses \<open>ListAllMiners\<close> returns are the keys of the claims map,
  in iteration order: each key is the \<open>Bytes()\<close> of the listed address.
\<close>

lemma ListAllMiners_keys:
  assumes "ListAllMiners codec s = Inr ms" and "ClaimsMap codec s = Inr es"
  shows "map Address_Bytes ms = map fst es"
proof -
  from assms have "list_all2 (\<lambda>x y. (case x of (k, _) \<Rightarrow> NewFromBytes k) = Inr y) es ms"
    by (simp add: ListAllMiners_mapE result_simps)
  then show ?thesis by (rule list_all2_map_eq) (auto intro: NewFromBytes_Bytes)
qed

text \<open>
  The walk over a prefix of the claims map succeeds exactly when every entry
  of it decodes to an address and a claim and the callbacks, applied to them
  in order, succeed.
\<close>

lemma adt_ForEach_cb_chain:
  "adt_ForEach (decode_power9_Claim codec) es (ForEachClaim_cb cb) st = Inr st1 \<longleftrightarrow>
     (\<exists>xs. mapE (claim_entry codec) es = Inr xs \<and> cb_chain cb xs st = Inr st1)"
proof (induction es arbitrary: st)
  case (Cons e es)
  obtain k r where "e = (k, r)" by fastforce
  show ?case
  proof (cases "claim_entry codec (k, r)")
    case (Inl err)
    then show ?thesis using \<open>e = (k, r)\<close>
      by (auto simp: claim_entry_def ForEachClaim_cb_def fromV9Claim_def bindE_def split: sum.splits)
  next
    case (Inr x)
    then obtain c a where x: "x = (a, fromV9Claim c)" "decode_power9_Claim codec r = Inr c" "NewFromBytes k = Inr a"
      by (auto simp: claim_entry_def bindE_def split: sum.splits)
    then have "adt_ForEach (decode_power9_Claim codec) (e # es) (ForEachClaim_cb cb) st =
        bindE (cb a (fromV9Claim c) st) (\<lambda>st'. adt_ForEach (decode_power9_Claim codec) es (ForEachClaim_cb cb) st')"
      using \<open>e = (k, r)\<close> by (simp add: ForEachClaim_cb_def fromV9Claim_def)
    with Cons.IH Inr x \<open>e = (k, r)\<close> show ?thesis
      by (cases "cb a (fromV9Claim c) st") (auto simp: bindE_def split: sum.splits)
  qed
qed simp

lemma ForEachClaim_entry_Inl:
  "bindE (decode_power9_Claim codec r) (\<lambda>c. ForEachClaim_cb cb k c st1) = Inl e \<longleftrightarrow>
     pc_claim codec r = None \<and> e = ErrDecode ''power9.Claim'' \<or>
     (\<exists>c9. pc_claim codec r = Some c9 \<and>
        (NewFromBytes k = Inl e \<or> (\<exists>a. NewFromBytes k = Inr a \<and> cb a (fromV9Claim c9) st1 = Inl e)))"
  by (auto simp: decode_power9_Claim_def ForEachClaim_cb_def fromV9Claim_def bindE_def
      split: option.splits sum.splits)

lemma ForEachClaim_Inl_first:
  "ForEachClaim codec s cb st = Inl e \<longleftrightarrow>
     ClaimsMap codec s = Inl e \<or>
     (\<exists>pre k r post st1. ClaimsMap codec s = Inr (pre @ (k, r) # post) \<and>
        adt_ForEach (decode_power9_Claim codec) pre (ForEachClaim_cb cb) st = Inr st1 \<and>
        bindE (decode_power9_Claim codec r) (\<lambda>c. ForEachClaim_cb cb k c st1) = Inl e)"
proof (cases "ClaimsMap codec s")
  case (Inr es)
  then show ?thesis
    using adt_ForEach_Inl_first [where dec="decode_power9_Claim codec" and es=es and cb="ForEachClaim_cb cb"
        and st=st and e=e]
      adt_ForEach_stop [where es=es and dec="decode_power9_Claim codec" and cb="ForEachClaim_cb cb"
        and st=st and e=e]
    by (auto simp: ForEachClaim_def)
qed (simp add: ForEachClaim_def)

text \<open>
  C16. \<open>ForEachClaim\<close> fails exactly when the claims map cannot be loaded
  (with that error), or at an entry after which nothing more is called: every
  earlier entry decoded to a claim and an address with a succeeding callback,
  and this entry's claim does not decode (a decode error), or its key is not
  an address (the address error), or the callback on its address and its
  converted claim fails (the callback's error).
\<close>

lemma ForEachClaim_Inl_iff:
  "ForEachClaim codec s cb st = Inl e \<longleftrightarrow>
     ClaimsMap codec s = Inl e \<or>
     (\<exists>pre k r post xs st1. ClaimsMap codec s = Inr (pre @ (k, r) # post) \<and>
        mapE (claim_entry codec) pre = Inr xs \<and> cb_chain cb xs st = Inr st1 \<and>
        (pc_claim codec r = None \<and> e = ErrDecode ''power9.Claim'' \<or>
         (\<exists>c9. pc_claim codec r = Some c9 \<and>
            (NewFromBytes k = Inl e \<or> (\<exists>a. NewFromBytes k = Inr a \<and> cb a (fromV9Claim c9) st1 = Inl e)))))"
  unfolding ForEachClaim_Inl_first adt_ForEach_cb_chain ForEachClaim_entry_Inl by blast

lemma ForEachClaim_Inl_witness:
  "ForEachClaim ex_power_codec (ex_power_state ''bafybadkey'' 0) collect_claims [] =
     Inl (ErrAddress ''unknown address protocol'')"
proof -
  define xs where "xs = [(Address 0 [5], \<lparr>RawBytePower = 20, QualityAdjPower = 40\<rparr>)]"
  have "mapE (claim_entry ex_power_codec) [([0, 5], 20)] = Inr xs"
    by (simp add: xs_def claim_entry_def decode_power9_Claim_def ex_power_codec_def NewFromBytes_def fromV9Claim_def)
  moreover have "cb_chain collect_claims xs [] = Inr xs"
    by (simp add: xs_def collect_claims_def)
  moreover have "pc_claim ex_power_codec 30 = Some \<lparr>c9_WindowPoStProofType = 8, c9_RawBytePower = 30, c9_QualityAdjPower = 60\<rparr>"
    by (simp add: ex_power_codec_def)
  moreover have "NewFromBytes [7, 1] = Inl (ErrAddress ''unknown address protocol'')"
    by (simp add: NewFromBytes_def)
  ultimately show ?thesis
    using ex_bad_map [of 0]
    by (subst ForEachClaim_Inl_iff)
       (intro disjI2 exI [where x="[([0, 5], 20)]"] exI [where x="[7, 1]"] exI [where x=30] exI [where x="[]"]
          exI [where x=xs] exI [where x=xs], simp)
qed

text \<open>
  C17. When \<open>ClaimsChanged\<close> reports no change against another version-9
  state over the same store, the two states have the same claims map, list
  the same miners and give every miner the same power; a state of another
  version always counts as changed.
\<close>

lemma ClaimsChanged_sound:
  assumes "ClaimsChanged s (PowerState9 other) = Inr False" and "st9_store other = st9_store s"
  shows "ClaimsMap codec s = ClaimsMap codec other \<and> ListAllMiners codec s = ListAllMiners codec other \<and>
         (\<forall>a. MinerPower codec s a = MinerPower codec other a) \<and>
         ClaimsChanged s (PowerStateOther v) = Inr True"
proof -
  from assms have "ClaimsMap codec s = ClaimsMap codec other" by (simp add: ClaimsChanged_def ClaimsMap_def)
  then show ?thesis by (simp add: ListAllMiners_def MinerPower_def ClaimsChanged_def)
qed

lemma ClaimsChanged_sound_witness:
  "ClaimsChanged (ex_power_state ''bafyclaims'' 3) (PowerState9 (ex_power_state ''bafyclaims'' 4)) = Inr False \<and>
   ListAllMiners ex_power_codec (ex_power_state ''bafyclaims'' 3) =
     ListAllMiners ex_power_codec (ex_power_state ''bafyclaims'' 4)"
proof -
  have "ClaimsChanged (ex_power_state ''bafyclaims'' 3) (PowerState9 (ex_power_state ''bafyclaims'' 4)) = Inr False"
    by (simp add: ClaimsChanged_def ex_power_state_def)
  moreover have "st9_store (ex_power_state ''bafyclaims'' 4) = st9_store (ex_power_state ''bafyclaims'' 3)"
    by (simp add: ex_power_state_def)
  ultimately show ?thesis using ClaimsChanged_sound [where codec=ex_power_codec and v=0] by blast
qed

text \<open>
  C18. \<open>MinerCounts\<close> returns the signed counts of the state read as unsigned
  64-bit values: each is the count modulo 2^64, so a negative count wraps to
  a value near 2^64.
\<close>

lemma MinerCounts_wrap:
  assumes "MinerCounts s = Inr (nabove, ntotal)"
  shows "int (unat ntotal) = sint (MinerCount (st9_State s)) mod 2 ^ 64 \<and>
         int (unat nabove) = sint (MinerAboveMinPowerCount (st9_State s)) mod 2 ^ 64"
  using assms by (auto simp: MinerCounts_def uint_sint take_bit_eq_mod)

lemma MinerCounts_wrap_witness:
  "int (unat (snd (projr (MinerCounts (ex_power_state ''bafyclaims'' (-1)))))) = 18446744073709551615"
proof -
  obtain na nt where c: "MinerCounts (ex_power_state ''bafyclaims'' (-1)) = Inr (na, nt)"
    by (simp add: MinerCounts_def)
  have "MinerCount (st9_State (ex_power_state ''bafyclaims'' (-1))) = -1" by (simp add: ex_power_state_def)
  with MinerCounts_wrap [OF c] c show ?thesis by simp
qed

end
