(* ===== verification/Reward.thy ===== *)
theory Reward
  imports Chain
begin

text \<open>
  The reward extractor of \<open>src/tasks/actorstate/reward.go\<close>: it looks up the
  reward actor at the tipset, loads its state, reads eight values through the
  version-independent \<open>reward.State\<close> interface, and renders them into a
  \<open>ChainReward\<close> row. Every error is returned as the failing call returned
  it. The lemmas show that the extractor never returns nil (it does not
  compare with a previous state), that it returns a row exactly when every
  call succeeds, that each numeric column reads back as the value the state
  reported, and that an error is always the error of one of its calls.
\<close>

section \<open>The reward state interface and the row\<close>

text \<open>The getters of \<open>reward.State\<close> used by the extractor, over the decoded state type \<open>'st\<close>.\<close>

record 'st RewardStateAPI =
  rs_CumsumBaseline :: "'st \<Rightarrow> int result"
  rs_CumsumRealized :: "'st \<Rightarrow> int result"
  rs_EffectiveBaselinePower :: "'st \<Rightarrow> int result"
  rs_ThisEpochBaselinePower :: "'st \<Rightarrow> int result"
  rs_ThisEpochRewardSmoothed :: "'st \<Rightarrow> FilterEstimate result"
  rs_TotalStoragePowerReward :: "'st \<Rightarrow> int result"
  rs_ThisEpochReward :: "'st \<Rightarrow> int result"
  rs_EffectiveNetworkTime :: "'st \<Rightarrow> int64 result"

text \<open>\<open>rewardmodel.ChainReward\<close>.\<close>

record ChainReward =
  cr_StateRoot :: string
  cr_CumSumBaseline :: string
  cr_CumSumRealized :: string
  cr_EffectiveBaselinePower :: string
  cr_NewBaselinePower :: string
  cr_NewRewardSmoothedPositionEstimate :: string
  cr_NewRewardSmoothedVelocityEstimate :: string
  cr_TotalMinedReward :: string
  cr_NewReward :: string
  cr_EffectiveNetworkTime :: int64

text \<open>\<open>builtin.RewardActorAddr\<close>, the ID address f02.\<close>

definition RewardActorAddr :: Address where
  "RewardActorAddr = Address 0 [2]"

section \<open>The extractor\<close>

text \<open>
  \<open>RewardExtractor.Extract\<close>; the result is a \<open>model.Persistable\<close>, nil
  (\<open>None\<close>) or a row.
\<close>

definition RewardExtractor_Extract ::
  "('blk, 'st) Loader \<Rightarrow> 'st RewardStateAPI \<Rightarrow> 'blk ActorStateAPI \<Rightarrow> ActorInfo \<Rightarrow>
     ChainReward option result" where
  "RewardExtractor_Extract ld rs node a =
     bindE (node_StateGetActor node RewardActorAddr (ai_TipSet a)) (\<lambda>rewardActor.
     bindE (Load ld (node_Store node) rewardActor) (\<lambda>rstate.
     bindE (rs_CumsumBaseline rs rstate) (\<lambda>csbaseline.
     bindE (rs_CumsumRealized rs rstate) (\<lambda>csrealized.
     bindE (rs_EffectiveBaselinePower rs rstate) (\<lambda>effectiveBaselinePower.
     bindE (rs_ThisEpochBaselinePower rs rstate) (\<lambda>thisBaslinePower.
     bindE (rs_ThisEpochRewardSmoothed rs rstate) (\<lambda>thisRewardSmoothed.
     bindE (rs_TotalStoragePowerReward rs rstate) (\<lambda>totalMinedReward.
     bindE (rs_ThisEpochReward rs rstate) (\<lambda>thisReward.
     bindE (rs_EffectiveNetworkTime rs rstate) (\<lambda>networkTime.
       Inr (Some
         \<lparr>cr_StateRoot = ai_ParentStateRoot a,
          cr_CumSumBaseline = big_String csbaseline,
          cr_CumSumRealized = big_String csrealized,
          cr_EffectiveBaselinePower = big_String effectiveBaselinePower,
          cr_NewBaselinePower = big_String thisBaslinePower,
          cr_NewRewardSmoothedPositionEstimate = big_String (fe_PositionEstimate thisRewardSmoothed),
          cr_NewRewardSmoothedVelocityEstimate = big_String (fe_VelocityEstimate thisRewardSmoothed),
          cr_TotalMinedReward = big_String totalMinedReward,
          cr_NewReward = big_String thisReward,
          cr_EffectiveNetworkTime = networkTime\<rparr>)))))))))))"

text \<open>The error a call returned, if it failed.\<close>

definition err_of :: "'a result \<Rightarrow> error option" where
  "err_of r = (case r of Inl e \<Rightarrow> Some e | Inr _ \<Rightarrow> None)"

text \<open>A column reads back (\<open>parse_numeric\<close>) as the value a getter returned.\<close>

definition reads_back :: "int result \<Rightarrow> string \<Rightarrow> bool" where
  "reads_back g col \<longleftrightarrow> (\<exists>v. g = Inr v \<and> parse_numeric col = Some v)"

section \<open>Example inputs\<close>

text \<open>The reward state of the repository's \<open>TestRewardExtractV2\<close>, at tipset 1.\<close>

definition ex_reward_api :: "nat RewardStateAPI" where
  "ex_reward_api =
     \<lparr>rs_CumsumBaseline = (\<lambda>_. Inr 1000), rs_CumsumRealized = (\<lambda>_. Inr 2000),
      rs_EffectiveBaselinePower = (\<lambda>_. Inr 4000), rs_ThisEpochBaselinePower = (\<lambda>_. Inr 7000),
      rs_ThisEpochRewardSmoothed = (\<lambda>_. Inr \<lparr>fe_PositionEstimate = 6000, fe_VelocityEstimate = 60\<rparr>),
      rs_TotalStoragePowerReward = (\<lambda>_. Inr 8000), rs_ThisEpochReward = (\<lambda>_. Inr 5000),
      rs_EffectiveNetworkTime = (\<lambda>_. Inr 3000)\<rparr>"

definition ex_reward_loader :: "(nat, nat) Loader" where
  "ex_reward_loader = \<lparr>ld_version = (\<lambda>c. if c = ''fil/2/reward'' then Some 2 else None), ld_decode = (\<lambda>v b. Some b)\<rparr>"

definition ex_reward_node :: "nat ActorStateAPI" where
  "ex_reward_node =
     \<lparr>node_Actor = (\<lambda>addr k. Inl (ErrNotFound k)),
      node_StateGetActor = (\<lambda>addr ts. if addr = RewardActorAddr
                                       then Inr \<lparr>act_Code = ''fil/2/reward'', act_Head = ''bafyreward''\<rparr>
                                       else Inl (ErrNotFound (ts_Key ts))),
      node_Store = [''bafyreward'' \<mapsto> 0]\<rparr>"

definition ex_reward_info :: ActorInfo where
  "ex_reward_info =
     \<lparr>ai_Actor = \<lparr>act_Code = ''fil/2/reward'', act_Head = ''bafyreward''\<rparr>, ai_Address = RewardActorAddr,
      ai_Current = ex_tipset 1, ai_Executed = ex_tipset 0, ai_TipSet = ex_tipset 1, ai_ParentStateRoot = ''bafyroot1''\<rparr>"

text \<open>The row the test expects.\<close>

definition ex_reward_row :: ChainReward where
  "ex_reward_row =
     \<lparr>cr_StateRoot = ''bafyroot1'', cr_CumSumBaseline = ''1000'', cr_CumSumRealized = ''2000'',
      cr_EffectiveBaselinePower = ''4000'', cr_NewBaselinePower = ''7000'',
      cr_NewRewardSmoothedPositionEstimate = ''6000'', cr_NewRewardSmoothedVelocityEstimate = ''60'',
      cr_TotalMinedReward = ''8000'', cr_NewReward = ''5000'', cr_EffectiveNetworkTime = 3000\<rparr>"

section \<open>Lemmas\<close>

lemma ex_reward_run:
  "RewardExtractor_Extract ex_reward_loader ex_reward_api ex_reward_node ex_reward_info =
     Inr (Some ex_reward_row)"
  by (simp add: RewardExtractor_Extract_def ex_reward_loader_def ex_reward_api_def ex_reward_node_def
      ex_reward_info_def ex_reward_row_def Load_def store_Get_def decimal_eval)

lemma ex_reward_unsupported:
  "RewardExtractor_Extract (ex_reward_loader\<lparr>ld_version := \<lambda>_. None\<rparr>) ex_reward_api ex_reward_node ex_reward_info =
     Inl (ErrUnsupportedActorVersion ''fil/2/reward'')"
  by (simp add: RewardExtractor_Extract_def ex_reward_node_def Load_def)

section \<open>Properties\<close>

text \<open>
  C19. The reward extractor never returns nil: it loads no previous state, so
  an unchanged reward state still yields a row at every tipset.
\<close>

lemma RewardExtractor_Extract_never_nil: "RewardExtractor_Extract ld rs node a \<noteq> Inr None"
  by (simp add: RewardExtractor_Extract_def bindE_def split: sum.splits)

text \<open>
  C20. The extractor returns a row exactly when the lookup of the reward actor,
  the loading of its state and each of the eight getters succeed.
\<close>

lemma RewardExtractor_Extract_row_iff:
  "(\<exists>r. RewardExtractor_Extract ld rs node a = Inr (Some r)) \<longleftrightarrow>
     (\<exists>act st. node_StateGetActor node RewardActorAddr (ai_TipSet a) = Inr act \<and>
        Load ld (node_Store node) act = Inr st \<and>
        err_of (rs_CumsumBaseline rs st) = None \<and> err_of (rs_CumsumRealized rs st) = None \<and>
        err_of (rs_EffectiveBaselinePower rs st) = None \<and> err_of (rs_ThisEpochBaselinePower rs st) = None \<and>
        err_of (rs_ThisEpochRewardSmoothed rs st) = None \<and> err_of (rs_TotalStoragePowerReward rs st) = None \<and>
        err_of (rs_ThisEpochReward rs st) = None \<and> err_of (rs_EffectiveNetworkTime rs st) = None)"
  by (auto simp: RewardExtractor_Extract_def err_of_def bindE_def split: sum.splits)

text \<open>
  C21. Each numeric column of the row reads back as the value the state's
  getter returned, the state root is the actor info's parent state root, and
  the network time is the getter's epoch (the assertions of the repository's
  reward tests).
\<close>

lemma RewardExtractor_Extract_columns:
  assumes "RewardExtractor_Extract ld rs node a = Inr (Some r)"
  shows "\<exists>act st fe. node_StateGetActor node RewardActorAddr (ai_TipSet a) = Inr act \<and>
           Load ld (node_Store node) act = Inr st \<and> cr_StateRoot r = ai_ParentStateRoot a \<and>
           reads_back (rs_CumsumBaseline rs st) (cr_CumSumBaseline r) \<and>
           reads_back (rs_CumsumRealized rs st) (cr_CumSumRealized r) \<and>
           reads_back (rs_EffectiveBaselinePower rs st) (cr_EffectiveBaselinePower r) \<and>
           reads_back (rs_ThisEpochBaselinePower rs st) (cr_NewBaselinePower r) \<and>
           rs_ThisEpochRewardSmoothed rs st = Inr fe \<and>
           parse_numeric (cr_NewRewardSmoothedPositionEstimate r) = Some (fe_PositionEstimate fe) \<and>
           parse_numeric (cr_NewRewardSmoothedVelocityEstimate r) = Some (fe_VelocityEstimate fe) \<and>
           reads_back (rs_TotalStoragePowerReward rs st) (cr_TotalMinedReward r) \<and>
           reads_back (rs_ThisEpochReward rs st) (cr_NewReward r) \<and>
           rs_EffectiveNetworkTime rs st = Inr (cr_EffectiveNetworkTime r)"
  using assms by (auto simp: RewardExtractor_Extract_def reads_back_def bindE_def split: sum.splits)

lemma RewardExtractor_Extract_columns_witness:
  "RewardExtractor_Extract ex_reward_loader ex_reward_api ex_reward_node ex_reward_info = Inr (Some ex_reward_row) \<and>
   (\<exists>act st fe. node_StateGetActor ex_reward_node RewardActorAddr (ai_TipSet ex_reward_info) = Inr act \<and>
           Load ex_reward_loader (node_Store ex_reward_node) act = Inr st \<and> cr_StateRoot ex_reward_row = ai_ParentStateRoot ex_reward_info \<and>
           reads_back (rs_CumsumBaseline ex_reward_api st) (cr_CumSumBaseline ex_reward_row) \<and>
           reads_back (rs_CumsumRealized ex_reward_api st) (cr_CumSumRealized ex_reward_row) \<and>
           reads_back (rs_EffectiveBaselinePower ex_reward_api st) (cr_EffectiveBaselinePower ex_reward_row) \<and>
           reads_back (rs_ThisEpochBaselinePower ex_reward_api st) (cr_NewBaselinePower ex_reward_row) \<and>
           rs_ThisEpochRewardSmoothed ex_reward_api st = Inr fe \<and>
           parse_numeric (cr_NewRewardSmoothedPositionEstimate ex_reward_row) = Some (fe_PositionEstimate fe) \<and>
           parse_numeric (cr_NewRewardSmoothedVelocityEstimate ex_reward_row) = Some (fe_VelocityEstimate fe) \<and>
           reads_back (rs_TotalStoragePowerReward ex_reward_api st) (cr_TotalMinedReward ex_reward_row) \<and>
           reads_back (rs_ThisEpochReward ex_reward_api st) (cr_NewReward ex_reward_row) \<and>
           rs_EffectiveNetworkTime ex_reward_api st = Inr (cr_EffectiveNetworkTime ex_reward_row))"
  by (rule conjI [OF ex_reward_run RewardExtractor_Extract_columns [OF ex_reward_run]])

text \<open>
  C22. The extractor does not wrap errors: a failure is the error of the actor
  lookup, of the state load, or of one of the getters, as that call returned it.
\<close>

lemma RewardExtractor_Extract_error:
  assumes "RewardExtractor_Extract ld rs node a = Inl e"
  shows "err_of (node_StateGetActor node RewardActorAddr (ai_TipSet a)) = Some e \<or>
         (\<exists>act. node_StateGetActor node RewardActorAddr (ai_TipSet a) = Inr act \<and>
            (err_of (Load ld (node_Store node) act) = Some e \<or>
             (\<exists>st. Load ld (node_Store node) act = Inr st \<and>
                Some e \<in> {err_of (rs_CumsumBaseline rs st), err_of (rs_CumsumRealized rs st),
                          err_of (rs_EffectiveBaselinePower rs st), err_of (rs_ThisEpochBaselinePower rs st),
                          err_of (rs_ThisEpochRewardSmoothed rs st), err_of (rs_TotalStoragePowerReward rs st),
                          err_of (rs_ThisEpochReward rs st), err_of (rs_EffectiveNetworkTime rs st)})))"
  using assms by (simp add: RewardExtractor_Extract_def err_of_def bindE_def split: sum.split_asm)


lemma RewardExtractor_Extract_error_witness:
  "RewardExtractor_Extract (ex_reward_loader\<lparr>ld_version := \<lambda>_. None\<rparr>) ex_reward_api ex_reward_node ex_reward_info =
     Inl (ErrUnsupportedActorVersion ''fil/2/reward'') \<and>
   (err_of (node_StateGetActor ex_reward_node RewardActorAddr (ai_TipSet ex_reward_info)) = Some (ErrUnsupportedActorVersion ''fil/2/reward'') \<or>
         (\<exists>act. node_StateGetActor ex_reward_node RewardActorAddr (ai_TipSet ex_reward_info) = Inr act \<and>
            (err_of (Load (ex_reward_loader\<lparr>ld_version := \<lambda>_. None\<rparr>) (node_Store ex_reward_node) act) = Some (ErrUnsupportedActorVersion ''fil/2/reward'') \<or>
             (\<exists>st. Load (ex_reward_loader\<lparr>ld_version := \<lambda>_. None\<rparr>) (node_Store ex_reward_node) act = Inr st \<and>
                Some (ErrUnsupportedActorVersion ''fil/2/reward'') \<in> {err_of (rs_CumsumBaseline ex_reward_api st), err_of (rs_CumsumRealized ex_reward_api st),
                          err_of (rs_EffectiveBaselinePower ex_reward_api st), err_of (rs_ThisEpochBaselinePower ex_reward_api st),
                          err_of (rs_ThisEpochRewardSmoothed ex_reward_api st), err_of (rs_TotalStoragePowerReward ex_reward_api st),
                          err_of (rs_ThisEpochReward ex_reward_api st), err_of (rs_EffectiveNetworkTime ex_reward_api st)}))))"
  by (rule conjI [OF ex_reward_unsupported RewardExtractor_Extract_error [OF ex_reward_unsupported]])

end
