(* ===== verification/TableTasks.thy ===== *)
theory TableTasks
  imports TableGen
begin

text \<open>
  The generated file \<open>src/chain/indexer/table_tasks.go\<close>: the table-name
  constants (the \<open>TypeName\<close> and \<open>ModelName\<close> pairs the generator of
  \<open>TableGen\<close> writes), the set \<open>TableLookup\<close> and the list
  \<open>AllTableTasks\<close>, both written over the constants' identifiers. The lemmas
  show that the list has no duplicate and names exactly the tables of the
  lookup set, and that the constants agree with the generator: every
  identifier is already exported, and every table name is the
  \<open>Underscore\<close> form of its identifier except for the six models that carry
  a \<open>tableName\<close> tag.
\<close>

section \<open>Constants\<close>

text \<open>The \<open>const\<close> block: each Go identifier with its table name.\<close>

definition table_consts :: "(string \<times> string) list" where
  "table_consts =
     [
      (''BlockHeader'', ''block_header''),
      (''BlockParent'', ''block_parent''),
      (''DrandBlockEntrie'', ''drand_block_entrie''),
      (''MinerSectorDeal'', ''miner_sector_deal''),
      (''MinerSectorInfoV7'', ''miner_sector_infos_v7''),
      (''MinerSectorInfoV1_6'', ''miner_sector_infos''),
      (''MinerSectorPost'', ''miner_sector_post''),
      (''MinerPreCommitInfo'', ''miner_pre_commit_info''),
      (''MinerSectorEvent'', ''miner_sector_event''),
      (''MinerCurrentDeadlineInfo'', ''miner_current_deadline_info''),
      (''MinerFeeDebt'', ''miner_fee_debt''),
      (''MinerLockedFund'', ''miner_locked_fund''),
      (''MinerInfo'', ''miner_info''),
      (''MarketDealProposal'', ''market_deal_proposal''),
      (''MarketDealState'', ''market_deal_state''),
      (''Message'', ''message''),
      (''BlockMessage'', ''block_message''),
      (''Receipt'', ''receipt''),
      (''MessageGasEconomy'', ''message_gas_economy''),
      (''ParsedMessage'', ''parsed_message''),
      (''InternalMessage'', ''internal_messages''),
      (''InternalParsedMessage'', ''internal_parsed_messages''),
      (''MultisigTransaction'', ''multisig_transaction''),
      (''ChainPower'', ''chain_power''),
      (''PowerActorClaim'', ''power_actor_claim''),
      (''ChainReward'', ''chain_reward''),
      (''Actor'', ''actor''),
      (''ActorState'', ''actor_state''),
      (''IdAddress'', ''id_address''),
      (''GasOutputs'', ''derived_gas_outputs''),
      (''ChainEconomics'', ''chain_economics''),
      (''ChainConsensus'', ''chain_consensus''),
      (''MultisigApproval'', ''multisig_approvals''),
      (''VerifiedRegistryVerifier'', ''verified_registry_verifier''),
      (''VerifiedRegistryVerifiedClient'', ''verified_registry_verified_client'')
     ]"

text \<open>The value of the constant with Go identifier \<open>n\<close>.\<close>

definition table_const :: "string \<Rightarrow> string" where
  "table_const n = (case map_of table_consts n of Some v \<Rightarrow> v | None \<Rightarrow> [])"

text \<open>\<open>TableLookup\<close>, a \<open>map[string]struct{}\<close>.\<close>

definition TableLookup :: "string \<rightharpoonup> unit" where
  "TableLookup =
     map_of (map (\<lambda>n. (table_const n, ()))
       [''BlockHeader'', ''BlockParent'', ''DrandBlockEntrie'', ''MinerSectorDeal'',
        ''MinerSectorInfoV7'', ''MinerSectorInfoV1_6'', ''MinerSectorPost'',
        ''MinerPreCommitInfo'', ''MinerSectorEvent'', ''MinerCurrentDeadlineInfo'',
        ''MinerFeeDebt'', ''MinerLockedFund'', ''MinerInfo'', ''MarketDealProposal'',
        ''MarketDealState'', ''Message'', ''BlockMessage'', ''Receipt'', ''MessageGasEconomy'',
        ''ParsedMessage'', ''InternalMessage'', ''InternalParsedMessage'', ''MultisigTransaction'',
        ''ChainPower'', ''PowerActorClaim'', ''ChainReward'', ''Actor'', ''ActorState'',
        ''IdAddress'', ''GasOutputs'', ''ChainEconomics'', ''ChainConsensus'',
        ''MultisigApproval'', ''VerifiedRegistryVerifier'', ''VerifiedRegistryVerifiedClient''])"

definition AllTableTasks :: "string list" where
  "AllTableTasks =
     map table_const
       [''BlockHeader'', ''BlockParent'', ''DrandBlockEntrie'', ''MinerSectorDeal'',
        ''MinerSectorInfoV7'', ''MinerSectorInfoV1_6'', ''MinerSectorPost'',
        ''MinerPreCommitInfo'', ''MinerSectorEvent'', ''MinerCurrentDeadlineInfo'',
        ''MinerFeeDebt'', ''MinerLockedFund'', ''MinerInfo'', ''MarketDealProposal'',
        ''MarketDealState'', ''Message'', ''BlockMessage'', ''Receipt'', ''MessageGasEconomy'',
        ''ParsedMessage'', ''InternalMessage'', ''InternalParsedMessage'', ''MultisigTransaction'',
        ''ChainPower'', ''PowerActorClaim'', ''ChainReward'', ''Actor'', ''ActorState'',
        ''IdAddress'', ''GasOutputs'', ''ChainEconomics'', ''ChainConsensus'',
        ''MultisigApproval'', ''VerifiedRegistryVerifier'', ''VerifiedRegistryVerifiedClient'']"

section \<open>Properties\<close>

text \<open>
  \<open>AllTableTasks\<close> lists 35 table names without duplicates, and they are
  exactly the keys of \<open>TableLookup\<close>.
\<close>

lemma AllTableTasks_TableLookup:
  "distinct AllTableTasks \<and> dom TableLookup = set AllTableTasks \<and> length AllTableTasks = 35"
proof -
  have "distinct AllTableTasks \<and> length AllTableTasks = 35" by code_simp
  moreover have "dom TableLookup = set AllTableTasks"
    by (simp add: TableLookup_def AllTableTasks_def dom_map_of_conv_image_fst image_image)
  ultimately show ?thesis by simp
qed
text \<open>
  The constants agree with the generator \<open>getModelTableName\<close>: every
  identifier is its own \<open>ToExported\<close> form, and every table name is the
  \<open>Underscore\<close> form of its identifier except for exactly six tables, whose
  models carry a \<open>pg\<close> \<open>tableName\<close> tag.
\<close>

lemma table_consts_generated:
  "[(n, v) \<leftarrow> table_consts. Underscore (bytes_of n) \<noteq> bytes_of v] =
     [(''MinerSectorInfoV7'', ''miner_sector_infos_v7''), (''MinerSectorInfoV1_6'', ''miner_sector_infos''),
      (''InternalMessage'', ''internal_messages''), (''InternalParsedMessage'', ''internal_parsed_messages''),
      (''GasOutputs'', ''derived_gas_outputs''), (''MultisigApproval'', ''multisig_approvals'')] \<and>
   list_all (\<lambda>(n, v). ToExported (bytes_of n) = bytes_of n) table_consts"
  by code_simp
end
