(* ===== verification/Gen.thy ===== *)
theory Gen
  imports TableGen
begin

text \<open>
  \<open>Gen\<close> of \<open>src/chain/indexer/tablegen/generator/gen.go\<close>: read the template
  \<open>table_tasks.go.template\<close>, compute \<open>modelTableNames()\<close>, parse the template
  with \<open>template.Must\<close> (a parse error panics), execute it into a buffer and
  write the buffer to \<open>table_tasks.go\<close>. The file system is an explicit store
  from paths to contents with a list of paths that cannot be written;
  \<open>text/template\<close> is a parameter (its parser and its executor over the
  table names). The lemmas characterise a successful run as exactly that
  pipeline, and show that \<open>Gen\<close> changes no file but \<open>table_tasks.go\<close> and,
  on every error, none at all.
\<close>

section \<open>File system\<close>

record FileSystem =
  fs_files :: "string \<rightharpoonup> bytes"
  fs_readonly :: "string list"

text \<open>
  \<open>filepath.Join(dir, name)\<close> for the relative directories \<open>Gen\<close> uses: the
  result is cleaned, which drops a leading \<open>./\<close>.
\<close>

definition filepath_Join :: "string \<Rightarrow> string \<Rightarrow> string" where
  "filepath_Join dir name = (if take 2 dir = ''./'' then drop 2 dir else dir) @ ''/'' @ name"

text \<open>\<open>ioutil.ReadFile\<close> and \<open>ioutil.WriteFile\<close> on the store.\<close>

definition ReadFile :: "FileSystem \<Rightarrow> string \<Rightarrow> bytes result" where
  "ReadFile fs p =
     (case fs_files fs p of None \<Rightarrow> Inl (ErrExternal (''open '' @ p @ '': no such file or directory''))
      | Some b \<Rightarrow> Inr b)"

definition WriteFile :: "FileSystem \<Rightarrow> string \<Rightarrow> bytes \<Rightarrow> unit result \<times> FileSystem" where
  "WriteFile fs p b =
     (if p \<in> set (fs_readonly fs) then (Inl (ErrExternal (''open '' @ p @ '': permission denied'')), fs)
      else (Inr (), fs\<lparr>fs_files := (fs_files fs)(p \<mapsto> b)\<rparr>))"

section \<open>The template engine\<close>

text \<open>
  \<open>template.New("").Funcs(...).Parse(string(rf))\<close>, \<open>None\<close> for a parse error,
  and \<open>tpl.Execute\<close> over the table names (both the \<open>tableNames\<close> data and the
  \<open>tableNames\<close> function, which indexes the same slice).
\<close>

record 'tpl TemplateEngine =
  te_Parse :: "bytes \<Rightarrow> 'tpl option"
  te_Execute :: "'tpl \<Rightarrow> ModelTypeNames list \<Rightarrow> bytes result"

section \<open>Gen\<close>

definition taskDir :: string where
  "taskDir = ''./chain/indexer''"

definition Gen :: "'tpl TemplateEngine \<Rightarrow> ModelType list \<Rightarrow> FileSystem \<Rightarrow> unit result \<times> FileSystem" where
  "Gen te Models fs =
     (case ReadFile fs (filepath_Join taskDir ''table_tasks.go.template'') of
        Inl err \<Rightarrow> (Inl (ErrWrapped ''loading registry template'' err), fs)
      | Inr rf \<Rightarrow>
          (let mtn = modelTableNames Models in
           case te_Parse te rf of
             None \<Rightarrow> (Inl (ErrPanic ''template: parse error''), fs)
           | Some tpl \<Rightarrow>
               (case te_Execute te tpl mtn of
                  Inl err \<Rightarrow> (Inl err, fs)
                | Inr b \<Rightarrow> WriteFile fs (filepath_Join taskDir ''table_tasks.go'') b)))"

text \<open>The two paths \<open>Gen\<close> uses, as \<open>filepath.Join\<close> computes them.\<close>

abbreviation templatePath :: string where
  "templatePath \<equiv> ''chain/indexer/table_tasks.go.template''"

abbreviation outputPath :: string where
  "outputPath \<equiv> ''chain/indexer/table_tasks.go''"

text \<open>An example: a store holding the template, an engine that renders each model name on a line.\<close>

definition ex_engine :: "unit TemplateEngine" where
  "ex_engine = \<lparr>te_Parse = (\<lambda>rf. if rf = [] then None else Some ()),
                te_Execute = (\<lambda>_ mtn. Inr (concat (map (\<lambda>n. ModelName n @ [0x0A]) mtn)))\<rparr>"

definition ex_fs :: FileSystem where
  "ex_fs = \<lparr>fs_files = [templatePath \<mapsto> bytes_of ''{{range .tableNames}}''], fs_readonly = []\<rparr>"

definition ex_models :: "ModelType list" where
  "ex_models = [\<lparr>mt_Name = bytes_of ''MinerPower'', mt_tableNameTag = None\<rparr>,
                \<lparr>mt_Name = bytes_of ''ChainReward'', mt_tableNameTag = Some (bytes_of ''chain_rewards'')\<rparr>]"

section \<open>Lemmas\<close>

lemma Gen_paths [simp]:
  "filepath_Join taskDir ''table_tasks.go.template'' = templatePath"
  "filepath_Join taskDir ''table_tasks.go'' = outputPath"
  by (simp_all add: filepath_Join_def taskDir_def)

lemma ReadFile_eq_Inr_iff [result_simps]: "ReadFile fs p = Inr b \<longleftrightarrow> fs_files fs p = Some b"
  by (simp add: ReadFile_def split: option.split)

lemma WriteFile_eq_iff:
  "WriteFile fs p b = (r, fs') \<longleftrightarrow>
     (if p \<in> set (fs_readonly fs) then r = Inl (ErrExternal (''open '' @ p @ '': permission denied'')) \<and> fs' = fs
      else r = Inr () \<and> fs' = fs\<lparr>fs_files := (fs_files fs)(p \<mapsto> b)\<rparr>)"
  by (auto simp: WriteFile_def)

text \<open>
  Every run of \<open>Gen\<close> ends in one of four ways: a read error, a parse panic,
  an execution error (all with the store unchanged), or the result of writing
  the executed template to \<open>table_tasks.go\<close>.
\<close>

lemma Gen_cases:
  "Gen te Models fs = (r, fs') \<longleftrightarrow>
     (fs_files fs templatePath = None \<and>
        r = Inl (ErrWrapped ''loading registry template''
                   (ErrExternal (''open '' @ templatePath @ '': no such file or directory''))) \<and> fs' = fs) \<or>
     (\<exists>rf. fs_files fs templatePath = Some rf \<and>
        (te_Parse te rf = None \<and> r = Inl (ErrPanic ''template: parse error'') \<and> fs' = fs \<or>
         (\<exists>tpl. te_Parse te rf = Some tpl \<and>
            ((\<exists>err. te_Execute te tpl (modelTableNames Models) = Inl err \<and> r = Inl err \<and> fs' = fs) \<or>
             (\<exists>b. te_Execute te tpl (modelTableNames Models) = Inr b \<and> WriteFile fs outputPath b = (r, fs'))))))"
  by (auto simp: Gen_def ReadFile_def Let_def split: option.splits sum.splits)

text \<open>The example run writes one line per model: the underscored type name, or the \<open>pg\<close> tag.\<close>

lemma ex_Gen_run:
  "fs_files (snd (Gen ex_engine ex_models ex_fs)) outputPath =
     Some (bytes_of ''miner_power'' @ [0x0A] @ bytes_of ''chain_rewards'' @ [0x0A])"
  by code_simp

section \<open>Properties\<close>

text \<open>
  C29. \<open>Gen\<close> succeeds exactly when the template file exists, parses and
  executes over the table names of \<open>storage.Models\<close>, and
  \<open>table_tasks.go\<close> is writable; the store it leaves is the old one with
  \<open>table_tasks.go\<close> holding the executed template.
\<close>

lemma Gen_success:
  "Gen te Models fs = (Inr (), fs') \<longleftrightarrow>
     (\<exists>rf tpl b. fs_files fs templatePath = Some rf \<and> te_Parse te rf = Some tpl \<and>
        te_Execute te tpl (modelTableNames Models) = Inr b \<and> outputPath \<notin> set (fs_readonly fs) \<and>
        fs' = fs\<lparr>fs_files := (fs_files fs)(outputPath \<mapsto> b)\<rparr>)"
  unfolding Gen_cases WriteFile_eq_iff by auto

text \<open>
  C30. \<open>Gen\<close> changes no file but \<open>table_tasks.go\<close> (in particular never its
  own template), and when it returns an error the store is unchanged.
\<close>

lemma Gen_frame:
  assumes "Gen te Models fs = (r, fs')"
  shows "(\<forall>p. p \<noteq> outputPath \<longrightarrow> fs_files fs' p = fs_files fs p) \<and> fs_readonly fs' = fs_readonly fs \<and>
         (isl r \<longrightarrow> fs' = fs)"
  using assms unfolding Gen_cases WriteFile_eq_iff by (auto split: if_splits)

lemma Gen_frame_witness:
  "fs_files (snd (Gen ex_engine ex_models ex_fs)) templatePath = Some (bytes_of ''{{range .tableNames}}'')"
  using Gen_frame [of ex_engine ex_models ex_fs "fst (Gen ex_engine ex_models ex_fs)" "snd (Gen ex_engine ex_models ex_fs)"]
  by (simp add: ex_fs_def)

text \<open>
  C31. Regenerating is idempotent: running \<open>Gen\<close> on the store a run left
  gives the same result and the same store again.
\<close>

lemma Gen_idempotent: "Gen te Models (snd (Gen te Models fs)) = Gen te Models fs"
proof (cases "Gen te Models fs")
  case (Pair r fs')
  then consider (same) "fs' = fs"
    | (written) rf tpl b where "fs_files fs templatePath = Some rf" "te_Parse te rf = Some tpl"
        "te_Execute te tpl (modelTableNames Models) = Inr b" "outputPath \<notin> set (fs_readonly fs)"
        "r = Inr ()" "fs' = fs\<lparr>fs_files := (fs_files fs)(outputPath \<mapsto> b)\<rparr>"
    unfolding Gen_cases WriteFile_eq_iff by (auto split: if_splits)
  then show ?thesis
  proof cases
    case same
    with Pair show ?thesis by simp
  next
    case written
    then have "Gen te Models fs' = (Inr (), fs')" by (simp add: Gen_def ReadFile_def WriteFile_def)
    with Pair written(5) show ?thesis by simp
  qed
qed

end
