(* ===== verification/Daemon.thy ===== *)
theory Daemon
  imports Prelude
begin

text \<open>
  The \<open>lily daemon\<close> command of \<open>src/commands/lily/daemon.go\<close>: its flags
  with their defaults, and its \<open>Action\<close> as a sequence of calls to the
  collaborators it drives (the file-system repository, the proof-parameter
  fetcher, the genesis file, the snapshot importer, the node constructor and
  the RPC server). The collaborators are parameters; the model returns the
  calls in the order they are made together with the command's result, so
  that the ordering of the start-up steps can be stated. Logging and the
  expansion of the repository path (which only logs) are left out. The
  start-up order is also stated abstractly, as an inductive automaton over
  the calls (\<open>daemon_step\<close>, \<open>daemon_steps\<close>), which \<open>Action\<close> refines. The
  lemmas show that the node is started only after the repository has been
  initialised, the parameters fetched and any snapshot imported; that an
  existing repository is not an error while every other initialisation error
  stops the command before anything else runs; which node options the flags
  select; and that the \<open>After\<close> hook always runs last.
\<close>

section \<open>Flags\<close>

record daemonOpts =
  opt_api :: string
  opt_repo :: string
  opt_bootstrap :: bool
  opt_config :: string
  opt_importsnapshot :: string
  opt_genesis :: string

text \<open>The flag values when neither the command line nor the environment sets them.\<close>

definition daemonFlags_default :: daemonOpts where
  "daemonFlags_default =
     \<lparr>opt_api = ''1234'', opt_repo = ''~/.lotus'', opt_bootstrap = True, opt_config = [],
      opt_importsnapshot = [], opt_genesis = []\<rparr>"

section \<open>Collaborators and calls\<close>

text \<open>\<open>repo.ErrRepoExists\<close>.\<close>

definition ErrRepoExists :: error where
  "ErrRepoExists = ErrExternal ''repo exists''"

text \<open>The options passed to \<open>node.New\<close> that depend on the flags.\<close>

record NodeOptions =
  no_genesis :: "bytes option"
  no_bootstrapper :: bool
  no_api_endpoint :: "string option"
  no_unset_peermgr :: bool

datatype DaemonCall =
    CallNewFS string
  | CallSetConfigPath string
  | CallInit
  | CallGetParams
  | CallReadFile string
  | CallImportChain string
  | CallNodeNew NodeOptions
  | CallAPIEndpoint
  | CallServeRPC string int64
  | CallDestroy

text \<open>The collaborators over an opened repository \<open>'r\<close>; \<open>None\<close> is a nil error.\<close>

record 'r DaemonEnv =
  env_NewFS :: "string \<Rightarrow> 'r result"
  env_Init :: "'r \<Rightarrow> error option"
  env_GetParams :: "error option"
  env_ReadFile :: "string \<Rightarrow> bytes result"
  env_MaybeGenesis :: bytes
  env_ImportChain :: "'r \<Rightarrow> string \<Rightarrow> error option"
  env_NodeNew :: "NodeOptions \<Rightarrow> error option"
  env_APIEndpoint :: "'r \<Rightarrow> string result"
  env_ServeRPC :: "string \<Rightarrow> int64 \<Rightarrow> error option"
  env_destroy :: "error option"

text \<open>A computation that records the calls it makes before its result.\<close>

type_synonym 'a traced = "DaemonCall list \<times> 'a result"

definition tbind :: "'a traced \<Rightarrow> ('a \<Rightarrow> 'b traced) \<Rightarrow> 'b traced" where
  "tbind m f =
     (case m of
        (t, Inl e) \<Rightarrow> (t, Inl e)
      | (t, Inr x) \<Rightarrow> (case f x of (t', r) \<Rightarrow> (t @ t', r)))"

definition call :: "DaemonCall \<Rightarrow> 'a result \<Rightarrow> 'a traced" where
  "call c r = ([c], r)"

definition errE :: "error option \<Rightarrow> unit result" where
  "errE e = (case e of None \<Rightarrow> Inr () | Some e' \<Rightarrow> Inl e')"

section \<open>The command\<close>

text \<open>
  \<open>LilyDaemon.Action\<close>; \<open>api_set\<close> is \<open>c.IsSet("api")\<close>. \<open>ServeRPC\<close> is called
  with \<open>maxAPIRequestSize = 0\<close>.
\<close>

definition LilyDaemon_Action :: "daemonOpts \<Rightarrow> bool \<Rightarrow> 'r DaemonEnv \<Rightarrow> unit traced" where
  "LilyDaemon_Action opts api_set env =
     tbind (call (CallNewFS (opt_repo opts)) (wrapE ''opening fs repo'' (env_NewFS env (opt_repo opts)))) (\<lambda>r.
     tbind (if opt_config opts \<noteq> [] then call (CallSetConfigPath (opt_config opts)) (Inr ()) else ([], Inr ())) (\<lambda>_.
     tbind (call CallInit
              (case env_Init env r of
                 None \<Rightarrow> Inr ()
               | Some err \<Rightarrow> if err \<noteq> ErrRepoExists then Inl (ErrWrapped ''repo init error'' err) else Inr ())) (\<lambda>_.
     tbind (call CallGetParams (wrapE ''fetching proof parameters'' (errE (env_GetParams env)))) (\<lambda>_.
     tbind (if opt_genesis opts \<noteq> []
            then call (CallReadFile (opt_genesis opts)) (wrapE ''reading genesis'' (env_ReadFile env (opt_genesis opts)))
            else ([], Inr (env_MaybeGenesis env))) (\<lambda>genBytes.
     tbind (if opt_importsnapshot opts \<noteq> []
            then call (CallImportChain (opt_importsnapshot opts)) (errE (env_ImportChain env r (opt_importsnapshot opts)))
            else ([], Inr ())) (\<lambda>_.
     let options = \<lparr>no_genesis = (if 0 < length genBytes then Some genBytes else None),
                    no_bootstrapper = False,
                    no_api_endpoint = (if api_set then Some (''/ip4/127.0.0.1/tcp/'' @ opt_api opts) else None),
                    no_unset_peermgr = (\<not> opt_bootstrap opts)\<rparr>
     in
     tbind (call (CallNodeNew options) (wrapE ''initializing node'' (errE (env_NodeNew env options)))) (\<lambda>_.
     tbind (call CallAPIEndpoint (wrapE ''getting api endpoint'' (env_APIEndpoint env r))) (\<lambda>endpoint.
       call (CallServeRPC endpoint 0) (errE (env_ServeRPC env endpoint 0))))))))))"

text \<open>
  Running the command: the \<open>After\<close> hook \<open>destroy\<close> is called when
  \<open>Action\<close> returns, also when it fails (\<open>cli.Command.Run\<close> defers it); a
  hook error replaces a nil result and joins a non-nil one in a
  \<open>MultiError\<close>.
\<close>

definition LilyDaemon_Run :: "daemonOpts \<Rightarrow> bool \<Rightarrow> 'r DaemonEnv \<Rightarrow> unit traced" where
  "LilyDaemon_Run opts api_set env =
     (case LilyDaemon_Action opts api_set env of
        (t, err) \<Rightarrow>
          (t @ [CallDestroy],
           case env_destroy env of
             None \<Rightarrow> err
           | Some afterErr \<Rightarrow> (case err of Inr _ \<Rightarrow> Inl afterErr | Inl e \<Rightarrow> Inl (ErrMulti [e, afterErr]))))"

text \<open>The calls made before the node is started.\<close>

definition is_node_start :: "DaemonCall \<Rightarrow> bool" where
  "is_node_start c = (case c of CallNodeNew _ \<Rightarrow> True | _ \<Rightarrow> False)"

definition calls_before_node :: "DaemonCall list \<Rightarrow> DaemonCall list" where
  "calls_before_node t = takeWhile (\<lambda>c. \<not> is_node_start c) t"

section \<open>The start-up protocol\<close>

text \<open>
  The order of start-up steps the command promises, as an automaton over its
  calls: open the repository, optionally set the configuration path,
  initialise, fetch the parameters, optionally read a genesis file and import
  a snapshot (in that order), start the node, read the API endpoint, serve;
  the \<open>After\<close> hook may end the run in any phase.
\<close>

datatype DaemonPhase =
    PStart | POpened | PConfigured | PInitialised | PParams | PGenesis | PImported
  | PNode | PEndpoint | PServing | PDestroyed

inductive daemon_step :: "DaemonPhase \<Rightarrow> DaemonCall \<Rightarrow> DaemonPhase \<Rightarrow> bool" where
  open_repo: "daemon_step PStart (CallNewFS p) POpened"
| set_config: "daemon_step POpened (CallSetConfigPath c) PConfigured"
| init: "p \<in> {POpened, PConfigured} \<Longrightarrow> daemon_step p CallInit PInitialised"
| params: "daemon_step PInitialised CallGetParams PParams"
| genesis: "daemon_step PParams (CallReadFile f) PGenesis"
| import: "p \<in> {PParams, PGenesis} \<Longrightarrow> daemon_step p (CallImportChain f) PImported"
| node: "p \<in> {PParams, PGenesis, PImported} \<Longrightarrow> daemon_step p (CallNodeNew nopts) PNode"
| endpoint: "daemon_step PNode CallAPIEndpoint PEndpoint"
| serve: "daemon_step PEndpoint (CallServeRPC e n) PServing"
| destroy: "daemon_step p CallDestroy PDestroyed"

inductive daemon_steps :: "DaemonPhase \<Rightarrow> DaemonCall list \<Rightarrow> DaemonPhase \<Rightarrow> bool" where
  steps_Nil: "daemon_steps p [] p"
| steps_Cons: "daemon_step p c q \<Longrightarrow> daemon_steps q cs r \<Longrightarrow> daemon_steps p (c # cs) r"

section \<open>Example inputs\<close>

text \<open>
  A first run with default flags, a snapshot to import and \<open>--api\<close> set: the
  repository already exists, every other collaborator succeeds, and the
  build has no genesis of its own.
\<close>

definition ex_daemon_env :: "unit DaemonEnv" where
  "ex_daemon_env =
     \<lparr>env_NewFS = (\<lambda>_. Inr ()), env_Init = (\<lambda>_. Some ErrRepoExists), env_GetParams = None,
      env_ReadFile = (\<lambda>_. Inr [1, 2]), env_MaybeGenesis = [], env_ImportChain = (\<lambda>_ _. None),
      env_NodeNew = (\<lambda>_. None), env_APIEndpoint = (\<lambda>_. Inr ''/ip4/127.0.0.1/tcp/1234''),
      env_ServeRPC = (\<lambda>_ _. None), env_destroy = None\<rparr>"

definition ex_daemon_opts :: daemonOpts where
  "ex_daemon_opts = daemonFlags_default\<lparr>opt_importsnapshot := ''chain.car''\<rparr>"

definition ex_daemon_nopts :: NodeOptions where
  "ex_daemon_nopts =
     \<lparr>no_genesis = None, no_bootstrapper = False, no_api_endpoint = Some ''/ip4/127.0.0.1/tcp/1234'',
      no_unset_peermgr = False\<rparr>"

definition ex_daemon_trace :: "DaemonCall list" where
  "ex_daemon_trace =
     [CallNewFS ''~/.lotus'', CallInit, CallGetParams, CallImportChain ''chain.car'', CallNodeNew ex_daemon_nopts,
      CallAPIEndpoint, CallServeRPC ''/ip4/127.0.0.1/tcp/1234'' 0]"

section \<open>Lemmas\<close>

lemma tbind_Inl [simp]: "tbind (t, Inl e) f = (t, Inl e)"
  by (simp add: tbind_def)

lemma tbind_Inr [simp]: "tbind (t, Inr x) f = (case f x of (t', r) \<Rightarrow> (t @ t', r))"
  by (simp add: tbind_def)

lemma call_simps [simp]: "call c r = ([c], r)"
  by (simp add: call_def)


inductive_simps daemon_steps_Nil_iff [simp]: "daemon_steps p [] q"
inductive_simps daemon_steps_Cons_iff [simp]: "daemon_steps p (c # cs) q"
inductive_simps daemon_step_iff [simp]: "daemon_step p c q"

text \<open>\<open>Action\<close> itself never calls the \<open>After\<close> hook.\<close>

lemma tbind_notin:
  "c \<notin> set (fst m) \<Longrightarrow> (\<And>x. c \<notin> set (fst (f x))) \<Longrightarrow> c \<notin> set (fst (tbind m f))"
  by (cases m; cases "snd m") (auto simp: tbind_def split: prod.split, metis fst_conv)

lemma LilyDaemon_Action_no_destroy: "CallDestroy \<notin> set (fst (LilyDaemon_Action opts s env))"
  unfolding LilyDaemon_Action_def Let_def by (intro tbind_notin) simp_all

lemma ex_daemon_run: "LilyDaemon_Action ex_daemon_opts True ex_daemon_env = (ex_daemon_trace, Inr ())"
  by code_simp

lemma ex_daemon_node: "CallNodeNew ex_daemon_nopts \<in> set ex_daemon_trace"
  by (simp add: ex_daemon_trace_def)

section \<open>Properties\<close>

text \<open>
  C32. \<open>Action\<close> refines the start-up protocol: the calls it makes, on every
  path and whatever the collaborators return, are a run of the protocol
  automaton from its start, and a run that returns nil ends serving the API.
\<close>

lemma LilyDaemon_Action_protocol:
  assumes "LilyDaemon_Action opts s env = (t, r)"
  shows "\<exists>p. daemon_steps PStart t p \<and> (r = Inr () \<longrightarrow> p = PServing)"
  using assms [symmetric]
  by (simp add: LilyDaemon_Action_def Let_def errE_def wrapE_def split: sum.split_asm option.split_asm if_split_asm)

lemma LilyDaemon_Action_protocol_witness: "daemon_steps PStart ex_daemon_trace PServing"
  using LilyDaemon_Action_protocol [OF ex_daemon_run] by auto

text \<open>
  C33. The node is started only after the repository has been initialised and
  the proof parameters fetched, after the configuration path has been set
  when one is given, and after the snapshot has been imported when one is
  given.
\<close>

lemma LilyDaemon_node_after_setup:
  assumes "LilyDaemon_Action opts s env = (t, res)" and "CallNodeNew nopts \<in> set t"
  shows "CallInit \<in> set (calls_before_node t) \<and> CallGetParams \<in> set (calls_before_node t) \<and>
         (opt_importsnapshot opts \<noteq> [] \<longrightarrow> CallImportChain (opt_importsnapshot opts) \<in> set (calls_before_node t)) \<and>
         (opt_config opts \<noteq> [] \<longrightarrow> CallSetConfigPath (opt_config opts) \<in> set (calls_before_node t))"
  using assms(1) [symmetric] assms(2)
  by (simp add: LilyDaemon_Action_def Let_def errE_def wrapE_def calls_before_node_def is_node_start_def
      split: sum.split_asm option.split_asm if_split_asm)

lemma LilyDaemon_node_after_setup_witness:
  "CallInit \<in> set (calls_before_node ex_daemon_trace) \<and> CallGetParams \<in> set (calls_before_node ex_daemon_trace) \<and>
   CallImportChain ''chain.car'' \<in> set (calls_before_node ex_daemon_trace)"
  using LilyDaemon_node_after_setup [OF ex_daemon_run ex_daemon_node]
  by (simp add: ex_daemon_opts_def daemonFlags_default_def)

text \<open>
  Whatever \<open>Action\<close> does, the \<open>After\<close> hook \<open>destroy\<close> runs exactly
  once, as the last call; the command succeeds exactly when \<open>Action\<close> and
  \<open>destroy\<close> both succeed, and an error of \<open>Action\<close> is never lost: it is
  the command's error, or the first error of the \<open>MultiError\<close> it forms with
  the hook's.
\<close>

lemma LilyDaemon_Run_destroy_last:
  assumes "LilyDaemon_Run opts s env = (t, res)"
  shows "(\<exists>t'. t = t' @ [CallDestroy] \<and> CallDestroy \<notin> set t') \<and>
         (res = Inr () \<longleftrightarrow> snd (LilyDaemon_Action opts s env) = Inr () \<and> env_destroy env = None) \<and>
         (\<forall>e. snd (LilyDaemon_Action opts s env) = Inl e \<longrightarrow> res = Inl e \<or> (\<exists>e'. res = Inl (ErrMulti [e, e'])))"
proof -
  obtain t0 r0 where act: "LilyDaemon_Action opts s env = (t0, r0)" by fastforce
  with LilyDaemon_Action_no_destroy [of opts s env] have "CallDestroy \<notin> set t0" by simp
  with act assms show ?thesis
    by (auto simp: LilyDaemon_Run_def split: option.splits sum.splits)
qed

text \<open>
  C34. Initialising a repository that already exists is not an error: the
  command continues exactly as after a fresh initialisation. Any other
  initialisation error ends the command with that error, wrapped, after the
  repository was opened (and its configuration path set) and before anything
  else is done.
\<close>

lemma LilyDaemon_repo_init:
  assumes "env_NewFS env (opt_repo opts) = Inr r"
  shows "LilyDaemon_Action opts s (env\<lparr>env_Init := \<lambda>_. Some ErrRepoExists\<rparr>) =
           LilyDaemon_Action opts s (env\<lparr>env_Init := \<lambda>_. None\<rparr>) \<and>
         (err \<noteq> ErrRepoExists \<longrightarrow>
           LilyDaemon_Action opts s (env\<lparr>env_Init := \<lambda>_. Some err\<rparr>) =
             (CallNewFS (opt_repo opts) # (if opt_config opts \<noteq> [] then [CallSetConfigPath (opt_config opts)] else []) @
                [CallInit], Inl (ErrWrapped ''repo init error'' err)))"
  using assms by (simp add: LilyDaemon_Action_def)

lemma LilyDaemon_repo_init_witness:
  "LilyDaemon_Action ex_daemon_opts True (ex_daemon_env\<lparr>env_Init := \<lambda>_. Some ErrRepoExists\<rparr>) =
     LilyDaemon_Action ex_daemon_opts True (ex_daemon_env\<lparr>env_Init := \<lambda>_. None\<rparr>) \<and>
   LilyDaemon_Action ex_daemon_opts True (ex_daemon_env\<lparr>env_Init := \<lambda>_. Some (ErrExternal ''permission denied'')\<rparr>) =
     ([CallNewFS ''~/.lotus'', CallInit], Inl (ErrWrapped ''repo init error'' (ErrExternal ''permission denied'')))"
  using LilyDaemon_repo_init [where env=ex_daemon_env and opts=ex_daemon_opts and r="()" and s=True
      and err="ErrExternal ''permission denied''"]
  by (simp add: ex_daemon_env_def ex_daemon_opts_def daemonFlags_default_def ErrRepoExists_def)

text \<open>
  C35. The node options follow the flags: the peer manager is removed exactly
  when \<open>--bootstrap\<close> is false, the node is never a bootstrapper, the API
  endpoint is overridden to \<open>/ip4/127.0.0.1/tcp/<api>\<close> exactly when
  \<open>--api\<close> is set, and the genesis override is the non-empty contents of the
  \<open>--genesis\<close> file, or else the build's genesis when it is non-empty.
\<close>

lemma LilyDaemon_node_options:
  assumes "LilyDaemon_Action opts s env = (t, res)" and "CallNodeNew nopts \<in> set t"
  shows "no_unset_peermgr nopts = (\<not> opt_bootstrap opts) \<and> \<not> no_bootstrapper nopts \<and>
         no_api_endpoint nopts = (if s then Some (''/ip4/127.0.0.1/tcp/'' @ opt_api opts) else None) \<and>
         (opt_genesis opts = [] \<longrightarrow>
            no_genesis nopts = (if env_MaybeGenesis env = [] then None else Some (env_MaybeGenesis env))) \<and>
         (opt_genesis opts \<noteq> [] \<longrightarrow>
            (\<exists>g. env_ReadFile env (opt_genesis opts) = Inr g \<and> no_genesis nopts = (if g = [] then None else Some g)))"
  using assms(1) [symmetric] assms(2)
  by (simp add: LilyDaemon_Action_def Let_def errE_def wrapE_def split: sum.split_asm option.split_asm if_split_asm)
     auto

lemma LilyDaemon_node_options_witness:
  "no_unset_peermgr ex_daemon_nopts = False \<and>
   no_api_endpoint ex_daemon_nopts = Some ''/ip4/127.0.0.1/tcp/1234'' \<and> no_genesis ex_daemon_nopts = None"
  using LilyDaemon_node_options [OF ex_daemon_run ex_daemon_node]
  by (simp add: ex_daemon_opts_def daemonFlags_default_def ex_daemon_env_def)

end
