(* ===== verification/Spec2Isabelle.thy ===== *)
theory Spec2Isabelle
  imports FeeDebt PreCommitInfo Market PowerV9 Reward TableTasks Gen Daemon
begin

text \<open>
  \<^bold>\<open>A verification development of the versioned actor-state extraction core
  of lily (CIDgravity/lily).\<close>

  \<^bold>\<open>The program.\<close> lily indexes Filecoin actor state. For each actor and
  tipset, an extractor loads the actor's state at the current tipset and at
  the tipset before it, compares them (directly for scalar fields, through a
  differencing engine for large keyed collections), and emits records that
  can render themselves in every supported schema version; the storage layer
  persists them. The sources under \<open>src/\<close> are: a protocol-version adapter of
  the storage-power actor (\<open>chain/actors/builtin/power/v9.go\<close>), the reward
  extractor (\<open>tasks/actorstate/reward.go\<close>), the miner fee-debt and pre-commit
  extractors with their versioned records
  (\<open>tasks/actorstate/miner/tasks/extractors/\<close>), the market extraction context
  and label sanitiser (\<open>tasks/actorstate/market/market.go\<close>), the generator of
  table-name constants and its output (\<open>chain/indexer/\<close>), and the daemon
  command (\<open>commands/lily/daemon.go\<close>).

  \<^bold>\<open>Theories.\<close>
  \<^item> \<open>Prelude\<close>: bytes and \<open>int64\<close> as words; the \<open>error\<close> type and the result
    combinators \<open>bindE\<close> (Go's \<open>if err != nil { return err }\<close>), \<open>wrapE\<close>
    (\<open>xerrors.Errorf("msg: %w", err)\<close>) and \<open>mapE\<close>; \<open>big.Int\<close> values as a
    pointer and the integer it points to, with Go's pointer \<open>==\<close> and
    \<open>big.Int.Equals\<close>; \<open>big.Int.String\<close> and its left inverse
    \<open>parse_numeric\<close>; the storage batch with \<open>PersistModel\<close>, and
    \<open>persist_each\<close>, the per-row fallback loop the record lists share.
  \<^item> \<open>Chain\<close> (modelled from the specification, not part of \<open>src/\<close>):
    tipsets, actors, addresses (\<open>NewFromBytes\<close>, \<open>Bytes\<close>, \<open>String\<close>), the
    content-addressed store, the loader that dispatches on an actor's code
    identifier (\<open>Load\<close>), and the heap of loaded states: every load
    allocates a new object (\<open>LoadRef\<close>), so pointer identity of states is
    equality of references. \<open>genesis_inv\<close> is the specification's genesis
    invariant of an extraction context.
  \<^item> \<open>Diff\<close> (specification, section 4.3): the differencing engine over two
    key-ordered collections, its reference semantics \<open>entry_of\<close>, and the
    proof that the co-traversal reports exactly the prescribed entry for
    every key (\<open>diff_merge_correct\<close>).
  \<^item> \<open>MinerContext\<close> (specification, sections 4.2 and 4.4): the miner-state
    capability interface, \<open>MinerStateExtractionContext\<close> built like the
    market context of \<open>src/\<close>, \<open>HasPreviousState\<close>, and \<open>GetPreCommitDiff\<close>.
  \<^item> \<open>PreCommitInfo\<close>: \<open>precommitinfo.go\<close>. The records are exactly the
    pre-commits new in the current state (a refinement of the diff's
    contract), none at genesis, none on a decode error; \<open>AsVersion\<close> and the
    legacy persist path.
  \<^item> \<open>FeeDebt\<close>: \<open>feedebt.go\<close> line by line. A record is emitted for an
    unchanged debt whenever there is a previous state (Go's \<open>==\<close> compares
    pointers); the errors, the read-back of the debt column, \<open>AsVersion\<close> and
    the legacy persist path.
  \<^item> \<open>Utf8\<close> (Go libraries, not part of \<open>src/\<close>): \<open>utf8.DecodeRune\<close>'s
    tables, \<open>utf8.ValidString\<close> and \<open>runes.ReplaceIllFormed\<close>, with the
    lemmas that replacement yields valid UTF-8 and keeps well-formed runes.
  \<^item> \<open>Market\<close>: \<open>market.go\<close>. \<open>NewMarketStateExtractionContext\<close> over the
    heap (genesis invariant, which states it loads, every error branch),
    \<open>IsGenesis\<close>, \<open>StorageMarketExtractor.Extract\<close>, and \<open>SanitizeLabel\<close>
    (valid output, equal to \<open>ReplaceIllFormed\<close>, identity exactly on valid
    input, length bounds, replacement of exactly the ill-formed bytes).
  \<^item> \<open>PowerV9\<close>: \<open>v9.go\<close>. The claims HAMT is its entries in iteration order and
    \<open>adt.Map.ForEach\<close> a fallible fold. \<open>ForEachClaim\<close> and \<open>MinerPower\<close> agree,
    \<open>ListAllMiners\<close> lists the same miners as \<open>ForEachClaim\<close> and round-trips
    the keys, the first failing entry decides \<open>ForEachClaim\<close>'s error,
    \<open>ClaimsChanged\<close> is sound, and \<open>MinerCounts\<close> wraps signed counts
    modulo 2^64. \<open>ClaimsMapHashFunction\<close> returns the slice of
    \<open>sha256.Sum256\<close>, a parameter.
  \<^item> \<open>Reward\<close>: \<open>reward.go\<close>. The extractor never returns nil, returns a row
    exactly when all its calls succeed, its columns read back as the getters'
    values, and its errors are the calls' own.
  \<^item> \<open>TableGen\<close>: \<open>gen.go\<close> over bytes. The index loop of \<open>Underscore\<close>
    is modelled twice: as a recursive \<open>function\<close> (\<open>Underscore_loop\<close>) and
    in its imperative shape as \<open>while_option\<close> over \<open>(i, r)\<close>
    (\<open>Underscore_for\<close>), which is proved totally correct: it returns on
    every input, with the per-byte reference rendering. The loop equals a per-byte reference rendering; its output has no capital, differs
    from the input only by lowercasing and inserted underscores, and is at
    most twice as long; \<open>ToUpper\<close>/\<open>ToLower\<close> invert each other on letters
    and wrap elsewhere; \<open>ToExported\<close>.
  \<^item> \<open>TableTasks\<close>: the generated \<open>table_tasks.go\<close>: \<open>AllTableTasks\<close> is
    duplicate-free with the keys of \<open>TableLookup\<close>, and the constants are what
    the generator produces, except six tagged tables.
  \<^item> \<open>Gen\<close>: \<open>Gen\<close> of \<open>gen.go\<close> over an explicit file store (a map from
    paths to contents and the read-only paths), with \<open>text/template\<close>'s
    parser and executor as parameters: it succeeds exactly when the template
    is read, parsed and executed over \<open>modelTableNames\<close> and
    \<open>table_tasks.go\<close> is written; it changes no other file and nothing on
    an error; running it again changes nothing.
  \<^item> \<open>Daemon\<close>: \<open>daemon.go\<close>'s flags and \<open>Action\<close> as an ordered sequence of
    calls to its collaborators. Its abstract specification is an inductive
    start-up automaton over the calls (\<open>daemon_step\<close>, with its
    \<open>inductive_simps\<close>), and every trace of \<open>Action\<close> is a run of it that
    ends serving when the command returns nil. The node starts only after the set-up steps,
    an existing repository is tolerated while other init errors stop the
    command, and the node options follow the flags. \<open>LilyDaemon_Run\<close>
    adds the \<open>After\<close> hook as \<open>cli.Command.Run\<close> runs it: always, last, its
    error joined with the action's.

  \<^bold>\<open>Modelling choices.\<close> Go's \<open>(value, error)\<close> returns are \<open>error + 'a\<close>;
  every early return of the source is a branch of the model. \<open>int64\<close>,
  \<open>uint64\<close> and \<open>byte\<close> are words, so conversions and \<open>c - 32\<close> wrap as in
  Go; \<open>big.Int\<close> amounts are \<open>int\<close>. CIDs are represented by their canonical
  strings. External collaborators (the node's chain lookup, the store, a
  state's capability methods, codecs, the daemon's lotus services) are record
  fields of functions, so every lemma holds for any collaborator and a
  witness instantiates a concrete one. Nothing needs fuel: every loop of the
  source runs over a finite list or index range; the loops that are not
  structural (\<open>ValidString\<close>/\<open>ReplaceIllFormed\<close> over runes and the index loop
  of \<open>Underscore\<close>) are \<open>function\<close>s with termination proofs by the measure
  \<open>length\<close> or \<open>len(s) - i\<close>; the \<open>while_option\<close> form of the
  \<open>Underscore\<close> loop, which could be \<open>None\<close>, is proved to be \<open>Some\<close> on
  every input by induction on the same measure.

  \<^bold>\<open>Not modelled.\<close> Tracing, metrics, logging and contexts (they carry no
  data the model needs); the HAMT's node layout and SHA-256 itself (a
  parameter of \<open>ClaimsMapHashFunction\<close>) and the body of
  \<open>MinerNominalPowerMeetsConsensusMinimum\<close> in go-state-types (its
  delegation is modelled); CBOR encoding (a block decodes or does not);
  \<open>text/template\<close>'s language (a parameter of \<open>Gen\<close>); the one-line
  \<open>init\<close> functions that register the extractors in tables defined outside
  \<open>src/\<close> (the dispatch by code identifier is outside the per-extractor
  contract modelled here); the binding of the daemon's flags to environment
  variables (the cli library's; the flag values are an input) and its
  \<open>homedir.Expand\<close> block, which only logs; the storage engine's own
  failures.
\<close>

end
